theory Spec2Isabelle
  imports Complex_Main
begin

section \<open>Tables\<close>

text \<open>
  The three notebooks (\<^verbatim>\<open>evaluating_stakeholder_needs.ipynb\<close>,
  \<^verbatim>\<open>exercises_life_expectancy.ipynb\<close>, \<^verbatim>\<open>exercises_air_quality.ipynb\<close>) work on
  pandas tables. A cell of a table is missing (\<open>NaN\<close>), a number or a string; floating
  point numbers are idealised as reals. A table is the list of its named columns, in
  order; a labelled series is a list of (label, value) pairs, and a correlation
  matrix is a list of named series.
\<close>

datatype cell = NaN | Num real | Str string

type_synonym column = "cell list"
type_synonym frame = "(string \<times> column) list"
type_synonym series = "(string \<times> cell) list"
type_synonym cmatrix = "(string \<times> series) list"

text \<open>
  Exceptions are values. \<open>Raised\<close> is an exception thrown inside a numerical routine of
  scikit-learn, statsmodels or seaborn, with its message.
\<close>

datatype error =
    NameError string
  | KeyError "string list"
  | FileNotFoundError string
  | ValueError string
  | NotFittedError string
  | Raised string

subsection \<open>The pandas operations the notebooks call\<close>

definition columns :: "frame \<Rightarrow> string list" where
  "columns d = map fst d"

definition nrows :: "frame \<Rightarrow> nat" where
  "nrows d = (case d of [] \<Rightarrow> 0 | (_, c) # _ \<Rightarrow> length c)"

text \<open>\<^verbatim>\<open>df["name"]\<close>: the column, or KeyError.\<close>

definition getitem :: "(string \<times> 'a) list \<Rightarrow> string \<Rightarrow> error + 'a" where
  "getitem d name = (case map_of d name of None \<Rightarrow> Inl (KeyError [name]) | Some c \<Rightarrow> Inr c)"

text \<open>\<^verbatim>\<open>df[labels]\<close>: the listed columns in the listed order; KeyError names every
  label that is not a column.\<close>

definition getitems :: "frame \<Rightarrow> string list \<Rightarrow> error + frame" where
  "getitems d names =
     (let missing = filter (\<lambda>n. n \<notin> set (columns d)) names
      in if missing \<noteq> [] then Inl (KeyError missing)
         else Inr (map (\<lambda>n. (n, the (map_of d n))) names))"

text \<open>\<^verbatim>\<open>df["name"] = values\<close>: replaces the column where it stands, or appends it.\<close>

definition setitem :: "frame \<Rightarrow> string \<Rightarrow> column \<Rightarrow> frame" where
  "setitem d name vals =
     (if name \<in> set (columns d) then map (\<lambda>(n, c). if n = name then (n, vals) else (n, c)) d
      else d @ [(name, vals)])"

text \<open>\<^verbatim>\<open>fillna(v)\<close>: every missing cell becomes \<open>v\<close>, every other cell stays.\<close>

definition fill_cell :: "real \<Rightarrow> cell \<Rightarrow> cell" where
  "fill_cell v c = (case c of NaN \<Rightarrow> Num v | _ \<Rightarrow> c)"

definition fillna :: "real \<Rightarrow> frame \<Rightarrow> frame" where
  "fillna v d = map (\<lambda>(n, c). (n, map (fill_cell v) c)) d"

text \<open>\<^verbatim>\<open>drop(labels, axis = "columns")\<close>: KeyError names the labels that are not
  columns.\<close>

definition drop_columns :: "string list \<Rightarrow> frame \<Rightarrow> error + frame" where
  "drop_columns labels d =
     (let missing = filter (\<lambda>n. n \<notin> set (columns d)) labels
      in if missing \<noteq> [] then Inl (KeyError missing)
         else Inr (filter (\<lambda>(n, c). n \<notin> set labels) d))"

text \<open>\<^verbatim>\<open>reset_index()\<close> on a table with the default row index: the old index becomes
  a first column, named \<open>index\<close>, or \<open>level_0\<close> when \<open>index\<close> is taken; inserting a
  name that exists already raises ValueError.\<close>

definition reset_index :: "frame \<Rightarrow> error + frame" where
  "reset_index d =
     (let name = (if ''index'' \<notin> set (columns d) then ''index'' else ''level_0'')
      in if name \<in> set (columns d) then Inl (ValueError name)
         else Inr ((name, map (\<lambda>i. Num (real i)) [0 ..< nrows d]) # d))"

subsection \<open>Correlation\<close>

text \<open>
  \<^verbatim>\<open>df.corr()\<close> is the Pearson correlation of every pair of numeric columns, each
  pair over the rows where both cells are present. A pair with no complete row, or
  with a zero sum of squared deviations on either side, has no correlation: the entry
  is \<open>NaN\<close>.
\<close>

definition is_numeric :: "column \<Rightarrow> bool" where
  "is_numeric c = list_all (\<lambda>x. case x of Str _ \<Rightarrow> False | _ \<Rightarrow> True) c"

fun complete_pairs :: "column \<Rightarrow> column \<Rightarrow> (real \<times> real) list" where
  "complete_pairs (Num a # xs) (Num b # ys) = (a, b) # complete_pairs xs ys"
| "complete_pairs (_ # xs) (_ # ys) = complete_pairs xs ys"
| "complete_pairs _ _ = []"

definition mean :: "real list \<Rightarrow> real" where
  "mean xs = sum_list xs / real (length xs)"

definition codev :: "(real \<times> real) list \<Rightarrow> real" where
  "codev ps =
     (let mx = mean (map fst ps); my = mean (map snd ps)
      in sum_list (map (\<lambda>(a, b). (a - mx) * (b - my)) ps))"

definition ssd :: "real list \<Rightarrow> real" where
  "ssd xs = (let m = mean xs in sum_list (map (\<lambda>a. (a - m) * (a - m)) xs))"

definition pearson :: "column \<Rightarrow> column \<Rightarrow> cell" where
  "pearson xs ys =
     (let ps = complete_pairs xs ys
      in if ps = [] then NaN
         else let divisor = sqrt (ssd (map fst ps) * ssd (map snd ps))
              in if divisor \<noteq> 0 then Num (codev ps / divisor) else NaN)"

definition corr :: "frame \<Rightarrow> cmatrix" where
  "corr d =
     (let num = filter (\<lambda>(n, c). is_numeric c) d
      in map (\<lambda>(a, xs). (a, map (\<lambda>(b, ys). (b, pearson xs ys)) num)) num)"

text \<open>\<^verbatim>\<open>round(2)\<close> on a table of correlations: every number goes through the rounding
  routine \<open>r\<close> of the numerical library, a missing value stays missing.\<close>

definition round_cell :: "(real \<Rightarrow> real) \<Rightarrow> cell \<Rightarrow> cell" where
  "round_cell r c = (case c of Num x \<Rightarrow> Num (r x) | _ \<Rightarrow> c)"

definition round_matrix :: "(real \<Rightarrow> real) \<Rightarrow> cmatrix \<Rightarrow> cmatrix" where
  "round_matrix r m = map (\<lambda>(a, s). (a, map (\<lambda>(b, c). (b, round_cell r c)) s)) m"

text \<open>\<^verbatim>\<open>s[np.absolute(s) > t]\<close>: the entries whose absolute value exceeds \<open>t\<close>; a
  comparison with \<open>NaN\<close> is false.\<close>

definition exceeds :: "real \<Rightarrow> cell \<Rightarrow> bool" where
  "exceeds t c = (case c of Num x \<Rightarrow> t < \<bar>x\<bar> | _ \<Rightarrow> False)"

definition above_threshold :: "real \<Rightarrow> series \<Rightarrow> series" where
  "above_threshold t s = filter (\<lambda>(n, c). exceeds t c) s"

definition index :: "series \<Rightarrow> string list" where
  "index s = map fst s"


section \<open>The libraries and the kernel\<close>

text \<open>
  The numerical routines of numpy, scikit-learn, statsmodels and seaborn are not part of
  the repository: the notebooks are modelled over any library \<open>lib\<close> that provides them. A
  routine returns its value or the message of the exception it raises. \<open>round2\<close> is
  \<^verbatim>\<open>round(2)\<close> on a floating-point number, whose result depends on the binary
  representation of the number and of its product with 100. \<open>ols_summary\<close> takes the time
  of the call, which \<^verbatim>\<open>results.summary()\<close> prints in the header of the table.
  \<open>train_test_split\<close> takes \<^verbatim>\<open>test_size\<close>, the optional \<^verbatim>\<open>random_state\<close> and the
  state of the global random generator, which is what a call without a seed draws from.
\<close>

datatype table = DataFrame frame | Array "real list list"

datatype 'p estimator = Unfitted | Fitted 'p

type_synonym scaler = "real list \<times> real list"
type_synonym linmodel = "real \<times> real list"
type_synonym ols_model = "column \<times> table"
type_synonym ols_results = "real list list"

record lib =
  load_diabetes :: "frame \<times> string"
  round2 :: "real \<Rightarrow> real"
  train_test_split ::
    "frame \<Rightarrow> column \<Rightarrow> real \<Rightarrow> nat option \<Rightarrow> nat \<Rightarrow> string + (frame \<times> frame \<times> column \<times> column)"
  scaler_fit_transform :: "table \<Rightarrow> string + (scaler \<times> real list list)"
  scaler_transform :: "scaler \<Rightarrow> table \<Rightarrow> string + real list list"
  lr_fit :: "table \<Rightarrow> column \<Rightarrow> string + linmodel"
  lr_predict :: "linmodel \<Rightarrow> table \<Rightarrow> string + real list"
  r2_score :: "column \<Rightarrow> real list \<Rightarrow> string + real"
  mean_squared_error :: "column \<Rightarrow> real list \<Rightarrow> string + real"
  add_constant :: "table \<Rightarrow> string + table"
  ols_new :: "column \<Rightarrow> table \<Rightarrow> string + ols_model"
  ols_fit :: "ols_model \<Rightarrow> string + ols_results"
  ols_summary :: "ols_results \<Rightarrow> string list \<Rightarrow> nat \<Rightarrow> string + string"
  pairplot :: "frame \<Rightarrow> string option"
  regplot :: "string \<Rightarrow> string \<Rightarrow> frame \<Rightarrow> string option"

text \<open>The world outside a notebook: the CSV files on disk, as \<^verbatim>\<open>read_csv\<close> parses
  them, the state of the global random generator, and the wall clock.\<close>

record world =
  files :: "string \<rightharpoonup> frame"
  entropy :: nat
  clock :: nat

text \<open>What a notebook shows, and the events of a run: a read of input data, a call of
  a library routine (kept to tell the order of the steps), an output.\<close>

datatype shown =
    Text string
  | Metric string real
  | ShownMatrix cmatrix
  | ShownSeries series
  | ShownInfo frame
  | Pairplot frame
  | Regplot string string frame

datatype event = Read string | Call string | Output shown

text \<open>The kernel: one field per variable a notebook binds (\<open>None\<close> while unbound), and
  the events so far.\<close>

record kernel =
  var_db :: "(frame \<times> string) option"
  var_df :: "frame option"
  var_df_corr :: "cmatrix option"
  var_target_corr :: "series option"
  var_y_corr :: "series option"
  var_X :: "frame option"
  var_y :: "column option"
  var_X_train :: "table option"
  var_X_test :: "table option"
  var_y_train :: "column option"
  var_y_test :: "column option"
  var_sc :: "scaler estimator option"
  var_lr :: "linmodel estimator option"
  var_y_preds :: "real list option"
  var_x_train :: "table option"
  var_model :: "ols_model option"
  var_results :: "ols_results option"
  events :: "event list"

definition init :: kernel where
  "init = \<lparr>var_db = None, var_df = None, var_df_corr = None, var_target_corr = None,
     var_y_corr = None, var_X = None, var_y = None, var_X_train = None, var_X_test = None,
     var_y_train = None, var_y_test = None, var_sc = None, var_lr = None,
     var_y_preds = None, var_x_train = None, var_model = None, var_results = None,
     events = []\<rparr>"

type_synonym stmt = "kernel \<Rightarrow> error + kernel"

text \<open>Reading a variable (NameError while unbound), continuing after a pandas
  operation, after a library routine, and after a fitted estimator.\<close>

definition rd :: "string \<Rightarrow> 'a option \<Rightarrow> ('a \<Rightarrow> error + 'b) \<Rightarrow> error + 'b" where
  "rd name v f = (case v of None \<Rightarrow> Inl (NameError name) | Some a \<Rightarrow> f a)"

definition on_ok :: "error + 'a \<Rightarrow> ('a \<Rightarrow> error + 'b) \<Rightarrow> error + 'b" where
  "on_ok r f = (case r of Inl e \<Rightarrow> Inl e | Inr a \<Rightarrow> f a)"

definition call :: "string + 'a \<Rightarrow> ('a \<Rightarrow> error + 'b) \<Rightarrow> error + 'b" where
  "call r f = (case r of Inl m \<Rightarrow> Inl (Raised m) | Inr a \<Rightarrow> f a)"

definition fitted :: "string \<Rightarrow> 'p estimator \<Rightarrow> ('p \<Rightarrow> error + 'b) \<Rightarrow> error + 'b" where
  "fitted name e f = (case e of Unfitted \<Rightarrow> Inl (NotFittedError name) | Fitted p \<Rightarrow> f p)"

definition emit :: "event list \<Rightarrow> kernel \<Rightarrow> kernel" where
  "emit evs k = k\<lparr>events := events k @ evs\<rparr>"

text \<open>Statements run in order; an exception stops the run where it is raised, and the
  kernel keeps what the statements before it bound.\<close>

fun exec :: "stmt list \<Rightarrow> kernel \<Rightarrow> kernel \<times> error option" where
  "exec [] k = (k, None)"
| "exec (s # ss) k = (case s k of Inl e \<Rightarrow> (k, Some e) | Inr k' \<Rightarrow> exec ss k')"

definition run :: "stmt list list \<Rightarrow> kernel \<times> error option" where
  "run cells = exec (concat cells) init"


section \<open>The statements of the notebooks\<close>

subsection \<open>Loading and cleaning\<close>

text \<open>\<^verbatim>\<open>db = datasets.load_diabetes(as_frame = True)\<close>, \<^verbatim>\<open>df = db.frame\<close>,
  \<^verbatim>\<open>print(db.DESCR)\<close>.\<close>

definition main_load :: "lib \<Rightarrow> stmt" where
  "main_load l k =
     Inr (emit [Call ''load_diabetes'', Read ''diabetes''] (k\<lparr>var_db := Some (load_diabetes l)\<rparr>))"

definition main_frame :: stmt where
  "main_frame k = rd ''db'' (var_db k) (\<lambda>b. Inr (k\<lparr>var_df := Some (fst b)\<rparr>))"

definition main_print_descr :: stmt where
  "main_print_descr k = rd ''db'' (var_db k) (\<lambda>b. Inr (emit [Output (Text (snd b))] k))"

text \<open>\<^verbatim>\<open>df = pd.read_csv(name)\<close>.\<close>

definition read_csv :: "world \<Rightarrow> string \<Rightarrow> stmt" where
  "read_csv w name k =
     (case files w name of
        None \<Rightarrow> Inl (FileNotFoundError name)
      | Some t \<Rightarrow> Inr (emit [Call ''read_csv'', Read name] (k\<lparr>var_df := Some t\<rparr>)))"

text \<open>\<^verbatim>\<open>df["status"] = [1 if d == "Developed" else 0 for d in df["status"]]\<close>.\<close>

definition recode_status :: "cell \<Rightarrow> cell" where
  "recode_status d = (if d = Str ''Developed'' then Num 1 else Num 0)"

definition life_recode :: stmt where
  "life_recode k =
     rd ''df'' (var_df k) (\<lambda>d.
     on_ok (getitem d ''status'') (\<lambda>c.
     Inr (k\<lparr>var_df := Some (setitem d ''status'' (map recode_status c))\<rparr>)))"

text \<open>\<^verbatim>\<open>df = df.fillna(0)\<close>, \<^verbatim>\<open>df = df.reset_index()\<close>, \<^verbatim>\<open>df.info()\<close>.\<close>

definition df_fillna :: stmt where
  "df_fillna k =
     rd ''df'' (var_df k) (\<lambda>d. Inr (emit [Call ''fillna''] (k\<lparr>var_df := Some (fillna 0 d)\<rparr>)))"

definition df_reset_index :: stmt where
  "df_reset_index k =
     rd ''df'' (var_df k) (\<lambda>d.
     on_ok (reset_index d) (\<lambda>d'. Inr (k\<lparr>var_df := Some d'\<rparr>)))"

definition df_info :: stmt where
  "df_info k = rd ''df'' (var_df k) (\<lambda>d. Inr (emit [Output (ShownInfo d)] k))"

subsection \<open>Correlation and selection\<close>

text \<open>\<^verbatim>\<open>df_corr = df.corr().round(2)\<close>, and \<^verbatim>\<open>df_corr\<close> as the last line of a cell.\<close>

definition assign_df_corr :: "lib \<Rightarrow> stmt" where
  "assign_df_corr l k =
     rd ''df'' (var_df k) (\<lambda>d.
     Inr (emit [Call ''corr''] (k\<lparr>var_df_corr := Some (round_matrix (round2 l) (corr d))\<rparr>)))"

definition show_df_corr :: stmt where
  "show_df_corr k = rd ''df_corr'' (var_df_corr k) (\<lambda>m. Inr (emit [Output (ShownMatrix m)] k))"

text \<open>\<^verbatim>\<open>target_corr = df_corr["target"][(np.absolute(df_corr["target"])>t)]\<close> in the
  main notebook, \<^verbatim>\<open>y_corr = df_corr[outcome][np.absolute(df_corr[outcome])>t]\<close> in the
  exercises, and the variable as the last line of a cell.\<close>

definition assign_target_corr :: "real \<Rightarrow> stmt" where
  "assign_target_corr t k =
     rd ''df_corr'' (var_df_corr k) (\<lambda>m.
     on_ok (getitem m ''target'') (\<lambda>s.
     Inr (k\<lparr>var_target_corr := Some (above_threshold t s)\<rparr>)))"

definition show_target_corr :: stmt where
  "show_target_corr k =
     rd ''target_corr'' (var_target_corr k) (\<lambda>s. Inr (emit [Output (ShownSeries s)] k))"

definition assign_y_corr :: "string \<Rightarrow> real \<Rightarrow> stmt" where
  "assign_y_corr outcome t k =
     rd ''df_corr'' (var_df_corr k) (\<lambda>m.
     on_ok (getitem m outcome) (\<lambda>s.
     Inr (k\<lparr>var_y_corr := Some (above_threshold t s)\<rparr>)))"

definition show_y_corr :: stmt where
  "show_y_corr k = rd ''y_corr'' (var_y_corr k) (\<lambda>s. Inr (emit [Output (ShownSeries s)] k))"

text \<open>\<^verbatim>\<open>sns.pairplot(df[target_corr.index])\<close>; the selecting variable is \<open>target_corr\<close>
  or \<open>y_corr\<close>.\<close>

definition pairplot_selected :: "lib \<Rightarrow> string \<Rightarrow> (kernel \<Rightarrow> series option) \<Rightarrow> stmt" where
  "pairplot_selected l name sel k =
     rd ''df'' (var_df k) (\<lambda>d.
     rd name (sel k) (\<lambda>s.
     on_ok (getitems d (index s)) (\<lambda>x.
     (case pairplot l x of
        Some m \<Rightarrow> Inl (Raised m)
      | None \<Rightarrow> Inr (emit [Call ''pairplot'', Output (Pairplot x)] k)))))"

subsection \<open>Features, target, split and scaling\<close>

text \<open>\<^verbatim>\<open>X = df[target_corr.index]\<close>, \<^verbatim>\<open>X = X.fillna(0)\<close>,
  \<^verbatim>\<open>X = X.drop(labels, axis = "columns")\<close>, \<^verbatim>\<open>y = df[outcome]\<close>.\<close>

definition assign_X_selected :: "string \<Rightarrow> (kernel \<Rightarrow> series option) \<Rightarrow> stmt" where
  "assign_X_selected name sel k =
     rd ''df'' (var_df k) (\<lambda>d.
     rd name (sel k) (\<lambda>s.
     on_ok (getitems d (index s)) (\<lambda>x. Inr (k\<lparr>var_X := Some x\<rparr>))))"

definition X_fillna :: stmt where
  "X_fillna k =
     rd ''X'' (var_X k) (\<lambda>x. Inr (emit [Call ''fillna''] (k\<lparr>var_X := Some (fillna 0 x)\<rparr>)))"

definition X_drop :: "string list \<Rightarrow> stmt" where
  "X_drop labels k =
     rd ''X'' (var_X k) (\<lambda>x.
     on_ok (drop_columns labels x) (\<lambda>x'. Inr (k\<lparr>var_X := Some x'\<rparr>)))"

definition assign_y :: "string \<Rightarrow> stmt" where
  "assign_y outcome k =
     rd ''df'' (var_df k) (\<lambda>d.
     on_ok (getitem d outcome) (\<lambda>c. Inr (k\<lparr>var_y := Some c\<rparr>)))"

text \<open>\<^verbatim>\<open>X_train, X_test, y_train, y_test = train_test_split(X, y, test_size=0.2,
  random_state=seed)\<close>.\<close>

definition split :: "lib \<Rightarrow> world \<Rightarrow> nat \<Rightarrow> stmt" where
  "split l w seed k =
     rd ''X'' (var_X k) (\<lambda>x.
     rd ''y'' (var_y k) (\<lambda>yv.
     call (train_test_split l x yv 0.2 (Some seed) (entropy w)) (\<lambda>(xtr, xte, ytr, yte).
     Inr (emit [Call ''train_test_split'']
       (k\<lparr>var_X_train := Some (DataFrame xtr), var_X_test := Some (DataFrame xte),
          var_y_train := Some ytr, var_y_test := Some yte\<rparr>)))))"

text \<open>\<^verbatim>\<open>sc = StandardScaler()\<close>, \<^verbatim>\<open>X_train = sc.fit_transform(X_train)\<close>,
  \<^verbatim>\<open>X_test = sc.transform(X_test)\<close>.\<close>

definition new_sc :: stmt where
  "new_sc k = Inr (k\<lparr>var_sc := Some Unfitted\<rparr>)"

definition fit_transform_train :: "lib \<Rightarrow> stmt" where
  "fit_transform_train l k =
     rd ''sc'' (var_sc k) (\<lambda>_.
     rd ''X_train'' (var_X_train k) (\<lambda>xt.
     call (scaler_fit_transform l xt) (\<lambda>(p, a).
     Inr (emit [Call ''fit_transform'']
       (k\<lparr>var_sc := Some (Fitted p), var_X_train := Some (Array a)\<rparr>)))))"

definition transform_test :: "lib \<Rightarrow> stmt" where
  "transform_test l k =
     rd ''sc'' (var_sc k) (\<lambda>e.
     rd ''X_test'' (var_X_test k) (\<lambda>xt.
     fitted ''StandardScaler'' e (\<lambda>p.
     call (scaler_transform l p xt) (\<lambda>a.
     Inr (emit [Call ''transform''] (k\<lparr>var_X_test := Some (Array a)\<rparr>))))))"

subsection \<open>Fitting, metrics and the regression summary\<close>

text \<open>\<^verbatim>\<open>lr = LinearRegression()\<close>, \<^verbatim>\<open>lr.fit(X_train, y_train)\<close>,
  \<^verbatim>\<open>y_preds = lr.predict(X_test)\<close>.\<close>

definition new_lr :: stmt where
  "new_lr k = Inr (k\<lparr>var_lr := Some Unfitted\<rparr>)"

definition lr_fit_train :: "lib \<Rightarrow> stmt" where
  "lr_fit_train l k =
     rd ''lr'' (var_lr k) (\<lambda>_.
     rd ''X_train'' (var_X_train k) (\<lambda>xt.
     rd ''y_train'' (var_y_train k) (\<lambda>yt.
     call (lr_fit l xt yt) (\<lambda>m.
     Inr (emit [Call ''fit''] (k\<lparr>var_lr := Some (Fitted m)\<rparr>))))))"

definition predict_test :: "lib \<Rightarrow> stmt" where
  "predict_test l k =
     rd ''lr'' (var_lr k) (\<lambda>e.
     rd ''X_test'' (var_X_test k) (\<lambda>xt.
     fitted ''LinearRegression'' e (\<lambda>m.
     call (lr_predict l m xt) (\<lambda>p.
     Inr (emit [Call ''predict''] (k\<lparr>var_y_preds := Some p\<rparr>))))))"

text \<open>The three prints of the metrics cell; \<^verbatim>\<open>lr.score(X, y)\<close> is the r2 score of
  \<^verbatim>\<open>lr.predict(X)\<close> against \<open>y\<close>.\<close>

definition print_train_r2 :: "lib \<Rightarrow> stmt" where
  "print_train_r2 l k =
     rd ''lr'' (var_lr k) (\<lambda>e.
     rd ''X_train'' (var_X_train k) (\<lambda>xt.
     rd ''y_train'' (var_y_train k) (\<lambda>yt.
     fitted ''LinearRegression'' e (\<lambda>m.
     call (lr_predict l m xt) (\<lambda>p.
     call (r2_score l yt p) (\<lambda>v.
     Inr (emit [Call ''score'', Output (Metric ''training set r2 score'' (round2 l v))] k)))))))"

definition print_test_r2 :: "lib \<Rightarrow> stmt" where
  "print_test_r2 l k =
     rd ''lr'' (var_lr k) (\<lambda>_.
     rd ''y_test'' (var_y_test k) (\<lambda>yt.
     rd ''y_preds'' (var_y_preds k) (\<lambda>p.
     call (r2_score l yt p) (\<lambda>v.
     Inr (emit [Call ''r2_score'', Output (Metric ''test set r2 score'' (round2 l v))] k)))))"

definition print_test_mse :: "lib \<Rightarrow> stmt" where
  "print_test_mse l k =
     rd ''lr'' (var_lr k) (\<lambda>_.
     rd ''y_test'' (var_y_test k) (\<lambda>yt.
     rd ''y_preds'' (var_y_preds k) (\<lambda>p.
     call (mean_squared_error l yt p) (\<lambda>v.
     Inr (emit [Call ''mean_squared_error'',
                Output (Metric ''test set mean squared error'' (round2 l v))] k)))))"

text \<open>\<^verbatim>\<open>x_train = sm.add_constant(X_train)\<close>, \<^verbatim>\<open>model = sm.OLS(y_train, x_train)\<close>,
  \<^verbatim>\<open>results = model.fit()\<close>,
  \<^verbatim>\<open>print(results.summary(xname = ["const"] + list(X.columns)))\<close>.\<close>

definition assign_x_train :: "lib \<Rightarrow> stmt" where
  "assign_x_train l k =
     rd ''X_train'' (var_X_train k) (\<lambda>xt.
     call (add_constant l xt) (\<lambda>c.
     Inr (emit [Call ''add_constant''] (k\<lparr>var_x_train := Some c\<rparr>))))"

definition assign_model :: "lib \<Rightarrow> stmt" where
  "assign_model l k =
     rd ''y_train'' (var_y_train k) (\<lambda>yt.
     rd ''x_train'' (var_x_train k) (\<lambda>xt.
     call (ols_new l yt xt) (\<lambda>m.
     Inr (emit [Call ''OLS''] (k\<lparr>var_model := Some m\<rparr>)))))"

definition assign_results :: "lib \<Rightarrow> stmt" where
  "assign_results l k =
     rd ''model'' (var_model k) (\<lambda>m.
     call (ols_fit l m) (\<lambda>r.
     Inr (emit [Call ''OLS.fit''] (k\<lparr>var_results := Some r\<rparr>))))"

definition print_summary :: "lib \<Rightarrow> world \<Rightarrow> stmt" where
  "print_summary l w k =
     rd ''results'' (var_results k) (\<lambda>r.
     rd ''X'' (var_X k) (\<lambda>x.
     call (ols_summary l r (''const'' # columns x) (clock w)) (\<lambda>s.
     Inr (emit [Call ''summary'', Output (Text s)] k))))"

text \<open>\<^verbatim>\<open>sns.regplot(x="s3", y="target", data=df, marker="+")\<close>.\<close>

definition main_regplot :: "lib \<Rightarrow> stmt" where
  "main_regplot l k =
     rd ''df'' (var_df k) (\<lambda>d.
     (case regplot l ''s3'' ''target'' d of
        Some m \<Rightarrow> Inl (Raised m)
      | None \<Rightarrow> Inr (emit [Call ''regplot'', Output (Regplot ''s3'' ''target'' d)] k)))"

section \<open>The notebooks\<close>

text \<open>
  A notebook is the list of its code cells, a cell the list of its statements. A cell
  that only imports modules, holds a comment or is empty has no statement.
\<close>

definition setup_cell :: "lib \<Rightarrow> world \<Rightarrow> string \<Rightarrow> (kernel \<Rightarrow> series option) \<Rightarrow> string \<Rightarrow> nat \<Rightarrow> stmt list" where
  "setup_cell l w name sel outcome seed =
     [assign_X_selected name sel, X_fillna, X_drop [outcome], assign_y outcome,
      split l w seed, new_sc, fit_transform_train l, transform_test l]"

definition fit_cell :: "lib \<Rightarrow> stmt list" where
  "fit_cell l = [new_lr, lr_fit_train l, predict_test l]"

definition ols_cell :: "lib \<Rightarrow> stmt list" where
  "ols_cell l = [assign_x_train l, assign_model l, assign_results l]"

definition main_notebook :: "lib \<Rightarrow> world \<Rightarrow> stmt list list" where
  "main_notebook l w =
     [[main_load l, main_frame],
      [main_print_descr],
      [assign_df_corr l, show_df_corr],
      [assign_target_corr 0.3, show_target_corr],
      [pairplot_selected l ''target_corr'' var_target_corr],
      [],
      setup_cell l w ''target_corr'' var_target_corr ''target'' 5,
      fit_cell l,
      [print_train_r2 l, print_test_r2 l, print_test_mse l],
      [],
      ols_cell l,
      [print_summary l w],
      [assign_target_corr 0.2, assign_X_selected ''target_corr'' var_target_corr, X_fillna,
       X_drop [''target'', ''s4'', ''s6''], split l w 5, new_sc, fit_transform_train l,
       transform_test l, assign_x_train l, assign_model l, assign_results l],
      [print_summary l w],
      [main_regplot l],
      []]"

definition life_notebook :: "lib \<Rightarrow> world \<Rightarrow> stmt list list" where
  "life_notebook l w =
     [[read_csv w ''life_expectancy.csv'', life_recode, df_fillna, df_reset_index],
      [df_info],
      [assign_df_corr l, assign_y_corr ''life_expectancy'' 0.3, show_y_corr],
      [pairplot_selected l ''y_corr'' var_y_corr],
      [],
      setup_cell l w ''y_corr'' var_y_corr ''life_expectancy'' 9,
      fit_cell l,
      [print_train_r2 l, print_test_r2 l],
      [],
      [],
      ols_cell l,
      [print_summary l w],
      [], [], [], [], [], []]"

definition air_notebook :: "lib \<Rightarrow> world \<Rightarrow> stmt list list" where
  "air_notebook l w =
     [[read_csv w ''air_quality.csv'', df_fillna],
      [df_info],
      [assign_df_corr l, show_df_corr],
      [assign_y_corr ''benzene'' 0.5, show_y_corr],
      [pairplot_selected l ''y_corr'' var_y_corr],
      [],
      setup_cell l w ''y_corr'' var_y_corr ''benzene'' 9,
      fit_cell l,
      [print_train_r2 l, print_test_r2 l],
      [],
      [],
      ols_cell l,
      [print_summary l w],
      [], [], [], [], [], []]"


section \<open>A small library and small tables\<close>

text \<open>
  One library to run the notebooks on: a split that rotates the rows by the seed (by
  the state of the global generator when no seed is given) and cuts the test rows
  off the front, a scaler that centres each column, a regressor that predicts the
  mean of the training targets, a rounding to two decimals in exact arithmetic (a tie
  going to the even neighbour), a summary that prints the minutes of the clock, plots
  that accept any table. An array is held as the list of its columns.
\<close>

definition round_half_even :: "real \<Rightarrow> int" where
  "round_half_even x =
     (let f = \<lfloor>x\<rfloor>; r = x - of_int f
      in if r < 1 / 2 then f else if 1 / 2 < r then f + 1 else if even f then f else f + 1)"

definition sample_round2 :: "real \<Rightarrow> real" where
  "sample_round2 x = of_int (round_half_even (x * 100)) / 100"

definition reals_of :: "column \<Rightarrow> string + real list" where
  "reals_of c =
     (if list_all (\<lambda>x. case x of Num _ \<Rightarrow> True | _ \<Rightarrow> False) c
      then Inr (map (\<lambda>x. case x of Num v \<Rightarrow> v | _ \<Rightarrow> 0) c)
      else Inl ''Input contains NaN or a string'')"

fun columns_of :: "frame \<Rightarrow> string + real list list" where
  "columns_of [] = Inr []"
| "columns_of ((n, c) # d) =
     (case reals_of c of
        Inl m \<Rightarrow> Inl m
      | Inr v \<Rightarrow> (case columns_of d of Inl m \<Rightarrow> Inl m | Inr vs \<Rightarrow> Inr (v # vs)))"

definition array_of :: "table \<Rightarrow> string + real list list" where
  "array_of t = (case t of DataFrame d \<Rightarrow> columns_of d | Array a \<Rightarrow> Inr a)"

definition rotate_rows :: "nat \<Rightarrow> 'a list \<Rightarrow> 'a list" where
  "rotate_rows r c = drop (r mod length c) c @ take (r mod length c) c"

definition sample_split ::
  "frame \<Rightarrow> column \<Rightarrow> real \<Rightarrow> nat option \<Rightarrow> nat \<Rightarrow> string + (frame \<times> frame \<times> column \<times> column)" where
  "sample_split x yv ts seed ent =
     (let r = (case seed of Some s \<Rightarrow> s | None \<Rightarrow> ent);
          m = nat \<lceil>ts * real (length yv)\<rceil>;
          rx = map (\<lambda>(n, c). (n, rotate_rows r c)) x;
          ry = rotate_rows r yv
      in if length yv \<le> m then Inl ''the resulting train set will be empty''
         else Inr (map (\<lambda>(n, c). (n, drop m c)) rx, map (\<lambda>(n, c). (n, take m c)) rx,
                   drop m ry, take m ry))"

definition sample_fit_transform :: "table \<Rightarrow> string + (scaler \<times> real list list)" where
  "sample_fit_transform t =
     (case array_of t of
        Inl m \<Rightarrow> Inl m
      | Inr cs \<Rightarrow>
          if cs = [] then Inl ''at least one feature is required''
          else Inr ((map mean cs, map (\<lambda>c. 1) cs), map (\<lambda>c. map (\<lambda>v. v - mean c) c) cs))"

definition sample_transform :: "scaler \<Rightarrow> table \<Rightarrow> string + real list list" where
  "sample_transform p t =
     (case array_of t of
        Inl m \<Rightarrow> Inl m
      | Inr cs \<Rightarrow>
          if length cs \<noteq> length (fst p) then Inl ''the number of features differs''
          else Inr (map (\<lambda>(m, c). map (\<lambda>v. v - m) c) (zip (fst p) cs)))"

definition sample_lr_fit :: "table \<Rightarrow> column \<Rightarrow> string + linmodel" where
  "sample_lr_fit t yv =
     (case array_of t of
        Inl m \<Rightarrow> Inl m
      | Inr cs \<Rightarrow>
          (case reals_of yv of
             Inl m \<Rightarrow> Inl m
           | Inr ys \<Rightarrow> if ys = [] then Inl ''no samples'' else Inr (mean ys, map (\<lambda>c. 0) cs)))"

definition sample_lr_predict :: "linmodel \<Rightarrow> table \<Rightarrow> string + real list" where
  "sample_lr_predict m t =
     (case array_of t of
        Inl e \<Rightarrow> Inl e
      | Inr cs \<Rightarrow>
          if length cs \<noteq> length (snd m) \<or> cs = [] then Inl ''the number of features differs''
          else Inr (map (\<lambda>v. fst m) (hd cs)))"

definition sample_r2_score :: "column \<Rightarrow> real list \<Rightarrow> string + real" where
  "sample_r2_score yv p =
     (case reals_of yv of
        Inl m \<Rightarrow> Inl m
      | Inr ys \<Rightarrow>
          if length ys \<noteq> length p then Inl ''inconsistent numbers of samples''
          else Inr (if ssd ys = 0 then 0
                    else 1 - sum_list (map (\<lambda>(a, b). (a - b) * (a - b)) (zip ys p)) / ssd ys))"

definition sample_mean_squared_error :: "column \<Rightarrow> real list \<Rightarrow> string + real" where
  "sample_mean_squared_error yv p =
     (case reals_of yv of
        Inl m \<Rightarrow> Inl m
      | Inr ys \<Rightarrow>
          if length ys \<noteq> length p \<or> ys = [] then Inl ''inconsistent numbers of samples''
          else Inr (mean (map (\<lambda>(a, b). (a - b) * (a - b)) (zip ys p))))"

definition sample_add_constant :: "table \<Rightarrow> string + table" where
  "sample_add_constant t =
     (case array_of t of
        Inl m \<Rightarrow> Inl m
      | Inr cs \<Rightarrow> if cs = [] then Inl ''no columns'' else Inr (Array (map (\<lambda>v. 1) (hd cs) # cs)))"

definition sample_ols_new :: "column \<Rightarrow> table \<Rightarrow> string + ols_model" where
  "sample_ols_new yv t = (case reals_of yv of Inl m \<Rightarrow> Inl m | Inr ys \<Rightarrow> Inr (yv, t))"

definition sample_ols_fit :: "ols_model \<Rightarrow> string + ols_results" where
  "sample_ols_fit m = (case reals_of (fst m) of Inl e \<Rightarrow> Inl e | Inr ys \<Rightarrow> Inr [[mean ys]])"

definition sample_ols_summary :: "ols_results \<Rightarrow> string list \<Rightarrow> nat \<Rightarrow> string + string" where
  "sample_ols_summary r names t =
     Inr (''OLS Regression Results, Time: 12:''
          @ [''0123456789'' ! (t div 10 mod 6), ''0123456789'' ! (t mod 10)])"

definition sample_diabetes :: frame where
  "sample_diabetes =
     [(''age'', [Num 7, Num 7, Num 7]),
      (''bmi'', [Num 1, NaN, Num 3]),
      (''s4'', [Num 3, Num 2, Num 1]),
      (''s6'', [Num 2, Num 3, Num 4]),
      (''target'', [Num 1, Num 2, Num 3])]"

definition sample_lib :: lib where
  "sample_lib =
     \<lparr>load_diabetes = (sample_diabetes, ''Diabetes dataset''),
      round2 = sample_round2,
      train_test_split = sample_split,
      scaler_fit_transform = sample_fit_transform,
      scaler_transform = sample_transform,
      lr_fit = sample_lr_fit,
      lr_predict = sample_lr_predict,
      r2_score = sample_r2_score,
      mean_squared_error = sample_mean_squared_error,
      add_constant = sample_add_constant,
      ols_new = sample_ols_new,
      ols_fit = sample_ols_fit,
      ols_summary = sample_ols_summary,
      pairplot = (\<lambda>d. None),
      regplot = (\<lambda>a b d. None)\<rparr>"

definition sample_life :: frame where
  "sample_life =
     [(''country'', [Str ''Chile'', Str ''Norway'', Str ''Peru'']),
      (''status'', [Str ''Developing'', Str ''Developed'', NaN]),
      (''life_expectancy'', [Num 1, Num 2, Num 3]),
      (''bmi'', [Num 2, NaN, Num 4])]"

definition sample_air :: frame where
  "sample_air =
     [(''date'', [Str ''Mon'', Str ''Tue'', Str ''Wed'']),
      (''temp'', [NaN, NaN, NaN]),
      (''co'', [Num 2, Num 1, NaN]),
      (''benzene'', [NaN, Num 1, Num 2])]"

definition sample_world :: world where
  "sample_world =
     \<lparr>files = [''life_expectancy.csv'' \<mapsto> sample_life, ''air_quality.csv'' \<mapsto> sample_air],
      entropy = 1,
      clock = 7\<rparr>"


text \<open>
  More tables to run the notebooks on: a life-expectancy table with no \<open>status\<close> column;
  an air-quality table whose \<open>benzene\<close> column is empty; two air-quality tables that
  differ in their first row only; a diabetes table with missing values, in a feature
  and in the target.
\<close>

definition no_status :: frame where
  "no_status = [(''country'', [Str ''Chile'', Str ''Norway'']), (''life_expectancy'', [Num 1, Num 2])]"

definition flat_air :: frame where
  "flat_air = [(''co'', [Num 1, Num 2, Num 3]), (''benzene'', [NaN, NaN, NaN])]"

definition flat_world :: world where
  "flat_world = \<lparr>files = [''air_quality.csv'' \<mapsto> flat_air], entropy = 1, clock = 7\<rparr>"

definition air_first :: frame where
  "air_first =
     [(''temp'', [Num 0, Num 1, Num 2]),
      (''co'', [Num 0, Num 1, Num 2]),
      (''benzene'', [Num 0, Num 1, Num 2])]"

definition air_second :: frame where
  "air_second =
     [(''temp'', [Num 0, Num 1, Num 2]),
      (''co'', [Num 2, Num 1, Num 2]),
      (''benzene'', [Num 0, Num 1, Num 2])]"

definition gappy_diabetes :: frame where
  "gappy_diabetes =
     [(''bmi'', [Num 1, NaN, Num 2, Num 3]), (''target'', [Num 1, Num 2, NaN, Num 3])]"

definition gappy_lib :: lib where
  "gappy_lib = sample_lib\<lparr>load_diabetes := (gappy_diabetes, ''Diabetes dataset'')\<rparr>"


section \<open>Events and variables of a run\<close>

text \<open>
  Notions to state what a run reads, calls and binds: the input reads and the library
  calls among the events; whether a variable is bound in a kernel; a statement that,
  run where the variables \<open>R\<close> are bound, raises no NameError and leaves \<open>W\<close> bound as
  well; a statement that appends events with the calls \<open>cs\<close> and the reads \<open>rs\<close>.
\<close>

fun reads_of :: "event list \<Rightarrow> string list" where
  "reads_of [] = []"
| "reads_of (Read n # es) = n # reads_of es"
| "reads_of (_ # es) = reads_of es"

fun calls_of :: "event list \<Rightarrow> string list" where
  "calls_of [] = []"
| "calls_of (Call n # es) = n # calls_of es"
| "calls_of (_ # es) = calls_of es"

definition is_bound :: "string \<Rightarrow> kernel \<Rightarrow> bool" where
  "is_bound name k =
     (if name = ''db'' then var_db k \<noteq> None
      else if name = ''df'' then var_df k \<noteq> None
      else if name = ''df_corr'' then var_df_corr k \<noteq> None
      else if name = ''target_corr'' then var_target_corr k \<noteq> None
      else if name = ''y_corr'' then var_y_corr k \<noteq> None
      else if name = ''X'' then var_X k \<noteq> None
      else if name = ''y'' then var_y k \<noteq> None
      else if name = ''X_train'' then var_X_train k \<noteq> None
      else if name = ''X_test'' then var_X_test k \<noteq> None
      else if name = ''y_train'' then var_y_train k \<noteq> None
      else if name = ''y_test'' then var_y_test k \<noteq> None
      else if name = ''sc'' then var_sc k \<noteq> None
      else if name = ''lr'' then var_lr k \<noteq> None
      else if name = ''y_preds'' then var_y_preds k \<noteq> None
      else if name = ''x_train'' then var_x_train k \<noteq> None
      else if name = ''model'' then var_model k \<noteq> None
      else if name = ''results'' then var_results k \<noteq> None
      else False)"

definition uses :: "stmt \<Rightarrow> string list \<Rightarrow> string list \<Rightarrow> bool" where
  "uses s R W =
     (\<forall>k. list_all (\<lambda>n. is_bound n k) R \<longrightarrow>
        (case s k of
           Inl e \<Rightarrow> (\<forall>v. e \<noteq> NameError v)
         | Inr k' \<Rightarrow> (\<forall>n. is_bound n k \<longrightarrow> is_bound n k') \<and> list_all (\<lambda>n. is_bound n k') W))"

definition logs :: "stmt \<Rightarrow> string list \<Rightarrow> string list \<Rightarrow> bool" where
  "logs s cs rs =
     (\<forall>k k'. s k = Inr k' \<longrightarrow>
        (\<exists>evs. events k' = events k @ evs \<and> calls_of evs = cs \<and> reads_of evs = rs))"

fun flows :: "string list \<Rightarrow> (string list \<times> string list) list \<Rightarrow> bool" where
  "flows B [] = True"
| "flows B ((R, W) # rest) = (set R \<subseteq> set B \<and> flows (W @ B) rest)"

fun uses_all :: "stmt list \<Rightarrow> (string list \<times> string list) list \<Rightarrow> bool" where
  "uses_all [] [] = True"
| "uses_all (s # ss) ((R, W) # specs) = (uses s R W \<and> uses_all ss specs)"
| "uses_all _ _ = False"

fun logs_all :: "stmt list \<Rightarrow> (string list \<times> string list) list \<Rightarrow> bool" where
  "logs_all [] [] = True"
| "logs_all (s # ss) ((cs, rs) # specs) = (logs s cs rs \<and> logs_all ss specs)"
| "logs_all _ _ = False"

definition after_split :: "stmt list list \<Rightarrow> nat \<Rightarrow> nat \<Rightarrow> stmt list" where
  "after_split nb c n = drop 5 (nb ! c) @ concat (take n (drop (Suc c) nb))"

definition sample_after_split :: "column \<Rightarrow> column \<Rightarrow> kernel" where
  "sample_after_split xte yte =
     init\<lparr>var_X_train := Some (DataFrame [(''bmi'', [Num 1, Num 3])]),
          var_X_test := Some (DataFrame [(''bmi'', xte)]),
          var_y_train := Some [Num 1, Num 3], var_y_test := Some yte\<rparr>"

definition data_kept :: "kernel \<Rightarrow> kernel \<Rightarrow> bool" where
  "data_kept k k' =
     (var_db k' = var_db k \<and> var_df k' = var_df k \<and> var_df_corr k' = var_df_corr k
      \<and> var_target_corr k' = var_target_corr k \<and> var_y_corr k' = var_y_corr k
      \<and> var_X k' = var_X k \<and> var_y k' = var_y k)"

definition fits_kept :: "kernel \<Rightarrow> kernel \<Rightarrow> bool" where
  "fits_kept k k' =
     (var_X_train k' = var_X_train k \<and> var_X_test k' = var_X_test k
      \<and> var_y_train k' = var_y_train k \<and> var_y_test k' = var_y_test k
      \<and> var_sc k' = var_sc k \<and> var_lr k' = var_lr k \<and> var_y_preds k' = var_y_preds k
      \<and> var_x_train k' = var_x_train k \<and> var_model k' = var_model k
      \<and> var_results k' = var_results k)"

definition only_logs :: "stmt \<Rightarrow> bool" where
  "only_logs s = (\<forall>k k'. s k = Inr k' \<longrightarrow> data_kept k k' \<and> fits_kept k k')"





definition before_drop :: "stmt list list \<Rightarrow> nat \<Rightarrow> stmt list" where
  "before_drop nb c = concat (take c nb) @ take 2 (nb ! c)"

definition no_missing :: "frame \<Rightarrow> bool" where
  "no_missing d = list_all (\<lambda>(n, c). NaN \<notin> set c) d"


section \<open>Unfolding and basic facts\<close>

lemmas stmt_defs = main_load_def main_frame_def main_print_descr_def read_csv_def life_recode_def
  df_fillna_def df_reset_index_def df_info_def assign_df_corr_def show_df_corr_def
  assign_target_corr_def show_target_corr_def assign_y_corr_def show_y_corr_def
  pairplot_selected_def assign_X_selected_def X_fillna_def X_drop_def assign_y_def split_def
  new_sc_def fit_transform_train_def transform_test_def new_lr_def lr_fit_train_def
  predict_test_def print_train_r2_def print_test_r2_def print_test_mse_def assign_x_train_def
  assign_model_def assign_results_def print_summary_def main_regplot_def
  rd_def on_ok_def call_def fitted_def emit_def

lemmas cell_defs = setup_cell_def fit_cell_def ols_cell_def

lemmas pandas_defs = columns_def nrows_def getitem_def getitems_def setitem_def fill_cell_def
  fillna_def drop_columns_def reset_index_def is_numeric_def mean_def codev_def ssd_def
  pearson_def corr_def round_cell_def round_matrix_def
  exceeds_def above_threshold_def index_def recode_status_def

lemmas sample_defs = round_half_even_def sample_round2_def reals_of_def array_of_def rotate_rows_def sample_split_def sample_fit_transform_def
  sample_transform_def sample_lr_fit_def sample_lr_predict_def sample_r2_score_def
  sample_mean_squared_error_def sample_add_constant_def sample_ols_new_def sample_ols_fit_def
  sample_ols_summary_def sample_diabetes_def sample_lib_def sample_life_def sample_air_def
  sample_world_def

lemma columns_fillna: "columns (fillna v d) = columns d"
  by (induction d) (auto simp: columns_def fillna_def)

lemma map_of_fillna: "map_of (fillna v d) n = map_option (map (fill_cell v)) (map_of d n)"
  by (induction d) (auto simp: fillna_def)

lemma map_of_replace:
  "map_of (map (\<lambda>(n, c). if n = name then (n, vals) else (n, c)) d) n =
     (if n = name then (if name \<in> fst ` set d then Some vals else None) else map_of d n)"
  by (induction d) (auto split: if_splits)

lemma columns_setitem: "name \<in> set (columns d) \<Longrightarrow> columns (setitem d name vals) = columns d"
  by (induction d) (auto simp: columns_def setitem_def)

lemma map_of_setitem:
  "name \<in> set (columns d) \<Longrightarrow>
     map_of (setitem d name vals) n = (if n = name then Some vals else map_of d n)"
  by (simp add: setitem_def map_of_replace columns_def)

lemma map_of_Some_columns: "map_of d n = Some c \<Longrightarrow> n \<in> set (columns d)"
  by (force simp: columns_def dest: map_of_SomeD)

lemma getitem_Inr: "(getitem d n = Inr c) = (map_of d n = Some c)"
  by (simp add: getitem_def split: option.splits)

lemma fill_recode: "fill_cell v (recode_status c) = recode_status c"
  by (simp add: fill_cell_def recode_status_def)

lemma recode_binary: "list_all (\<lambda>c. c = Num 0 \<or> c = Num 1) (map recode_status st)"
  by (induction st) (auto simp: recode_status_def)

section \<open>The status column of the life-expectancy notebook\<close>

text \<open>
  C10. When the loading cell of the life-expectancy notebook completes, the file has a
  status column; the recode is applied to the table as read, before the fill; the status
  column of the loaded table is the recode of the original one, row by row: 1 exactly
  where the original cell is the string \<open>Developed\<close>, and 0 everywhere else (another
  string such as \<open>Developing\<close>, a number, a missing cell), so every value is 0 or 1.
\<close>

theorem status_recode_binary:
  assumes "files w ''life_expectancy.csv'' = Some t"
    and "exec (hd (life_notebook l w)) init = (k, None)"
  shows "\<exists>st d. getitem t ''status'' = Inr st
           \<and> var_df (fst (exec (take 2 (hd (life_notebook l w))) init))
               = Some (setitem t ''status'' (map recode_status st))
           \<and> var_df k = Some d
           \<and> getitem d ''status'' = Inr (map recode_status st)
           \<and> list_all (\<lambda>c. c = Num 0 \<or> c = Num 1) (map recode_status st)
           \<and> (\<forall>c. (recode_status c = Num 1) = (c = Str ''Developed''))
           \<and> (\<forall>c. (recode_status c = Num 0) = (c \<noteq> Str ''Developed''))
           \<and> recode_status NaN = Num 0 \<and> recode_status (Str ''Developing'') = Num 0"
proof -
  from assms obtain st where st: "getitem t ''status'' = Inr st"
    by (cases "getitem t ''status''")
       (auto simp: life_notebook_def read_csv_def life_recode_def rd_def on_ok_def emit_def)
  then have mem: "''status'' \<in> set (columns t)"
    by (auto simp: getitem_Inr dest: map_of_Some_columns)
  let ?d1 = "setitem t ''status'' (map recode_status st)"
  from assms st obtain d where d: "reset_index (fillna 0 ?d1) = Inr d" "var_df k = Some d"
    by (cases "reset_index (fillna 0 ?d1)")
       (auto simp: life_notebook_def read_csv_def life_recode_def df_fillna_def
          df_reset_index_def rd_def on_ok_def emit_def)
  have "map_of d ''status'' = Some (map recode_status st)"
    using d(1) mem
    by (auto simp: reset_index_def Let_def map_of_fillna map_of_setitem fill_recode
          split: if_splits)
  moreover have "var_df (fst (exec (take 2 (hd (life_notebook l w))) init)) = Some ?d1"
    using assms(1) st
    by (simp add: life_notebook_def read_csv_def life_recode_def rd_def on_ok_def emit_def)
  ultimately show ?thesis
    using st d(2) recode_binary[of st]
    by (auto simp: getitem_Inr recode_status_def)
qed

theorem status_recode_binary_witness:
  "files sample_world ''life_expectancy.csv'' = Some sample_life
   \<and> snd (exec (hd (life_notebook sample_lib sample_world)) init) = None
   \<and> (\<exists>d. var_df (fst (exec (hd (life_notebook sample_lib sample_world)) init)) = Some d
          \<and> getitem d ''status'' = Inr [Num 0, Num 1, Num 0])"
proof -
  let ?r = "exec (hd (life_notebook sample_lib sample_world)) init"
  have f: "files sample_world ''life_expectancy.csv'' = Some sample_life"
    by (simp add: sample_world_def)
  have c: "snd ?r = None"
    by (simp add: life_notebook_def init_def stmt_defs pandas_defs sample_defs Let_def)
  then have e: "?r = (fst ?r, None)"
    by (simp add: prod_eq_iff)
  have s: "getitem sample_life ''status'' = Inr [Str ''Developing'', Str ''Developed'', NaN]"
    by (simp add: sample_life_def getitem_def)
  from status_recode_binary[OF f e] s f c show ?thesis
    by (auto simp: recode_status_def)
qed


section \<open>Runs, statement by statement\<close>

lemma exec_fails_at:
  "i < length ss \<Longrightarrow> exec (take i ss) k0 = (k, None) \<Longrightarrow> (ss ! i) k = Inl e
     \<Longrightarrow> exec ss k0 = (k, Some e)"
proof (induction ss arbitrary: i k0)
  case Nil
  then show ?case by simp
next
  case (Cons s ss)
  show ?case
  proof (cases i)
    case 0
    with Cons.prems show ?thesis by simp
  next
    case (Suc j)
    with Cons.prems obtain k1 where k1: "s k0 = Inr k1" "exec (take j ss) k1 = (k, None)"
      by (auto split: sum.splits)
    from Suc Cons.prems have "j < length ss" "(ss ! j) k = Inl e" by simp_all
    from Cons.IH[OF this(1) k1(2) this(2)] k1(1) show ?thesis by simp
  qed
qed

lemma calls_of_append: "calls_of (a @ b) = calls_of a @ calls_of b"
proof (induction a)
  case Nil
  then show ?case by simp
next
  case (Cons e a)
  then show ?case by (cases e) simp_all
qed

lemma reads_of_append: "reads_of (a @ b) = reads_of a @ reads_of b"
proof (induction a)
  case Nil
  then show ?case by simp
next
  case (Cons e a)
  then show ?case by (cases e) simp_all
qed

lemma logsD:
  "logs s cs rs \<Longrightarrow> s k = Inr k' \<Longrightarrow>
     \<exists>e1. events k' = events k @ e1 \<and> calls_of e1 = cs \<and> reads_of e1 = rs"
  unfolding logs_def by (erule allE[of _ k], erule allE[of _ k']) simp

lemma exec_logs:
  "logs_all ss specs \<Longrightarrow>
     \<exists>n evs. n \<le> length specs \<and> events (fst (exec ss k)) = events k @ evs
        \<and> calls_of evs = concat (map fst (take n specs))
        \<and> reads_of evs = concat (map snd (take n specs))
        \<and> (snd (exec ss k) = None \<longrightarrow> n = length specs)"
proof (induction ss specs arbitrary: k rule: logs_all.induct)
  case 1
  show ?case
    by (rule exI[of _ 0], rule exI[of _ "[]"]) simp
next
  case (2 s ss cs rs specs)
  then have l: "logs s cs rs" and la: "logs_all ss specs" by simp_all
  show ?case
  proof (cases "s k")
    case (Inl e)
    show ?thesis
      by (rule exI[of _ 0], rule exI[of _ "[]"]) (simp add: Inl)
  next
    case (Inr k')
    from logsD[OF l Inr] obtain e1 where
      e1: "events k' = events k @ e1" "calls_of e1 = cs" "reads_of e1 = rs"
      by (elim exE conjE)
    from "2.IH"[OF la, of k'] obtain n evs where n: "n \<le> length specs"
        "events (fst (exec ss k')) = events k' @ evs"
        "calls_of evs = concat (map fst (take n specs))"
        "reads_of evs = concat (map snd (take n specs))"
        "snd (exec ss k') = None \<longrightarrow> n = length specs"
      by (elim exE conjE)
    show ?thesis
      by (rule exI[of _ "Suc n"], rule exI[of _ "e1 @ evs"])
         (simp add: Inr e1 n calls_of_append reads_of_append)
  qed
qed simp_all

lemma exec_uses:
  "uses_all ss specs \<Longrightarrow> flows B specs \<Longrightarrow> list_all (\<lambda>n. is_bound n k) B
     \<Longrightarrow> snd (exec ss k) \<noteq> Some (NameError v)"
proof (induction ss specs arbitrary: B k rule: uses_all.induct)
  case 1
  then show ?case by simp
next
  case (2 s ss R W specs)
  then have u: "uses s R W" and ua: "uses_all ss specs"
    and fl: "set R \<subseteq> set B" "flows (W @ B) specs" by simp_all
  from fl(1) "2.prems"(3) have "list_all (\<lambda>n. is_bound n k) R"
    by (auto simp: list_all_iff)
  with u have c: "case s k of
           Inl e \<Rightarrow> (\<forall>v. e \<noteq> NameError v)
         | Inr k' \<Rightarrow> (\<forall>n. is_bound n k \<longrightarrow> is_bound n k') \<and> list_all (\<lambda>n. is_bound n k') W"
    by (simp add: uses_def)
  show ?case
  proof (cases "s k")
    case (Inl e)
    with c show ?thesis by simp
  next
    case (Inr k')
    with c "2.prems"(3) have "list_all (\<lambda>n. is_bound n k') (W @ B)"
      by (auto simp: list_all_iff)
    from "2.IH"[OF ua fl(2) this] Inr show ?thesis by simp
  qed
qed simp_all

subsection \<open>What each statement reads and binds\<close>

lemma uses_main_load: "uses (main_load l) [] [''db'']"
  by (auto simp: uses_def main_load_def rd_def on_ok_def call_def fitted_def emit_def is_bound_def
        getitem_def getitems_def drop_columns_def reset_index_def Let_def
      split: option.splits sum.splits estimator.splits if_splits)

lemma uses_main_frame: "uses (main_frame) [''db''] [''df'']"
  by (auto simp: uses_def main_frame_def rd_def on_ok_def call_def fitted_def emit_def is_bound_def
        getitem_def getitems_def drop_columns_def reset_index_def Let_def
      split: option.splits sum.splits estimator.splits if_splits)

lemma uses_main_print_descr: "uses (main_print_descr) [''db''] []"
  by (auto simp: uses_def main_print_descr_def rd_def on_ok_def call_def fitted_def emit_def is_bound_def
        getitem_def getitems_def drop_columns_def reset_index_def Let_def
      split: option.splits sum.splits estimator.splits if_splits)

lemma uses_read_csv: "uses (read_csv w name) [] [''df'']"
  by (auto simp: uses_def read_csv_def rd_def on_ok_def call_def fitted_def emit_def is_bound_def
        getitem_def getitems_def drop_columns_def reset_index_def Let_def
      split: option.splits sum.splits estimator.splits if_splits)

lemma uses_life_recode: "uses (life_recode) [''df''] []"
  by (auto simp: uses_def life_recode_def rd_def on_ok_def call_def fitted_def emit_def is_bound_def
        getitem_def getitems_def drop_columns_def reset_index_def Let_def
      split: option.splits sum.splits estimator.splits if_splits)

lemma uses_df_fillna: "uses (df_fillna) [''df''] []"
  by (auto simp: uses_def df_fillna_def rd_def on_ok_def call_def fitted_def emit_def is_bound_def
        getitem_def getitems_def drop_columns_def reset_index_def Let_def
      split: option.splits sum.splits estimator.splits if_splits)

lemma uses_df_reset_index: "uses (df_reset_index) [''df''] []"
  by (auto simp: uses_def df_reset_index_def rd_def on_ok_def call_def fitted_def emit_def is_bound_def
        getitem_def getitems_def drop_columns_def reset_index_def Let_def
      split: option.splits sum.splits estimator.splits if_splits)

lemma uses_df_info: "uses (df_info) [''df''] []"
  by (auto simp: uses_def df_info_def rd_def on_ok_def call_def fitted_def emit_def is_bound_def
        getitem_def getitems_def drop_columns_def reset_index_def Let_def
      split: option.splits sum.splits estimator.splits if_splits)

lemma uses_assign_df_corr: "uses (assign_df_corr l) [''df''] [''df_corr'']"
  by (auto simp: uses_def assign_df_corr_def rd_def on_ok_def call_def fitted_def emit_def is_bound_def
        getitem_def getitems_def drop_columns_def reset_index_def Let_def
      split: option.splits sum.splits estimator.splits if_splits)

lemma uses_show_df_corr: "uses (show_df_corr) [''df_corr''] []"
  by (auto simp: uses_def show_df_corr_def rd_def on_ok_def call_def fitted_def emit_def is_bound_def
        getitem_def getitems_def drop_columns_def reset_index_def Let_def
      split: option.splits sum.splits estimator.splits if_splits)

lemma uses_assign_target_corr: "uses (assign_target_corr t) [''df_corr''] [''target_corr'']"
  by (auto simp: uses_def assign_target_corr_def rd_def on_ok_def call_def fitted_def emit_def is_bound_def
        getitem_def getitems_def drop_columns_def reset_index_def Let_def
      split: option.splits sum.splits estimator.splits if_splits)

lemma uses_show_target_corr: "uses (show_target_corr) [''target_corr''] []"
  by (auto simp: uses_def show_target_corr_def rd_def on_ok_def call_def fitted_def emit_def is_bound_def
        getitem_def getitems_def drop_columns_def reset_index_def Let_def
      split: option.splits sum.splits estimator.splits if_splits)

lemma uses_assign_y_corr: "uses (assign_y_corr outcome t) [''df_corr''] [''y_corr'']"
  by (auto simp: uses_def assign_y_corr_def rd_def on_ok_def call_def fitted_def emit_def is_bound_def
        getitem_def getitems_def drop_columns_def reset_index_def Let_def
      split: option.splits sum.splits estimator.splits if_splits)

lemma uses_show_y_corr: "uses (show_y_corr) [''y_corr''] []"
  by (auto simp: uses_def show_y_corr_def rd_def on_ok_def call_def fitted_def emit_def is_bound_def
        getitem_def getitems_def drop_columns_def reset_index_def Let_def
      split: option.splits sum.splits estimator.splits if_splits)

lemma uses_pairplot_target: "uses (pairplot_selected l ''target_corr'' var_target_corr) [''df'', ''target_corr''] []"
  by (auto simp: uses_def pairplot_selected_def rd_def on_ok_def call_def fitted_def emit_def is_bound_def
        getitem_def getitems_def drop_columns_def reset_index_def Let_def
      split: option.splits sum.splits estimator.splits if_splits)

lemma uses_pairplot_y: "uses (pairplot_selected l ''y_corr'' var_y_corr) [''df'', ''y_corr''] []"
  by (auto simp: uses_def pairplot_selected_def rd_def on_ok_def call_def fitted_def emit_def is_bound_def
        getitem_def getitems_def drop_columns_def reset_index_def Let_def
      split: option.splits sum.splits estimator.splits if_splits)

lemma uses_assign_X_target: "uses (assign_X_selected ''target_corr'' var_target_corr) [''df'', ''target_corr''] [''X'']"
  by (auto simp: uses_def assign_X_selected_def rd_def on_ok_def call_def fitted_def emit_def is_bound_def
        getitem_def getitems_def drop_columns_def reset_index_def Let_def
      split: option.splits sum.splits estimator.splits if_splits)

lemma uses_assign_X_y: "uses (assign_X_selected ''y_corr'' var_y_corr) [''df'', ''y_corr''] [''X'']"
  by (auto simp: uses_def assign_X_selected_def rd_def on_ok_def call_def fitted_def emit_def is_bound_def
        getitem_def getitems_def drop_columns_def reset_index_def Let_def
      split: option.splits sum.splits estimator.splits if_splits)

lemma uses_X_fillna: "uses (X_fillna) [''X''] []"
  by (auto simp: uses_def X_fillna_def rd_def on_ok_def call_def fitted_def emit_def is_bound_def
        getitem_def getitems_def drop_columns_def reset_index_def Let_def
      split: option.splits sum.splits estimator.splits if_splits)

lemma uses_X_drop: "uses (X_drop labels) [''X''] []"
  by (auto simp: uses_def X_drop_def rd_def on_ok_def call_def fitted_def emit_def is_bound_def
        getitem_def getitems_def drop_columns_def reset_index_def Let_def
      split: option.splits sum.splits estimator.splits if_splits)

lemma uses_assign_y: "uses (assign_y outcome) [''df''] [''y'']"
  by (auto simp: uses_def assign_y_def rd_def on_ok_def call_def fitted_def emit_def is_bound_def
        getitem_def getitems_def drop_columns_def reset_index_def Let_def
      split: option.splits sum.splits estimator.splits if_splits)

lemma uses_split: "uses (split l w seed) [''X'', ''y''] [''X_train'', ''X_test'', ''y_train'', ''y_test'']"
  by (auto simp: uses_def split_def rd_def on_ok_def call_def fitted_def emit_def is_bound_def
        getitem_def getitems_def drop_columns_def reset_index_def Let_def
      split: option.splits sum.splits estimator.splits if_splits)

lemma uses_new_sc: "uses (new_sc) [] [''sc'']"
  by (auto simp: uses_def new_sc_def rd_def on_ok_def call_def fitted_def emit_def is_bound_def
        getitem_def getitems_def drop_columns_def reset_index_def Let_def
      split: option.splits sum.splits estimator.splits if_splits)

lemma uses_fit_transform_train: "uses (fit_transform_train l) [''sc'', ''X_train''] []"
  by (auto simp: uses_def fit_transform_train_def rd_def on_ok_def call_def fitted_def emit_def is_bound_def
        getitem_def getitems_def drop_columns_def reset_index_def Let_def
      split: option.splits sum.splits estimator.splits if_splits)

lemma uses_transform_test: "uses (transform_test l) [''sc'', ''X_test''] []"
  by (auto simp: uses_def transform_test_def rd_def on_ok_def call_def fitted_def emit_def is_bound_def
        getitem_def getitems_def drop_columns_def reset_index_def Let_def
      split: option.splits sum.splits estimator.splits if_splits)

lemma uses_new_lr: "uses (new_lr) [] [''lr'']"
  by (auto simp: uses_def new_lr_def rd_def on_ok_def call_def fitted_def emit_def is_bound_def
        getitem_def getitems_def drop_columns_def reset_index_def Let_def
      split: option.splits sum.splits estimator.splits if_splits)

lemma uses_lr_fit_train: "uses (lr_fit_train l) [''lr'', ''X_train'', ''y_train''] []"
  by (auto simp: uses_def lr_fit_train_def rd_def on_ok_def call_def fitted_def emit_def is_bound_def
        getitem_def getitems_def drop_columns_def reset_index_def Let_def
      split: option.splits sum.splits estimator.splits if_splits)

lemma uses_predict_test: "uses (predict_test l) [''lr'', ''X_test''] [''y_preds'']"
  by (auto simp: uses_def predict_test_def rd_def on_ok_def call_def fitted_def emit_def is_bound_def
        getitem_def getitems_def drop_columns_def reset_index_def Let_def
      split: option.splits sum.splits estimator.splits if_splits)

lemma uses_print_train_r2: "uses (print_train_r2 l) [''lr'', ''X_train'', ''y_train''] []"
  by (auto simp: uses_def print_train_r2_def rd_def on_ok_def call_def fitted_def emit_def is_bound_def
        getitem_def getitems_def drop_columns_def reset_index_def Let_def
      split: option.splits sum.splits estimator.splits if_splits)

lemma uses_print_test_r2: "uses (print_test_r2 l) [''lr'', ''y_test'', ''y_preds''] []"
  by (auto simp: uses_def print_test_r2_def rd_def on_ok_def call_def fitted_def emit_def is_bound_def
        getitem_def getitems_def drop_columns_def reset_index_def Let_def
      split: option.splits sum.splits estimator.splits if_splits)

lemma uses_print_test_mse: "uses (print_test_mse l) [''lr'', ''y_test'', ''y_preds''] []"
  by (auto simp: uses_def print_test_mse_def rd_def on_ok_def call_def fitted_def emit_def is_bound_def
        getitem_def getitems_def drop_columns_def reset_index_def Let_def
      split: option.splits sum.splits estimator.splits if_splits)

lemma uses_assign_x_train: "uses (assign_x_train l) [''X_train''] [''x_train'']"
  by (auto simp: uses_def assign_x_train_def rd_def on_ok_def call_def fitted_def emit_def is_bound_def
        getitem_def getitems_def drop_columns_def reset_index_def Let_def
      split: option.splits sum.splits estimator.splits if_splits)

lemma uses_assign_model: "uses (assign_model l) [''y_train'', ''x_train''] [''model'']"
  by (auto simp: uses_def assign_model_def rd_def on_ok_def call_def fitted_def emit_def is_bound_def
        getitem_def getitems_def drop_columns_def reset_index_def Let_def
      split: option.splits sum.splits estimator.splits if_splits)

lemma uses_assign_results: "uses (assign_results l) [''model''] [''results'']"
  by (auto simp: uses_def assign_results_def rd_def on_ok_def call_def fitted_def emit_def is_bound_def
        getitem_def getitems_def drop_columns_def reset_index_def Let_def
      split: option.splits sum.splits estimator.splits if_splits)

lemma uses_print_summary: "uses (print_summary l w) [''results'', ''X''] []"
  by (auto simp: uses_def print_summary_def rd_def on_ok_def call_def fitted_def emit_def is_bound_def
        getitem_def getitems_def drop_columns_def reset_index_def Let_def
      split: option.splits sum.splits estimator.splits if_splits)

lemma uses_main_regplot: "uses (main_regplot l) [''df''] []"
  by (auto simp: uses_def main_regplot_def rd_def on_ok_def call_def fitted_def emit_def is_bound_def
        getitem_def getitems_def drop_columns_def reset_index_def Let_def
      split: option.splits sum.splits estimator.splits if_splits)

lemmas uses_stmts = uses_main_load uses_main_frame uses_main_print_descr uses_read_csv uses_life_recode uses_df_fillna uses_df_reset_index uses_df_info uses_assign_df_corr uses_show_df_corr uses_assign_target_corr uses_show_target_corr uses_assign_y_corr uses_show_y_corr uses_pairplot_target uses_pairplot_y uses_assign_X_target uses_assign_X_y uses_X_fillna uses_X_drop uses_assign_y uses_split uses_new_sc uses_fit_transform_train uses_transform_test uses_new_lr uses_lr_fit_train uses_predict_test uses_print_train_r2 uses_print_test_r2 uses_print_test_mse uses_assign_x_train uses_assign_model uses_assign_results uses_print_summary uses_main_regplot
subsection \<open>What each statement logs\<close>

lemma logs_main_load: "logs (main_load l) [''load_diabetes''] [''diabetes'']"
  by (fastforce simp: logs_def main_load_def rd_def on_ok_def call_def fitted_def emit_def
      split: option.splits sum.splits estimator.splits)

lemma logs_main_frame: "logs (main_frame) [] []"
  by (fastforce simp: logs_def main_frame_def rd_def on_ok_def call_def fitted_def emit_def
      split: option.splits sum.splits estimator.splits)

lemma logs_main_print_descr: "logs (main_print_descr) [] []"
  by (fastforce simp: logs_def main_print_descr_def rd_def on_ok_def call_def fitted_def emit_def
      split: option.splits sum.splits estimator.splits)

lemma logs_read_csv: "logs (read_csv w name) [''read_csv''] [name]"
  by (fastforce simp: logs_def read_csv_def rd_def on_ok_def call_def fitted_def emit_def
      split: option.splits sum.splits estimator.splits)

lemma logs_life_recode: "logs (life_recode) [] []"
  by (fastforce simp: logs_def life_recode_def rd_def on_ok_def call_def fitted_def emit_def
      split: option.splits sum.splits estimator.splits)

lemma logs_df_fillna: "logs (df_fillna) [''fillna''] []"
  by (fastforce simp: logs_def df_fillna_def rd_def on_ok_def call_def fitted_def emit_def
      split: option.splits sum.splits estimator.splits)

lemma logs_df_reset_index: "logs (df_reset_index) [] []"
  by (fastforce simp: logs_def df_reset_index_def rd_def on_ok_def call_def fitted_def emit_def
      split: option.splits sum.splits estimator.splits)

lemma logs_df_info: "logs (df_info) [] []"
  by (fastforce simp: logs_def df_info_def rd_def on_ok_def call_def fitted_def emit_def
      split: option.splits sum.splits estimator.splits)

lemma logs_assign_df_corr: "logs (assign_df_corr l) [''corr''] []"
  by (fastforce simp: logs_def assign_df_corr_def rd_def on_ok_def call_def fitted_def emit_def
      split: option.splits sum.splits estimator.splits)

lemma logs_show_df_corr: "logs (show_df_corr) [] []"
  by (fastforce simp: logs_def show_df_corr_def rd_def on_ok_def call_def fitted_def emit_def
      split: option.splits sum.splits estimator.splits)

lemma logs_assign_target_corr: "logs (assign_target_corr t) [] []"
  by (fastforce simp: logs_def assign_target_corr_def rd_def on_ok_def call_def fitted_def emit_def
      split: option.splits sum.splits estimator.splits)

lemma logs_show_target_corr: "logs (show_target_corr) [] []"
  by (fastforce simp: logs_def show_target_corr_def rd_def on_ok_def call_def fitted_def emit_def
      split: option.splits sum.splits estimator.splits)

lemma logs_assign_y_corr: "logs (assign_y_corr outcome t) [] []"
  by (fastforce simp: logs_def assign_y_corr_def rd_def on_ok_def call_def fitted_def emit_def
      split: option.splits sum.splits estimator.splits)

lemma logs_show_y_corr: "logs (show_y_corr) [] []"
  by (fastforce simp: logs_def show_y_corr_def rd_def on_ok_def call_def fitted_def emit_def
      split: option.splits sum.splits estimator.splits)

lemma logs_pairplot_target: "logs (pairplot_selected l ''target_corr'' var_target_corr) [''pairplot''] []"
  by (fastforce simp: logs_def pairplot_selected_def rd_def on_ok_def call_def fitted_def emit_def
      split: option.splits sum.splits estimator.splits)

lemma logs_pairplot_y: "logs (pairplot_selected l ''y_corr'' var_y_corr) [''pairplot''] []"
  by (fastforce simp: logs_def pairplot_selected_def rd_def on_ok_def call_def fitted_def emit_def
      split: option.splits sum.splits estimator.splits)

lemma logs_assign_X_target: "logs (assign_X_selected ''target_corr'' var_target_corr) [] []"
  by (fastforce simp: logs_def assign_X_selected_def rd_def on_ok_def call_def fitted_def emit_def
      split: option.splits sum.splits estimator.splits)

lemma logs_assign_X_y: "logs (assign_X_selected ''y_corr'' var_y_corr) [] []"
  by (fastforce simp: logs_def assign_X_selected_def rd_def on_ok_def call_def fitted_def emit_def
      split: option.splits sum.splits estimator.splits)

lemma logs_X_fillna: "logs (X_fillna) [''fillna''] []"
  by (fastforce simp: logs_def X_fillna_def rd_def on_ok_def call_def fitted_def emit_def
      split: option.splits sum.splits estimator.splits)

lemma logs_X_drop: "logs (X_drop labels) [] []"
  by (fastforce simp: logs_def X_drop_def rd_def on_ok_def call_def fitted_def emit_def
      split: option.splits sum.splits estimator.splits)

lemma logs_assign_y: "logs (assign_y outcome) [] []"
  by (fastforce simp: logs_def assign_y_def rd_def on_ok_def call_def fitted_def emit_def
      split: option.splits sum.splits estimator.splits)

lemma logs_split: "logs (split l w seed) [''train_test_split''] []"
  by (fastforce simp: logs_def split_def rd_def on_ok_def call_def fitted_def emit_def
      split: option.splits sum.splits estimator.splits)

lemma logs_new_sc: "logs (new_sc) [] []"
  by (fastforce simp: logs_def new_sc_def rd_def on_ok_def call_def fitted_def emit_def
      split: option.splits sum.splits estimator.splits)

lemma logs_fit_transform_train: "logs (fit_transform_train l) [''fit_transform''] []"
  by (fastforce simp: logs_def fit_transform_train_def rd_def on_ok_def call_def fitted_def emit_def
      split: option.splits sum.splits estimator.splits)

lemma logs_transform_test: "logs (transform_test l) [''transform''] []"
  by (fastforce simp: logs_def transform_test_def rd_def on_ok_def call_def fitted_def emit_def
      split: option.splits sum.splits estimator.splits)

lemma logs_new_lr: "logs (new_lr) [] []"
  by (fastforce simp: logs_def new_lr_def rd_def on_ok_def call_def fitted_def emit_def
      split: option.splits sum.splits estimator.splits)

lemma logs_lr_fit_train: "logs (lr_fit_train l) [''fit''] []"
  by (fastforce simp: logs_def lr_fit_train_def rd_def on_ok_def call_def fitted_def emit_def
      split: option.splits sum.splits estimator.splits)

lemma logs_predict_test: "logs (predict_test l) [''predict''] []"
  by (fastforce simp: logs_def predict_test_def rd_def on_ok_def call_def fitted_def emit_def
      split: option.splits sum.splits estimator.splits)

lemma logs_print_train_r2: "logs (print_train_r2 l) [''score''] []"
  by (fastforce simp: logs_def print_train_r2_def rd_def on_ok_def call_def fitted_def emit_def
      split: option.splits sum.splits estimator.splits)

lemma logs_print_test_r2: "logs (print_test_r2 l) [''r2_score''] []"
  by (fastforce simp: logs_def print_test_r2_def rd_def on_ok_def call_def fitted_def emit_def
      split: option.splits sum.splits estimator.splits)

lemma logs_print_test_mse: "logs (print_test_mse l) [''mean_squared_error''] []"
  by (fastforce simp: logs_def print_test_mse_def rd_def on_ok_def call_def fitted_def emit_def
      split: option.splits sum.splits estimator.splits)

lemma logs_assign_x_train: "logs (assign_x_train l) [''add_constant''] []"
  by (fastforce simp: logs_def assign_x_train_def rd_def on_ok_def call_def fitted_def emit_def
      split: option.splits sum.splits estimator.splits)

lemma logs_assign_model: "logs (assign_model l) [''OLS''] []"
  by (fastforce simp: logs_def assign_model_def rd_def on_ok_def call_def fitted_def emit_def
      split: option.splits sum.splits estimator.splits)

lemma logs_assign_results: "logs (assign_results l) [''OLS.fit''] []"
  by (fastforce simp: logs_def assign_results_def rd_def on_ok_def call_def fitted_def emit_def
      split: option.splits sum.splits estimator.splits)

lemma logs_print_summary: "logs (print_summary l w) [''summary''] []"
  by (fastforce simp: logs_def print_summary_def rd_def on_ok_def call_def fitted_def emit_def
      split: option.splits sum.splits estimator.splits)

lemma logs_main_regplot: "logs (main_regplot l) [''regplot''] []"
  by (fastforce simp: logs_def main_regplot_def rd_def on_ok_def call_def fitted_def emit_def
      split: option.splits sum.splits estimator.splits)

lemmas logs_stmts = logs_main_load logs_main_frame logs_main_print_descr logs_read_csv logs_life_recode logs_df_fillna logs_df_reset_index logs_df_info logs_assign_df_corr logs_show_df_corr logs_assign_target_corr logs_show_target_corr logs_assign_y_corr logs_show_y_corr logs_pairplot_target logs_pairplot_y logs_assign_X_target logs_assign_X_y logs_X_fillna logs_X_drop logs_assign_y logs_split logs_new_sc logs_fit_transform_train logs_transform_test logs_new_lr logs_lr_fit_train logs_predict_test logs_print_train_r2 logs_print_test_r2 logs_print_test_mse logs_assign_x_train logs_assign_model logs_assign_results logs_print_summary logs_main_regplot


section \<open>Whole runs\<close>

lemma concat_take: "\<exists>m. concat (take n xss) = take m (concat xss)"
proof (induction xss arbitrary: n)
  case Nil
  then show ?case by simp
next
  case (Cons xs xss)
  show ?case
  proof (cases n)
    case 0
    then show ?thesis by (simp add: exI[of _ 0])
  next
    case (Suc j)
    from Cons.IH[of j] obtain m where "concat (take j xss) = take m (concat xss)" ..
    with Suc have "concat (take n (xs # xss)) = take (length xs + m) (concat (xs # xss))"
      by simp
    then show ?thesis ..
  qed
qed

lemma run_calls:
  assumes "logs_all (concat nb) specs"
  shows "\<exists>m. calls_of (events (fst (run nb))) = take m (concat (map fst specs))"
    and "snd (run nb) = None \<Longrightarrow> calls_of (events (fst (run nb))) = concat (map fst specs)"
proof -
  from exec_logs[OF assms, of init] obtain n evs where n:
      "events (fst (exec (concat nb) init)) = events init @ evs"
      "calls_of evs = concat (map fst (take n specs))"
      "snd (exec (concat nb) init) = None \<longrightarrow> n = length specs"
    by (elim exE conjE)
  have c: "calls_of (events (fst (run nb))) = concat (take n (map fst specs))"
    using n(1,2) by (simp add: run_def init_def take_map)
  from concat_take[of n "map fst specs"] c
  show "\<exists>m. calls_of (events (fst (run nb))) = take m (concat (map fst specs))"
    by simp
  show "calls_of (events (fst (run nb))) = concat (map fst specs)" if "snd (run nb) = None"
    using that n(3) c by (simp add: run_def)
qed

lemma main_uses:
  "uses_all (concat (main_notebook l w))
     [([], [''db'']), ([''db''], [''df'']), ([''db''], []), ([''df''], [''df_corr'']),
       ([''df_corr''], []), ([''df_corr''], [''target_corr'']), ([''target_corr''], []),
       ([''df'', ''target_corr''], []), ([''df'', ''target_corr''], [''X'']),
       ([''X''], []), ([''X''], []), ([''df''], [''y'']),
       ([''X'', ''y''], [''X_train'', ''X_test'', ''y_train'', ''y_test'']),
       ([], [''sc'']), ([''sc'', ''X_train''], []), ([''sc'', ''X_test''], []),
       ([], [''lr'']), ([''lr'', ''X_train'', ''y_train''], []),
       ([''lr'', ''X_test''], [''y_preds'']), ([''lr'', ''X_train'', ''y_train''], []),
       ([''lr'', ''y_test'', ''y_preds''], []), ([''lr'', ''y_test'', ''y_preds''], []),
       ([''X_train''], [''x_train'']), ([''y_train'', ''x_train''], [''model'']),
       ([''model''], [''results'']), ([''results'', ''X''], []),
       ([''df_corr''], [''target_corr'']), ([''df'', ''target_corr''], [''X'']),
       ([''X''], []), ([''X''], []),
       ([''X'', ''y''], [''X_train'', ''X_test'', ''y_train'', ''y_test'']),
       ([], [''sc'']), ([''sc'', ''X_train''], []), ([''sc'', ''X_test''], []),
       ([''X_train''], [''x_train'']), ([''y_train'', ''x_train''], [''model'']),
       ([''model''], [''results'']), ([''results'', ''X''], []), ([''df''], [])]"
  by (simp add: main_notebook_def cell_defs uses_stmts)

lemma main_flows:
  "flows []
     [([], [''db'']), ([''db''], [''df'']), ([''db''], []), ([''df''], [''df_corr'']),
       ([''df_corr''], []), ([''df_corr''], [''target_corr'']), ([''target_corr''], []),
       ([''df'', ''target_corr''], []), ([''df'', ''target_corr''], [''X'']),
       ([''X''], []), ([''X''], []), ([''df''], [''y'']),
       ([''X'', ''y''], [''X_train'', ''X_test'', ''y_train'', ''y_test'']),
       ([], [''sc'']), ([''sc'', ''X_train''], []), ([''sc'', ''X_test''], []),
       ([], [''lr'']), ([''lr'', ''X_train'', ''y_train''], []),
       ([''lr'', ''X_test''], [''y_preds'']), ([''lr'', ''X_train'', ''y_train''], []),
       ([''lr'', ''y_test'', ''y_preds''], []), ([''lr'', ''y_test'', ''y_preds''], []),
       ([''X_train''], [''x_train'']), ([''y_train'', ''x_train''], [''model'']),
       ([''model''], [''results'']), ([''results'', ''X''], []),
       ([''df_corr''], [''target_corr'']), ([''df'', ''target_corr''], [''X'']),
       ([''X''], []), ([''X''], []),
       ([''X'', ''y''], [''X_train'', ''X_test'', ''y_train'', ''y_test'']),
       ([], [''sc'']), ([''sc'', ''X_train''], []), ([''sc'', ''X_test''], []),
       ([''X_train''], [''x_train'']), ([''y_train'', ''x_train''], [''model'']),
       ([''model''], [''results'']), ([''results'', ''X''], []), ([''df''], [])]"
  by simp

lemma main_logs:
  "logs_all (concat (main_notebook l w))
     [([''load_diabetes''], [''diabetes'']), ([], []), ([], []), ([''corr''], []),
       ([], []), ([], []), ([], []), ([''pairplot''], []), ([], []), ([''fillna''], []),
       ([], []), ([], []), ([''train_test_split''], []), ([], []),
       ([''fit_transform''], []), ([''transform''], []), ([], []), ([''fit''], []),
       ([''predict''], []), ([''score''], []), ([''r2_score''], []),
       ([''mean_squared_error''], []), ([''add_constant''], []), ([''OLS''], []),
       ([''OLS.fit''], []), ([''summary''], []), ([], []), ([], []), ([''fillna''], []),
       ([], []), ([''train_test_split''], []), ([], []), ([''fit_transform''], []),
       ([''transform''], []), ([''add_constant''], []), ([''OLS''], []),
       ([''OLS.fit''], []), ([''summary''], []), ([''regplot''], [])]"
  by (simp add: main_notebook_def cell_defs logs_stmts)

lemma main_no_name_error: "snd (run (main_notebook l w)) \<noteq> Some (NameError v)"
  unfolding run_def by (rule exec_uses[OF main_uses main_flows]) simp

lemma main_calls:
  "\<exists>m. calls_of (events (fst (run (main_notebook l w)))) = take m
     [''load_diabetes'', ''corr'', ''pairplot'', ''fillna'', ''train_test_split'',
      ''fit_transform'', ''transform'', ''fit'', ''predict'', ''score'', ''r2_score'',
      ''mean_squared_error'', ''add_constant'', ''OLS'', ''OLS.fit'', ''summary'',
      ''fillna'', ''train_test_split'', ''fit_transform'', ''transform'', ''add_constant'',
      ''OLS'', ''OLS.fit'', ''summary'', ''regplot'']"
  "snd (run (main_notebook l w)) = None \<Longrightarrow> calls_of (events (fst (run (main_notebook l w)))) =
     [''load_diabetes'', ''corr'', ''pairplot'', ''fillna'', ''train_test_split'',
      ''fit_transform'', ''transform'', ''fit'', ''predict'', ''score'', ''r2_score'',
      ''mean_squared_error'', ''add_constant'', ''OLS'', ''OLS.fit'', ''summary'',
      ''fillna'', ''train_test_split'', ''fit_transform'', ''transform'', ''add_constant'',
      ''OLS'', ''OLS.fit'', ''summary'', ''regplot'']"
  using run_calls[OF main_logs, of l w] by simp_all

lemma life_uses:
  "uses_all (concat (life_notebook l w))
     [([], [''df'']), ([''df''], []), ([''df''], []), ([''df''], []), ([''df''], []),
       ([''df''], [''df_corr'']), ([''df_corr''], [''y_corr'']), ([''y_corr''], []),
       ([''df'', ''y_corr''], []), ([''df'', ''y_corr''], [''X'']), ([''X''], []),
       ([''X''], []), ([''df''], [''y'']),
       ([''X'', ''y''], [''X_train'', ''X_test'', ''y_train'', ''y_test'']),
       ([], [''sc'']), ([''sc'', ''X_train''], []), ([''sc'', ''X_test''], []),
       ([], [''lr'']), ([''lr'', ''X_train'', ''y_train''], []),
       ([''lr'', ''X_test''], [''y_preds'']), ([''lr'', ''X_train'', ''y_train''], []),
       ([''lr'', ''y_test'', ''y_preds''], []), ([''X_train''], [''x_train'']),
       ([''y_train'', ''x_train''], [''model'']), ([''model''], [''results'']),
       ([''results'', ''X''], [])]"
  by (simp add: life_notebook_def cell_defs uses_stmts)

lemma life_flows:
  "flows []
     [([], [''df'']), ([''df''], []), ([''df''], []), ([''df''], []), ([''df''], []),
       ([''df''], [''df_corr'']), ([''df_corr''], [''y_corr'']), ([''y_corr''], []),
       ([''df'', ''y_corr''], []), ([''df'', ''y_corr''], [''X'']), ([''X''], []),
       ([''X''], []), ([''df''], [''y'']),
       ([''X'', ''y''], [''X_train'', ''X_test'', ''y_train'', ''y_test'']),
       ([], [''sc'']), ([''sc'', ''X_train''], []), ([''sc'', ''X_test''], []),
       ([], [''lr'']), ([''lr'', ''X_train'', ''y_train''], []),
       ([''lr'', ''X_test''], [''y_preds'']), ([''lr'', ''X_train'', ''y_train''], []),
       ([''lr'', ''y_test'', ''y_preds''], []), ([''X_train''], [''x_train'']),
       ([''y_train'', ''x_train''], [''model'']), ([''model''], [''results'']),
       ([''results'', ''X''], [])]"
  by simp

lemma life_logs:
  "logs_all (concat (life_notebook l w))
     [([''read_csv''], [''life_expectancy.csv'']), ([], []), ([''fillna''], []), ([], []),
       ([], []), ([''corr''], []), ([], []), ([], []), ([''pairplot''], []), ([], []),
       ([''fillna''], []), ([], []), ([], []), ([''train_test_split''], []), ([], []),
       ([''fit_transform''], []), ([''transform''], []), ([], []), ([''fit''], []),
       ([''predict''], []), ([''score''], []), ([''r2_score''], []),
       ([''add_constant''], []), ([''OLS''], []), ([''OLS.fit''], []), ([''summary''], [])]"
  by (simp add: life_notebook_def cell_defs logs_stmts)

lemma life_no_name_error: "snd (run (life_notebook l w)) \<noteq> Some (NameError v)"
  unfolding run_def by (rule exec_uses[OF life_uses life_flows]) simp

lemma life_calls:
  "\<exists>m. calls_of (events (fst (run (life_notebook l w)))) = take m
     [''read_csv'', ''fillna'', ''corr'', ''pairplot'', ''fillna'', ''train_test_split'',
      ''fit_transform'', ''transform'', ''fit'', ''predict'', ''score'', ''r2_score'',
      ''add_constant'', ''OLS'', ''OLS.fit'', ''summary'']"
  "snd (run (life_notebook l w)) = None \<Longrightarrow> calls_of (events (fst (run (life_notebook l w)))) =
     [''read_csv'', ''fillna'', ''corr'', ''pairplot'', ''fillna'', ''train_test_split'',
      ''fit_transform'', ''transform'', ''fit'', ''predict'', ''score'', ''r2_score'',
      ''add_constant'', ''OLS'', ''OLS.fit'', ''summary'']"
  using run_calls[OF life_logs, of l w] by simp_all

lemma air_uses:
  "uses_all (concat (air_notebook l w))
     [([], [''df'']), ([''df''], []), ([''df''], []), ([''df''], [''df_corr'']),
       ([''df_corr''], []), ([''df_corr''], [''y_corr'']), ([''y_corr''], []),
       ([''df'', ''y_corr''], []), ([''df'', ''y_corr''], [''X'']), ([''X''], []),
       ([''X''], []), ([''df''], [''y'']),
       ([''X'', ''y''], [''X_train'', ''X_test'', ''y_train'', ''y_test'']),
       ([], [''sc'']), ([''sc'', ''X_train''], []), ([''sc'', ''X_test''], []),
       ([], [''lr'']), ([''lr'', ''X_train'', ''y_train''], []),
       ([''lr'', ''X_test''], [''y_preds'']), ([''lr'', ''X_train'', ''y_train''], []),
       ([''lr'', ''y_test'', ''y_preds''], []), ([''X_train''], [''x_train'']),
       ([''y_train'', ''x_train''], [''model'']), ([''model''], [''results'']),
       ([''results'', ''X''], [])]"
  by (simp add: air_notebook_def cell_defs uses_stmts)

lemma air_flows:
  "flows []
     [([], [''df'']), ([''df''], []), ([''df''], []), ([''df''], [''df_corr'']),
       ([''df_corr''], []), ([''df_corr''], [''y_corr'']), ([''y_corr''], []),
       ([''df'', ''y_corr''], []), ([''df'', ''y_corr''], [''X'']), ([''X''], []),
       ([''X''], []), ([''df''], [''y'']),
       ([''X'', ''y''], [''X_train'', ''X_test'', ''y_train'', ''y_test'']),
       ([], [''sc'']), ([''sc'', ''X_train''], []), ([''sc'', ''X_test''], []),
       ([], [''lr'']), ([''lr'', ''X_train'', ''y_train''], []),
       ([''lr'', ''X_test''], [''y_preds'']), ([''lr'', ''X_train'', ''y_train''], []),
       ([''lr'', ''y_test'', ''y_preds''], []), ([''X_train''], [''x_train'']),
       ([''y_train'', ''x_train''], [''model'']), ([''model''], [''results'']),
       ([''results'', ''X''], [])]"
  by simp

lemma air_logs:
  "logs_all (concat (air_notebook l w))
     [([''read_csv''], [''air_quality.csv'']), ([''fillna''], []), ([], []),
       ([''corr''], []), ([], []), ([], []), ([], []), ([''pairplot''], []), ([], []),
       ([''fillna''], []), ([], []), ([], []), ([''train_test_split''], []), ([], []),
       ([''fit_transform''], []), ([''transform''], []), ([], []), ([''fit''], []),
       ([''predict''], []), ([''score''], []), ([''r2_score''], []),
       ([''add_constant''], []), ([''OLS''], []), ([''OLS.fit''], []), ([''summary''], [])]"
  by (simp add: air_notebook_def cell_defs logs_stmts)

lemma air_no_name_error: "snd (run (air_notebook l w)) \<noteq> Some (NameError v)"
  unfolding run_def by (rule exec_uses[OF air_uses air_flows]) simp

lemma air_calls:
  "\<exists>m. calls_of (events (fst (run (air_notebook l w)))) = take m
     [''read_csv'', ''fillna'', ''corr'', ''pairplot'', ''fillna'', ''train_test_split'',
      ''fit_transform'', ''transform'', ''fit'', ''predict'', ''score'', ''r2_score'',
      ''add_constant'', ''OLS'', ''OLS.fit'', ''summary'']"
  "snd (run (air_notebook l w)) = None \<Longrightarrow> calls_of (events (fst (run (air_notebook l w)))) =
     [''read_csv'', ''fillna'', ''corr'', ''pairplot'', ''fillna'', ''train_test_split'',
      ''fit_transform'', ''transform'', ''fit'', ''predict'', ''score'', ''r2_score'',
      ''add_constant'', ''OLS'', ''OLS.fit'', ''summary'']"
  using run_calls[OF air_logs, of l w] by simp_all




lemma sample_main_complete: "snd (run (main_notebook sample_lib sample_world)) = None"
  by (simp add: run_def main_notebook_def init_def stmt_defs cell_defs pandas_defs sample_defs
        Let_def)

lemma sample_life_complete: "snd (run (life_notebook sample_lib sample_world)) = None"
  by (simp add: run_def life_notebook_def init_def stmt_defs cell_defs pandas_defs sample_defs
        Let_def)

lemma sample_air_complete: "snd (run (air_notebook sample_lib sample_world)) = None"
  by (simp add: run_def air_notebook_def init_def stmt_defs cell_defs pandas_defs sample_defs
        Let_def)


section \<open>The order of the steps\<close>

text \<open>
  C3, as amended. Run in order, no notebook ever reads a variable that is not bound yet:
  no run ends in NameError. The library calls of a run are a prefix of a fixed sequence,
  the whole sequence when the run completes. In both exercise notebooks that sequence
  is load, fill, correlate, plot, fill, split, scale, fit, predict, score, the OLS fit
  and its summary. In the main notebook the correlation comes before any fill: load,
  correlate, plot, fill, split, scale, fit, predict, the three metrics, the OLS fit and
  summary, then the refit (fill, split, scale, OLS fit, summary) and a last plot.
\<close>

theorem cells_in_order:
  "(\<forall>v. snd (run (main_notebook l w)) \<noteq> Some (NameError v))
   \<and> (\<forall>v. snd (run (life_notebook l w)) \<noteq> Some (NameError v))
   \<and> (\<forall>v. snd (run (air_notebook l w)) \<noteq> Some (NameError v))
   \<and> (\<exists>m. calls_of (events (fst (run (main_notebook l w)))) = take m
       [''load_diabetes'', ''corr'', ''pairplot'', ''fillna'', ''train_test_split'',
        ''fit_transform'', ''transform'', ''fit'', ''predict'', ''score'', ''r2_score'',
        ''mean_squared_error'', ''add_constant'', ''OLS'', ''OLS.fit'', ''summary'',
        ''fillna'', ''train_test_split'', ''fit_transform'', ''transform'',
        ''add_constant'', ''OLS'', ''OLS.fit'', ''summary'', ''regplot''])
   \<and> (snd (run (main_notebook l w)) = None \<longrightarrow> calls_of (events (fst (run (main_notebook l w)))) =
       [''load_diabetes'', ''corr'', ''pairplot'', ''fillna'', ''train_test_split'',
        ''fit_transform'', ''transform'', ''fit'', ''predict'', ''score'', ''r2_score'',
        ''mean_squared_error'', ''add_constant'', ''OLS'', ''OLS.fit'', ''summary'',
        ''fillna'', ''train_test_split'', ''fit_transform'', ''transform'',
        ''add_constant'', ''OLS'', ''OLS.fit'', ''summary'', ''regplot''])
   \<and> (\<exists>m. calls_of (events (fst (run (life_notebook l w)))) = take m
       [''read_csv'', ''fillna'', ''corr'', ''pairplot'', ''fillna'', ''train_test_split'',
        ''fit_transform'', ''transform'', ''fit'', ''predict'', ''score'', ''r2_score'',
        ''add_constant'', ''OLS'', ''OLS.fit'', ''summary''])
   \<and> (snd (run (life_notebook l w)) = None \<longrightarrow> calls_of (events (fst (run (life_notebook l w)))) =
       [''read_csv'', ''fillna'', ''corr'', ''pairplot'', ''fillna'', ''train_test_split'',
        ''fit_transform'', ''transform'', ''fit'', ''predict'', ''score'', ''r2_score'',
        ''add_constant'', ''OLS'', ''OLS.fit'', ''summary''])
   \<and> (\<exists>m. calls_of (events (fst (run (air_notebook l w)))) = take m
       [''read_csv'', ''fillna'', ''corr'', ''pairplot'', ''fillna'', ''train_test_split'',
        ''fit_transform'', ''transform'', ''fit'', ''predict'', ''score'', ''r2_score'',
        ''add_constant'', ''OLS'', ''OLS.fit'', ''summary''])
   \<and> (snd (run (air_notebook l w)) = None \<longrightarrow> calls_of (events (fst (run (air_notebook l w)))) =
       [''read_csv'', ''fillna'', ''corr'', ''pairplot'', ''fillna'', ''train_test_split'',
        ''fit_transform'', ''transform'', ''fit'', ''predict'', ''score'', ''r2_score'',
        ''add_constant'', ''OLS'', ''OLS.fit'', ''summary''])"
  using main_no_name_error[of l w] life_no_name_error[of l w] air_no_name_error[of l w]
    main_calls[of l w] life_calls[of l w] air_calls[of l w]
  by blast

theorem cells_in_order_witness:
  "snd (run (main_notebook sample_lib sample_world)) = None
   \<and> calls_of (events (fst (run (main_notebook sample_lib sample_world)))) =
       [''load_diabetes'', ''corr'', ''pairplot'', ''fillna'', ''train_test_split'',
        ''fit_transform'', ''transform'', ''fit'', ''predict'', ''score'', ''r2_score'',
        ''mean_squared_error'', ''add_constant'', ''OLS'', ''OLS.fit'', ''summary'',
        ''fillna'', ''train_test_split'', ''fit_transform'', ''transform'',
        ''add_constant'', ''OLS'', ''OLS.fit'', ''summary'', ''regplot'']
   \<and> snd (run (life_notebook sample_lib sample_world)) = None
   \<and> calls_of (events (fst (run (life_notebook sample_lib sample_world)))) =
       [''read_csv'', ''fillna'', ''corr'', ''pairplot'', ''fillna'', ''train_test_split'',
        ''fit_transform'', ''transform'', ''fit'', ''predict'', ''score'', ''r2_score'',
        ''add_constant'', ''OLS'', ''OLS.fit'', ''summary'']
   \<and> snd (run (air_notebook sample_lib sample_world)) = None
   \<and> calls_of (events (fst (run (air_notebook sample_lib sample_world)))) =
       [''read_csv'', ''fillna'', ''corr'', ''pairplot'', ''fillna'', ''train_test_split'',
        ''fit_transform'', ''transform'', ''fit'', ''predict'', ''score'', ''r2_score'',
        ''add_constant'', ''OLS'', ''OLS.fit'', ''summary'']"
  using cells_in_order[of sample_lib sample_world] sample_main_complete sample_life_complete
    sample_air_complete
  by blast

text \<open>
  C3 as stated fails: in the main notebook the cleaning step does not precede the
  correlation step. On the sample data the first four library calls are the load, the
  correlation, the pair plot and only then the fill.
\<close>

theorem clean_before_correlate_counterexample:
  "take 4 (calls_of (events (fst (run (main_notebook sample_lib sample_world)))))
     = [''load_diabetes'', ''corr'', ''pairplot'', ''fillna'']"
  using main_calls(2)[OF sample_main_complete] by simp

section \<open>Fitting on the training rows\<close>

lemma exec_append_complete:
  "exec (ss @ ts) k = (k', None) \<Longrightarrow> \<exists>k1. exec ss k = (k1, None) \<and> exec ts k1 = (k', None)"
  by (induction ss arbitrary: k) (auto split: sum.splits)

lemma exec_only_logs:
  "list_all only_logs ss \<Longrightarrow> exec ss k = (k', None) \<Longrightarrow> data_kept k k' \<and> fits_kept k k'"
proof (induction ss arbitrary: k)
  case Nil
  then show ?case by (simp add: data_kept_def fits_kept_def)
next
  case (Cons s ss)
  from Cons.prems(2) obtain k1 where k1: "s k = Inr k1" "exec ss k1 = (k', None)"
    by (auto split: sum.splits)
  from Cons.prems(1) k1(1) have a: "data_kept k k1 \<and> fits_kept k k1"
    unfolding only_logs_def by auto
  from Cons.prems(1) have "list_all only_logs ss" by simp
  from Cons.IH[OF this k1(2)] a show ?case
    by (simp add: data_kept_def fits_kept_def)
qed

lemma only_logs_print_train_r2: "only_logs (print_train_r2 l)"
  by (auto simp: only_logs_def data_kept_def fits_kept_def print_train_r2_def rd_def call_def
        fitted_def emit_def
      split: option.splits sum.splits estimator.splits)

lemma only_logs_print_test_r2: "only_logs (print_test_r2 l)"
  by (auto simp: only_logs_def data_kept_def fits_kept_def print_test_r2_def rd_def call_def
        fitted_def emit_def
      split: option.splits sum.splits estimator.splits)

lemma only_logs_print_test_mse: "only_logs (print_test_mse l)"
  by (auto simp: only_logs_def data_kept_def fits_kept_def print_test_mse_def rd_def call_def
        fitted_def emit_def
      split: option.splits sum.splits estimator.splits)

lemma scale_complete:
  assumes "exec [new_sc, fit_transform_train l, transform_test l] k = (k', None)"
  shows "\<exists>xt xte p a b. var_X_train k = Some xt \<and> var_X_test k = Some xte
         \<and> scaler_fit_transform l xt = Inr (p, a) \<and> scaler_transform l p xte = Inr b
         \<and> var_sc k' = Some (Fitted p) \<and> var_X_train k' = Some (Array a)
         \<and> var_X_test k' = Some (Array b)
         \<and> var_y_train k' = var_y_train k \<and> var_y_test k' = var_y_test k
         \<and> var_lr k' = var_lr k \<and> var_y_preds k' = var_y_preds k
         \<and> var_x_train k' = var_x_train k \<and> var_model k' = var_model k
         \<and> var_results k' = var_results k \<and> data_kept k k'"
  using assms
  by (auto simp: new_sc_def fit_transform_train_def transform_test_def data_kept_def
        rd_def call_def fitted_def emit_def
      split: option.splits sum.splits estimator.splits prod.splits)

lemma fit_cell_complete:
  assumes "exec (fit_cell l) k = (k', None)"
  shows "\<exists>xt yt xte m p. var_X_train k = Some xt \<and> var_y_train k = Some yt
         \<and> var_X_test k = Some xte \<and> lr_fit l xt yt = Inr m \<and> lr_predict l m xte = Inr p
         \<and> var_lr k' = Some (Fitted m) \<and> var_y_preds k' = Some p
         \<and> var_X_train k' = var_X_train k \<and> var_X_test k' = var_X_test k
         \<and> var_y_train k' = var_y_train k \<and> var_y_test k' = var_y_test k
         \<and> var_sc k' = var_sc k
         \<and> var_x_train k' = var_x_train k \<and> var_model k' = var_model k
         \<and> var_results k' = var_results k \<and> data_kept k k'"
  using assms
  by (auto simp: fit_cell_def new_lr_def lr_fit_train_def predict_test_def data_kept_def
        rd_def call_def fitted_def emit_def
      split: option.splits sum.splits estimator.splits prod.splits)

lemma ols_cell_complete:
  assumes "exec (ols_cell l) k = (k', None)"
  shows "\<exists>xt yt c mo r. var_X_train k = Some xt \<and> var_y_train k = Some yt
         \<and> add_constant l xt = Inr c \<and> ols_new l yt c = Inr mo \<and> ols_fit l mo = Inr r
         \<and> var_x_train k' = Some c \<and> var_model k' = Some mo \<and> var_results k' = Some r
         \<and> var_X_train k' = var_X_train k \<and> var_X_test k' = var_X_test k
         \<and> var_y_train k' = var_y_train k \<and> var_y_test k' = var_y_test k
         \<and> var_sc k' = var_sc k \<and> var_lr k' = var_lr k \<and> var_y_preds k' = var_y_preds k
         \<and> data_kept k k'"
  using assms
  by (auto simp: ols_cell_def assign_x_train_def assign_model_def assign_results_def data_kept_def
        rd_def call_def fitted_def emit_def
      split: option.splits sum.splits estimator.splits prod.splits)

lemma refit_complete:
  assumes "exec ([new_sc, fit_transform_train l, transform_test l] @ ols_cell l) k = (k', None)"
  obtains xt yt xte p a b c mo r where
    "var_X_train k = Some xt" "var_y_train k = Some yt" "var_X_test k = Some xte"
    "scaler_fit_transform l xt = Inr (p, a)" "scaler_transform l p xte = Inr b"
    "add_constant l (Array a) = Inr c" "ols_new l yt c = Inr mo" "ols_fit l mo = Inr r"
    "var_sc k' = Some (Fitted p)" "var_X_train k' = Some (Array a)"
    "var_X_test k' = Some (Array b)" "var_y_train k' = Some yt"
    "var_x_train k' = Some c" "var_model k' = Some mo" "var_results k' = Some r"
proof -
  from exec_append_complete[OF assms] obtain k1 where
    k1: "exec [new_sc, fit_transform_train l, transform_test l] k = (k1, None)"
      "exec (ols_cell l) k1 = (k', None)"
    by blast
  from scale_complete[OF k1(1)] obtain xt xte p a b where
    s: "var_X_train k = Some xt" "var_X_test k = Some xte"
      "scaler_fit_transform l xt = Inr (p, a)" "scaler_transform l p xte = Inr b"
      "var_sc k1 = Some (Fitted p)" "var_X_train k1 = Some (Array a)"
      "var_X_test k1 = Some (Array b)" "var_y_train k1 = var_y_train k"
    by (elim exE conjE)
  from ols_cell_complete[OF k1(2)] obtain xt' yt c mo r where
    ol: "var_X_train k1 = Some xt'" "var_y_train k1 = Some yt"
      "add_constant l xt' = Inr c" "ols_new l yt c = Inr mo" "ols_fit l mo = Inr r"
      "var_x_train k' = Some c" "var_model k' = Some mo" "var_results k' = Some r"
      "var_X_train k' = var_X_train k1" "var_X_test k' = var_X_test k1"
      "var_y_train k' = var_y_train k1" "var_sc k' = var_sc k1"
    by (elim exE conjE)
  from s ol have x: "xt' = Array a" by simp
  show thesis
    by (rule that[of xt yt xte p a b c mo r]) (use s ol x in simp_all)
qed

lemma first_fit_complete:
  assumes "exec ([new_sc, fit_transform_train l, transform_test l] @ fit_cell l @ ps @ ols_cell l) k
             = (k', None)"
    and "list_all only_logs ps"
  obtains xt yt xte p a b m c mo r where
    "var_X_train k = Some xt" "var_y_train k = Some yt" "var_X_test k = Some xte"
    "scaler_fit_transform l xt = Inr (p, a)" "scaler_transform l p xte = Inr b"
    "lr_fit l (Array a) yt = Inr m"
    "add_constant l (Array a) = Inr c" "ols_new l yt c = Inr mo" "ols_fit l mo = Inr r"
    "var_sc k' = Some (Fitted p)" "var_X_train k' = Some (Array a)"
    "var_X_test k' = Some (Array b)" "var_y_train k' = Some yt" "var_lr k' = Some (Fitted m)"
    "var_x_train k' = Some c" "var_model k' = Some mo" "var_results k' = Some r"
proof -
  from exec_append_complete[OF assms(1)] obtain k1 where
    k1: "exec [new_sc, fit_transform_train l, transform_test l] k = (k1, None)"
      "exec (fit_cell l @ ps @ ols_cell l) k1 = (k', None)"
    by blast
  from exec_append_complete[OF k1(2)] obtain k2 where
    k2: "exec (fit_cell l) k1 = (k2, None)" "exec (ps @ ols_cell l) k2 = (k', None)"
    by blast
  from exec_append_complete[OF k2(2)] obtain k3 where
    k3: "exec ps k2 = (k3, None)" "exec (ols_cell l) k3 = (k', None)"
    by blast
  from exec_only_logs[OF assms(2) k3(1)] have f: "var_X_train k3 = var_X_train k2"
    "var_X_test k3 = var_X_test k2" "var_y_train k3 = var_y_train k2" "var_sc k3 = var_sc k2"
    "var_lr k3 = var_lr k2"
    by (simp_all add: fits_kept_def)
  from scale_complete[OF k1(1)] obtain xt xte p a b where
    s: "var_X_train k = Some xt" "var_X_test k = Some xte"
      "scaler_fit_transform l xt = Inr (p, a)" "scaler_transform l p xte = Inr b"
      "var_sc k1 = Some (Fitted p)" "var_X_train k1 = Some (Array a)"
      "var_X_test k1 = Some (Array b)" "var_y_train k1 = var_y_train k"
    by (elim exE conjE)
  from fit_cell_complete[OF k2(1)] obtain xt1 yt m where
    fi: "var_X_train k1 = Some xt1" "var_y_train k1 = Some yt" "lr_fit l xt1 yt = Inr m"
      "var_lr k2 = Some (Fitted m)" "var_X_train k2 = var_X_train k1"
      "var_X_test k2 = var_X_test k1" "var_y_train k2 = var_y_train k1" "var_sc k2 = var_sc k1"
    by (elim exE conjE)
  from ols_cell_complete[OF k3(2)] obtain xt' yt' c mo r where
    ol: "var_X_train k3 = Some xt'" "var_y_train k3 = Some yt'"
      "add_constant l xt' = Inr c" "ols_new l yt' c = Inr mo" "ols_fit l mo = Inr r"
      "var_x_train k' = Some c" "var_model k' = Some mo" "var_results k' = Some r"
      "var_X_train k' = var_X_train k3" "var_X_test k' = var_X_test k3"
      "var_y_train k' = var_y_train k3" "var_sc k' = var_sc k3" "var_lr k' = var_lr k3"
    by (elim exE conjE)
  from s fi ol f have x: "xt1 = Array a" "xt' = Array a" "yt' = yt" by simp_all
  show thesis
    by (rule that[of xt yt xte p a b m c mo r]) (use s fi ol f x in simp_all)
qed

lemma after_split_main:
  "after_split (main_notebook l w) 6 4 =
     [new_sc, fit_transform_train l, transform_test l] @ fit_cell l
       @ [print_train_r2 l, print_test_r2 l, print_test_mse l] @ ols_cell l"
  "after_split (main_notebook l w) 12 0 =
     [new_sc, fit_transform_train l, transform_test l] @ ols_cell l"
  by (simp_all add: after_split_def main_notebook_def setup_cell_def ols_cell_def)

lemma after_split_exercises:
  "after_split (life_notebook l w) 5 5 =
     [new_sc, fit_transform_train l, transform_test l] @ fit_cell l
       @ [print_train_r2 l, print_test_r2 l] @ ols_cell l"
  "after_split (air_notebook l w) 6 5 =
     [new_sc, fit_transform_train l, transform_test l] @ fit_cell l
       @ [print_train_r2 l, print_test_r2 l] @ ols_cell l"
  by (simp_all add: after_split_def life_notebook_def air_notebook_def setup_cell_def)

lemma split_positions:
  "main_notebook l w ! 6 ! 4 = split l w 5" "main_notebook l w ! 12 ! 4 = split l w 5"
  "life_notebook l w ! 5 ! 4 = split l w 9" "air_notebook l w ! 6 ! 4 = split l w 9"
  by (simp_all add: main_notebook_def life_notebook_def air_notebook_def setup_cell_def)

lemma first_fit_agree:
  assumes "var_X_train k1 = var_X_train k2" and "var_y_train k1 = var_y_train k2"
    and "exec ([new_sc, fit_transform_train l, transform_test l] @ fit_cell l @ ps @ ols_cell l) k1
           = (k1', None)"
    and "exec ([new_sc, fit_transform_train l, transform_test l] @ fit_cell l @ ps @ ols_cell l) k2
           = (k2', None)"
    and "list_all only_logs ps"
  shows "var_sc k1' = var_sc k2' \<and> var_X_train k1' = var_X_train k2' \<and> var_lr k1' = var_lr k2'
     \<and> var_x_train k1' = var_x_train k2' \<and> var_model k1' = var_model k2'
     \<and> var_results k1' = var_results k2'"
proof -
  obtain xt yt xte p a b m c mo r where
    a: "var_X_train k1 = Some xt" "var_y_train k1 = Some yt" "var_X_test k1 = Some xte"
      "scaler_fit_transform l xt = Inr (p, a)" "scaler_transform l p xte = Inr b"
      "lr_fit l (Array a) yt = Inr m"
      "add_constant l (Array a) = Inr c" "ols_new l yt c = Inr mo" "ols_fit l mo = Inr r"
      "var_sc k1' = Some (Fitted p)" "var_X_train k1' = Some (Array a)"
      "var_X_test k1' = Some (Array b)" "var_y_train k1' = Some yt" "var_lr k1' = Some (Fitted m)"
      "var_x_train k1' = Some c" "var_model k1' = Some mo" "var_results k1' = Some r"
    by (rule first_fit_complete[OF assms(3,5)])
  obtain xt' yt' xte' p' a' b' m' c' mo' r' where
    b: "var_X_train k2 = Some xt'" "var_y_train k2 = Some yt'" "var_X_test k2 = Some xte'"
      "scaler_fit_transform l xt' = Inr (p', a')" "scaler_transform l p' xte' = Inr b'"
      "lr_fit l (Array a') yt' = Inr m'"
      "add_constant l (Array a') = Inr c'" "ols_new l yt' c' = Inr mo'" "ols_fit l mo' = Inr r'"
      "var_sc k2' = Some (Fitted p')" "var_X_train k2' = Some (Array a')"
      "var_X_test k2' = Some (Array b')" "var_y_train k2' = Some yt'"
      "var_lr k2' = Some (Fitted m')"
      "var_x_train k2' = Some c'" "var_model k2' = Some mo'" "var_results k2' = Some r'"
    by (rule first_fit_complete[OF assms(4,5)])
  from a(1,2) b(1,2) assms(1,2) have e: "xt' = xt" "yt' = yt" by simp_all
  from a(4) b(4) e have e2: "p' = p" "a' = a" by simp_all
  from a(6) b(6) e e2 have e3: "m' = m" by simp
  from a(7) b(7) e2 have e4: "c' = c" by simp
  from a(8) b(8) e e4 have e5: "mo' = mo" by simp
  from a(9) b(9) e5 have e6: "r' = r" by simp
  from a(10,11,14-17) b(10,11,14-17) e2 e3 e4 e5 e6 show ?thesis by simp
qed

lemma refit_agree:
  assumes "var_X_train k1 = var_X_train k2" and "var_y_train k1 = var_y_train k2"
    and "exec ([new_sc, fit_transform_train l, transform_test l] @ ols_cell l) k1 = (k1', None)"
    and "exec ([new_sc, fit_transform_train l, transform_test l] @ ols_cell l) k2 = (k2', None)"
  shows "var_sc k1' = var_sc k2' \<and> var_X_train k1' = var_X_train k2'
     \<and> var_x_train k1' = var_x_train k2' \<and> var_model k1' = var_model k2'
     \<and> var_results k1' = var_results k2'"
proof -
  obtain xt yt xte p a b c mo r where
    a: "var_X_train k1 = Some xt" "var_y_train k1 = Some yt" "var_X_test k1 = Some xte"
      "scaler_fit_transform l xt = Inr (p, a)" "scaler_transform l p xte = Inr b"
      "add_constant l (Array a) = Inr c" "ols_new l yt c = Inr mo" "ols_fit l mo = Inr r"
      "var_sc k1' = Some (Fitted p)" "var_X_train k1' = Some (Array a)"
      "var_X_test k1' = Some (Array b)" "var_y_train k1' = Some yt"
      "var_x_train k1' = Some c" "var_model k1' = Some mo" "var_results k1' = Some r"
    by (rule refit_complete[OF assms(3)])
  obtain xt' yt' xte' p' a' b' c' mo' r' where
    b: "var_X_train k2 = Some xt'" "var_y_train k2 = Some yt'" "var_X_test k2 = Some xte'"
      "scaler_fit_transform l xt' = Inr (p', a')" "scaler_transform l p' xte' = Inr b'"
      "add_constant l (Array a') = Inr c'" "ols_new l yt' c' = Inr mo'" "ols_fit l mo' = Inr r'"
      "var_sc k2' = Some (Fitted p')" "var_X_train k2' = Some (Array a')"
      "var_X_test k2' = Some (Array b')" "var_y_train k2' = Some yt'"
      "var_x_train k2' = Some c'" "var_model k2' = Some mo'" "var_results k2' = Some r'"
    by (rule refit_complete[OF assms(4)])
  from a(1,2) b(1,2) assms(1,2) have e: "xt' = xt" "yt' = yt" by simp_all
  from a(4) b(4) e have e2: "p' = p" "a' = a" by simp_all
  from a(6) b(6) e2 have e4: "c' = c" by simp
  from a(7) b(7) e e4 have e5: "mo' = mo" by simp
  from a(8) b(8) e5 have e6: "r' = r" by simp
  from a(9,10,13-15) b(9,10,13-15) e2 e4 e5 e6 show ?thesis by simp
qed

lemma scaler_fit_on_train:
  assumes "exec ([new_sc, fit_transform_train l, transform_test l] @ rest) k = (k', None)"
  shows "\<exists>xt xte p a b. var_X_train k = Some xt \<and> var_X_test k = Some xte
     \<and> scaler_fit_transform l xt = Inr (p, a) \<and> scaler_transform l p xte = Inr b
     \<and> var_sc (fst (exec [new_sc, fit_transform_train l, transform_test l] k)) = Some (Fitted p)
     \<and> var_X_train (fst (exec [new_sc, fit_transform_train l, transform_test l] k)) = Some (Array a)
     \<and> var_X_test (fst (exec [new_sc, fit_transform_train l, transform_test l] k)) = Some (Array b)"
proof -
  from exec_append_complete[OF assms] obtain k1 where
    k1: "exec [new_sc, fit_transform_train l, transform_test l] k = (k1, None)"
    by blast
  from scale_complete[OF k1] obtain xt xte p a b where
    s: "var_X_train k = Some xt" "var_X_test k = Some xte"
      "scaler_fit_transform l xt = Inr (p, a)" "scaler_transform l p xte = Inr b"
      "var_sc k1 = Some (Fitted p)" "var_X_train k1 = Some (Array a)"
      "var_X_test k1 = Some (Array b)"
    by (elim exE conjE)
  show ?thesis
    apply (rule exI[of _ xt], rule exI[of _ xte], rule exI[of _ p], rule exI[of _ a])
    apply (rule exI[of _ b])
    using s k1 by simp
qed

lemma only_logs_prints:
  "list_all only_logs [print_train_r2 l, print_test_r2 l, print_test_mse l]"
  "list_all only_logs [print_train_r2 l, print_test_r2 l]"
  by (simp_all add: only_logs_print_train_r2 only_logs_print_test_r2 only_logs_print_test_mse)

text \<open>
  C9, as amended. In every notebook the statements after a split (\<open>after_split\<close>: the rest
  of the cell that splits, up to the OLS fit) make the scaler, the scaled training array, the
  fitted regression and the OLS results from \<open>X_train\<close> and \<open>y_train\<close> alone: the scaler
  is fitted by the one \<open>fit_transform\<close> call on \<open>X_train\<close>, and only applied to \<open>X_test\<close>
  by \<open>transform\<close>. So two runs of these statements from kernels that bind the same
  training rows, whatever their test rows and all their other variables, that both
  complete end with the same scaler, scaled training array, regression and OLS results
  (after the refit split of the main notebook, which fits no regression: scaler, array
  and OLS results).
\<close>

theorem fit_uses_training_rows_only:
  assumes "var_X_train k1 = var_X_train k2" and "var_y_train k1 = var_y_train k2"
    and "exec seg k1 = (k1', None)" and "exec seg k2 = (k2', None)"
  shows "(seg = after_split (main_notebook l w) 6 4 \<or> seg = after_split (life_notebook l w) 5 5
          \<or> seg = after_split (air_notebook l w) 6 5
        \<longrightarrow> var_sc k1' = var_sc k2' \<and> var_X_train k1' = var_X_train k2'
            \<and> var_lr k1' = var_lr k2' \<and> var_x_train k1' = var_x_train k2'
            \<and> var_model k1' = var_model k2' \<and> var_results k1' = var_results k2')
     \<and> (seg = after_split (main_notebook l w) 12 0
        \<longrightarrow> var_sc k1' = var_sc k2' \<and> var_X_train k1' = var_X_train k2'
            \<and> var_x_train k1' = var_x_train k2'
            \<and> var_model k1' = var_model k2' \<and> var_results k1' = var_results k2')
     \<and> (seg = after_split (main_notebook l w) 6 4 \<or> seg = after_split (life_notebook l w) 5 5
          \<or> seg = after_split (air_notebook l w) 6 5 \<or> seg = after_split (main_notebook l w) 12 0
        \<longrightarrow> (\<exists>xt xte p a b. var_X_train k1 = Some xt \<and> var_X_test k1 = Some xte
              \<and> scaler_fit_transform l xt = Inr (p, a) \<and> scaler_transform l p xte = Inr b
              \<and> var_sc (fst (exec (take 3 seg) k1)) = Some (Fitted p)
              \<and> var_X_train (fst (exec (take 3 seg) k1)) = Some (Array a)
              \<and> var_X_test (fst (exec (take 3 seg) k1)) = Some (Array b)))
     \<and> main_notebook l w ! 6 ! 4 = split l w 5 \<and> main_notebook l w ! 12 ! 4 = split l w 5
     \<and> life_notebook l w ! 5 ! 4 = split l w 9 \<and> air_notebook l w ! 6 ! 4 = split l w 9"
proof -
  have A: "seg = after_split (main_notebook l w) 6 4 \<or> seg = after_split (life_notebook l w) 5 5
          \<or> seg = after_split (air_notebook l w) 6 5
        \<longrightarrow> var_sc k1' = var_sc k2' \<and> var_X_train k1' = var_X_train k2'
            \<and> var_lr k1' = var_lr k2' \<and> var_x_train k1' = var_x_train k2'
            \<and> var_model k1' = var_model k2' \<and> var_results k1' = var_results k2'"
  proof
    assume "seg = after_split (main_notebook l w) 6 4 \<or> seg = after_split (life_notebook l w) 5 5
          \<or> seg = after_split (air_notebook l w) 6 5"
    then have "seg = [new_sc, fit_transform_train l, transform_test l] @ fit_cell l
         @ [print_train_r2 l, print_test_r2 l, print_test_mse l] @ ols_cell l
      \<or> seg = [new_sc, fit_transform_train l, transform_test l] @ fit_cell l
         @ [print_train_r2 l, print_test_r2 l] @ ols_cell l"
      unfolding after_split_main after_split_exercises by blast
    then show "var_sc k1' = var_sc k2' \<and> var_X_train k1' = var_X_train k2'
            \<and> var_lr k1' = var_lr k2' \<and> var_x_train k1' = var_x_train k2'
            \<and> var_model k1' = var_model k2' \<and> var_results k1' = var_results k2'"
    proof
      assume 1: "seg = [new_sc, fit_transform_train l, transform_test l] @ fit_cell l
         @ [print_train_r2 l, print_test_r2 l, print_test_mse l] @ ols_cell l"
      from first_fit_agree[OF assms(1,2) assms(3)[unfolded 1] assms(4)[unfolded 1]
          only_logs_prints(1)]
      show ?thesis .
    next
      assume 2: "seg = [new_sc, fit_transform_train l, transform_test l] @ fit_cell l
         @ [print_train_r2 l, print_test_r2 l] @ ols_cell l"
      from first_fit_agree[OF assms(1,2) assms(3)[unfolded 2] assms(4)[unfolded 2]
          only_logs_prints(2)]
      show ?thesis .
    qed
  qed
  have B: "seg = after_split (main_notebook l w) 12 0
        \<longrightarrow> var_sc k1' = var_sc k2' \<and> var_X_train k1' = var_X_train k2'
            \<and> var_x_train k1' = var_x_train k2'
            \<and> var_model k1' = var_model k2' \<and> var_results k1' = var_results k2'"
  proof
    assume s: "seg = after_split (main_notebook l w) 12 0"
    from refit_agree[OF assms(1,2) assms(3)[unfolded s after_split_main]
        assms(4)[unfolded s after_split_main]]
    show "var_sc k1' = var_sc k2' \<and> var_X_train k1' = var_X_train k2'
            \<and> var_x_train k1' = var_x_train k2'
            \<and> var_model k1' = var_model k2' \<and> var_results k1' = var_results k2'" .
  qed
  have C: "seg = after_split (main_notebook l w) 6 4 \<or> seg = after_split (life_notebook l w) 5 5
          \<or> seg = after_split (air_notebook l w) 6 5 \<or> seg = after_split (main_notebook l w) 12 0
        \<longrightarrow> (\<exists>xt xte p a b. var_X_train k1 = Some xt \<and> var_X_test k1 = Some xte
              \<and> scaler_fit_transform l xt = Inr (p, a) \<and> scaler_transform l p xte = Inr b
              \<and> var_sc (fst (exec (take 3 seg) k1)) = Some (Fitted p)
              \<and> var_X_train (fst (exec (take 3 seg) k1)) = Some (Array a)
              \<and> var_X_test (fst (exec (take 3 seg) k1)) = Some (Array b))"
  proof
    assume "seg = after_split (main_notebook l w) 6 4 \<or> seg = after_split (life_notebook l w) 5 5
          \<or> seg = after_split (air_notebook l w) 6 5 \<or> seg = after_split (main_notebook l w) 12 0"
    then have "\<exists>rest. seg = [new_sc, fit_transform_train l, transform_test l] @ rest"
      unfolding after_split_main after_split_exercises by blast
    then obtain rest where r: "seg = [new_sc, fit_transform_train l, transform_test l] @ rest" ..
    then have t: "take 3 seg = [new_sc, fit_transform_train l, transform_test l]" by simp
    from scaler_fit_on_train[OF assms(3)[unfolded r]]
    show "\<exists>xt xte p a b. var_X_train k1 = Some xt \<and> var_X_test k1 = Some xte
              \<and> scaler_fit_transform l xt = Inr (p, a) \<and> scaler_transform l p xte = Inr b
              \<and> var_sc (fst (exec (take 3 seg) k1)) = Some (Fitted p)
              \<and> var_X_train (fst (exec (take 3 seg) k1)) = Some (Array a)
              \<and> var_X_test (fst (exec (take 3 seg) k1)) = Some (Array b)"
      unfolding t .
  qed
  show ?thesis
    apply (rule conjI, rule A, rule conjI, rule B, rule conjI, rule C)
    by (simp add: split_positions)
qed

lemma sample_after_split_complete:
  "snd (exec (after_split (air_notebook sample_lib sample_world) 6 5)
          (sample_after_split [Num 2] [Num 2])) = None"
  "snd (exec (after_split (air_notebook sample_lib sample_world) 6 5)
          (sample_after_split [Num 7] [Num 9])) = None"
  by (simp_all add: after_split_exercises sample_after_split_def init_def stmt_defs cell_defs
        pandas_defs sample_defs Let_def)

theorem fit_uses_training_rows_only_witness:
  "snd (exec (after_split (air_notebook sample_lib sample_world) 6 5)
          (sample_after_split [Num 2] [Num 2])) = None
   \<and> snd (exec (after_split (air_notebook sample_lib sample_world) 6 5)
          (sample_after_split [Num 7] [Num 9])) = None
   \<and> var_X_test (sample_after_split [Num 2] [Num 2])
       \<noteq> var_X_test (sample_after_split [Num 7] [Num 9])
   \<and> var_sc (fst (exec (after_split (air_notebook sample_lib sample_world) 6 5)
          (sample_after_split [Num 2] [Num 2])))
       = var_sc (fst (exec (after_split (air_notebook sample_lib sample_world) 6 5)
          (sample_after_split [Num 7] [Num 9])))
   \<and> var_X_train (fst (exec (after_split (air_notebook sample_lib sample_world) 6 5)
          (sample_after_split [Num 2] [Num 2])))
       = var_X_train (fst (exec (after_split (air_notebook sample_lib sample_world) 6 5)
          (sample_after_split [Num 7] [Num 9])))
   \<and> var_lr (fst (exec (after_split (air_notebook sample_lib sample_world) 6 5)
          (sample_after_split [Num 2] [Num 2])))
       = var_lr (fst (exec (after_split (air_notebook sample_lib sample_world) 6 5)
          (sample_after_split [Num 7] [Num 9])))
   \<and> var_results (fst (exec (after_split (air_notebook sample_lib sample_world) 6 5)
          (sample_after_split [Num 2] [Num 2])))
       = var_results (fst (exec (after_split (air_notebook sample_lib sample_world) 6 5)
          (sample_after_split [Num 7] [Num 9])))"
proof -
  let ?seg = "after_split (air_notebook sample_lib sample_world) 6 5"
  let ?k1 = "sample_after_split [Num 2] [Num 2]"
  let ?k2 = "sample_after_split [Num 7] [Num 9]"
  have x: "var_X_train ?k1 = var_X_train ?k2" "var_y_train ?k1 = var_y_train ?k2"
    "var_X_test ?k1 \<noteq> var_X_test ?k2"
    by (simp_all add: sample_after_split_def)
  have c1: "exec ?seg ?k1 = (fst (exec ?seg ?k1), None)"
    using sample_after_split_complete(1) by (simp add: prod_eq_iff)
  have c2: "exec ?seg ?k2 = (fst (exec ?seg ?k2), None)"
    using sample_after_split_complete(2) by (simp add: prod_eq_iff)
  from fit_uses_training_rows_only[OF x(1,2) c1 c2, of sample_lib sample_world]
  have "var_sc (fst (exec ?seg ?k1)) = var_sc (fst (exec ?seg ?k2))
     \<and> var_X_train (fst (exec ?seg ?k1)) = var_X_train (fst (exec ?seg ?k2))
     \<and> var_lr (fst (exec ?seg ?k1)) = var_lr (fst (exec ?seg ?k2))
     \<and> var_results (fst (exec ?seg ?k1)) = var_results (fst (exec ?seg ?k2))"
    by blast
  with sample_after_split_complete x(3) show ?thesis by blast
qed

text \<open>
  C9, as stated, fails for whole runs: the columns of \<open>X\<close> are chosen from correlations
  computed over all the rows, before the split. Two air-quality tables that differ
  only in their first row, which the split makes the test row: on the first the run
  selects \<open>temp\<close> and \<open>co\<close>, on the second \<open>temp\<close> alone, so the training rows of \<open>X\<close>,
  the parameters of the scaler and the coefficients of the regression differ.
\<close>

theorem test_row_reaches_fit_counterexample:
  "map (\<lambda>(n, c). (n, tl c)) air_first = map (\<lambda>(n, c). (n, tl c)) air_second
   \<and> (case run (air_notebook sample_lib (sample_world\<lparr>files := [''air_quality.csv'' \<mapsto> air_first]\<rparr>))
      of (k, e) \<Rightarrow>
        e = None \<and> var_y_test k = Some [Num 0] \<and> var_y_train k = Some [Num 1, Num 2]
        \<and> var_X k = Some [(''temp'', [Num 0, Num 1, Num 2]), (''co'', [Num 0, Num 1, Num 2])]
        \<and> var_sc k = Some (Fitted ([3 / 2, 3 / 2], [1, 1]))
        \<and> var_X_train k = Some (Array [[- 1 / 2, 1 / 2], [- 1 / 2, 1 / 2]])
        \<and> var_lr k = Some (Fitted (3 / 2, [0, 0])))
   \<and> (case run (air_notebook sample_lib (sample_world\<lparr>files := [''air_quality.csv'' \<mapsto> air_second]\<rparr>))
      of (k, e) \<Rightarrow>
        e = None \<and> var_y_test k = Some [Num 0] \<and> var_y_train k = Some [Num 1, Num 2]
        \<and> var_X k = Some [(''temp'', [Num 0, Num 1, Num 2])]
        \<and> var_sc k = Some (Fitted ([3 / 2], [1]))
        \<and> var_X_train k = Some (Array [[- 1 / 2, 1 / 2]])
        \<and> var_lr k = Some (Fitted (3 / 2, [0])))"
  by (simp add: run_def air_notebook_def init_def stmt_defs cell_defs pandas_defs sample_defs
        air_first_def air_second_def Let_def)

section \<open>Determinism\<close>




















































section \<open>Failures\<close>

lemma exec_fails_after:
  "exec ss k0 = (k, None) \<Longrightarrow> s k = Inl e \<Longrightarrow> exec (ss @ s # ts) k0 = (k, Some e)"
  by (induction ss arbitrary: k0) (auto split: sum.splits)

lemma concat_at:
  assumes "c < length nb" and "j < length (nb ! c)"
  shows "concat nb = (concat (take c nb) @ take j (nb ! c))
     @ (nb ! c ! j) # (drop (Suc j) (nb ! c) @ concat (drop (Suc c) nb))"
proof -
  have "concat nb = concat (take c nb @ (nb ! c) # drop (Suc c) nb)"
    using id_take_nth_drop[OF assms(1)] by simp
  also have "\<dots> = concat (take c nb) @ (nb ! c) @ concat (drop (Suc c) nb)"
    by simp
  also have "nb ! c = take j (nb ! c) @ (nb ! c ! j) # drop (Suc j) (nb ! c)"
    using id_take_nth_drop[OF assms(2)] by simp
  finally show ?thesis by simp
qed

lemma run_fails_in_cell:
  assumes "c < length nb" and "j < length (nb ! c)"
    and "exec (concat (take c nb) @ take j (nb ! c)) init = (k, None)"
    and "(nb ! c ! j) k = Inl e"
  shows "run nb = (k, Some e)"
  unfolding run_def
  by (subst concat_at[OF assms(1,2)])
    (rule exec_fails_after[where s = "nb ! c ! j", OF assms(3,4)])

lemma map_of_map_snd: "map_of (map (\<lambda>(a, v). (a, f v)) l) n = map_option f (map_of l n)"
  by (induction l) auto

lemma round_corr_rows:
  "round_matrix r (corr d) =
     map (\<lambda>(a, xs). (a, map (\<lambda>(b, c). (b, round_cell r c))
                        (map (\<lambda>(b, ys). (b, pearson xs ys)) (filter (\<lambda>(n, c). is_numeric c) d))))
       (filter (\<lambda>(n, c). is_numeric c) d)"
  by (simp add: round_matrix_def corr_def Let_def case_prod_unfold comp_def)

lemma map_of_corr:
  "map_of (round_matrix r (corr d)) n =
     map_option (\<lambda>xs. map (\<lambda>(b, c). (b, round_cell r c))
                    (map (\<lambda>(b, ys). (b, pearson xs ys)) (filter (\<lambda>(n, c). is_numeric c) d)))
       (map_of (filter (\<lambda>(n, c). is_numeric c) d) n)"
  unfolding round_corr_rows by (rule map_of_map_snd)

lemma map_of_corr_None:
  assumes "n \<notin> set (columns d)"
  shows "map_of (round_matrix r (corr d)) n = None"
proof -
  from assms have "n \<notin> fst ` set (filter (\<lambda>(n, c). is_numeric c) d)"
    by (auto simp: columns_def)
  then have "map_of (filter (\<lambda>(n, c). is_numeric c) d) n = None"
    by (simp only: map_of_eq_None_iff not_False_eq_True)
  then show ?thesis by (simp add: map_of_corr)
qed


lemma drop_columns_KeyError:
  "\<not> set labels \<subseteq> set (columns x) \<Longrightarrow>
     drop_columns labels x = Inl (KeyError (filter (\<lambda>n. n \<notin> set (columns x)) labels))"
  by (auto simp: drop_columns_def Let_def filter_empty_conv)

lemma getitems_KeyError:
  "\<not> set names \<subseteq> set (columns d) \<Longrightarrow>
     getitems d names = Inl (KeyError (filter (\<lambda>n. n \<notin> set (columns d)) names))"
  by (auto simp: getitems_def Let_def filter_empty_conv)

lemma getitem_KeyError: "n \<notin> fst ` set d \<Longrightarrow> getitem d n = Inl (KeyError [n])"
  by (simp add: getitem_def map_of_eq_None_iff[THEN iffD2])

lemma selection_fails:
  assumes "var_df k = Some d" and "sel k = Some s" and "\<not> set (index s) \<subseteq> set (columns d)"
  shows "assign_X_selected name sel k
     = Inl (KeyError (filter (\<lambda>n. n \<notin> set (columns d)) (index s)))"
  using assms(1,2) getitems_KeyError[OF assms(3)]
  by (simp add: assign_X_selected_def rd_def on_ok_def)

lemma row_selection_fails:
  assumes "var_df_corr k = Some m" and "outcome \<notin> fst ` set m"
  shows "assign_y_corr outcome t k = Inl (KeyError [outcome])"
    and "outcome = ''target'' \<Longrightarrow> assign_target_corr t k = Inl (KeyError [outcome])"
  using assms(1) getitem_KeyError[OF assms(2)]
  by (simp_all add: assign_y_corr_def assign_target_corr_def rd_def on_ok_def)

lemma column_selection_fails:
  assumes "var_df k = Some d" and "outcome \<notin> set (columns d)"
  shows "assign_y outcome k = Inl (KeyError [outcome])"
  using assms getitem_KeyError[of outcome d]
  by (simp add: assign_y_def rd_def on_ok_def columns_def)

lemma drop_fails:
  assumes "var_X k = Some x" and "\<not> set labels \<subseteq> set (columns x)"
  shows "X_drop labels k = Inl (KeyError (filter (\<lambda>n. n \<notin> set (columns x)) labels))"
  using assms(1) drop_columns_KeyError[OF assms(2)]
  by (simp add: X_drop_def rd_def on_ok_def)

lemma drop_cells:
  "main_notebook l w ! 6 ! 2 = X_drop [''target'']"
  "main_notebook l w ! 12 ! 3 = X_drop [''target'', ''s4'', ''s6'']"
  "life_notebook l w ! 5 ! 2 = X_drop [''life_expectancy'']"
  "air_notebook l w ! 6 ! 2 = X_drop [''benzene'']"
  "6 < length (main_notebook l w)" "2 < length (main_notebook l w ! 6)"
  "12 < length (main_notebook l w)" "3 < length (main_notebook l w ! 12)"
  "5 < length (life_notebook l w)" "2 < length (life_notebook l w ! 5)"
  "6 < length (air_notebook l w)" "2 < length (air_notebook l w ! 6)"
  by (simp_all add: main_notebook_def life_notebook_def air_notebook_def setup_cell_def)

lemma drop_stops_run:
  assumes "(nb = main_notebook l w \<and> c = 6 \<and> j = 2 \<and> labels = [''target''])
      \<or> (nb = main_notebook l w \<and> c = 12 \<and> j = 3 \<and> labels = [''target'', ''s4'', ''s6''])
      \<or> (nb = life_notebook l w \<and> c = 5 \<and> j = 2 \<and> labels = [''life_expectancy''])
      \<or> (nb = air_notebook l w \<and> c = 6 \<and> j = 2 \<and> labels = [''benzene''])"
    and "exec (concat (take c nb) @ take j (nb ! c)) init = (k, None)"
    and "var_X k = Some x" and "\<not> set labels \<subseteq> set (columns x)"
  shows "nb ! c ! j = X_drop labels"
    and "run nb = (k, Some (KeyError (filter (\<lambda>n. n \<notin> set (columns x)) labels)))"
proof -
  from assms(1) drop_cells[of l w]
  have p: "nb ! c ! j = X_drop labels" "c < length nb" "j < length (nb ! c)"
    by auto
  from p(1) show "nb ! c ! j = X_drop labels" .
  from drop_fails[OF assms(3,4)] p(1)
  have "(nb ! c ! j) k = Inl (KeyError (filter (\<lambda>n. n \<notin> set (columns x)) labels))"
    by simp
  from run_fails_in_cell[OF p(2,3) assms(2) this]
  show "run nb = (k, Some (KeyError (filter (\<lambda>n. n \<notin> set (columns x)) labels)))" .
qed

lemma life_without_status:
  assumes "files w ''life_expectancy.csv'' = Some t" and "''status'' \<notin> set (columns t)"
  shows "run (life_notebook l w)
     = (init\<lparr>var_df := Some t, events := [Call ''read_csv'', Read ''life_expectancy.csv'']\<rparr>,
        Some (KeyError [''status'']))"
  using assms getitem_KeyError[of "''status''" t]
  by (simp add: run_def life_notebook_def read_csv_def life_recode_def rd_def on_ok_def emit_def
        init_def columns_def)

lemma air_without_outcome:
  assumes "files w ''air_quality.csv'' = Some t" and "''benzene'' \<notin> set (columns t)"
  shows "run (air_notebook l w)
     = (init\<lparr>var_df := Some (fillna 0 t),
          var_df_corr := Some (round_matrix (round2 l) (corr (fillna 0 t))),
          events := [Call ''read_csv'', Read ''air_quality.csv'', Call ''fillna'',
            Output (ShownInfo (fillna 0 t)), Call ''corr'',
            Output (ShownMatrix (round_matrix (round2 l) (corr (fillna 0 t))))]\<rparr>,
        Some (KeyError [''benzene'']))"
proof -
  from assms(2) have "''benzene'' \<notin> set (columns (fillna 0 t))"
    by (simp add: columns_fillna)
  from map_of_corr_None[OF this]
  have "getitem (round_matrix (round2 l) (corr (fillna 0 t))) ''benzene'' = Inl (KeyError [''benzene''])"
    by (simp add: getitem_def)
  with assms(1) show ?thesis
    by (simp add: run_def air_notebook_def read_csv_def df_fillna_def df_info_def
        assign_df_corr_def show_df_corr_def assign_y_corr_def rd_def on_ok_def emit_def init_def)
qed

lemma main_without_outcome:
  assumes "''target'' \<notin> set (columns (fst (load_diabetes l)))"
  shows "run (main_notebook l w)
     = (init\<lparr>var_db := Some (load_diabetes l), var_df := Some (fst (load_diabetes l)),
          var_df_corr := Some (round_matrix (round2 l) (corr (fst (load_diabetes l)))),
          events := [Call ''load_diabetes'', Read ''diabetes'',
            Output (Text (snd (load_diabetes l))), Call ''corr'',
            Output (ShownMatrix (round_matrix (round2 l) (corr (fst (load_diabetes l)))))]\<rparr>,
        Some (KeyError [''target'']))"
proof -
  from map_of_corr_None[OF assms]
  have "getitem (round_matrix (round2 l) (corr (fst (load_diabetes l)))) ''target''
      = Inl (KeyError [''target''])"
    by (simp add: getitem_def)
  then show ?thesis
    by (simp add: run_def main_notebook_def main_load_def main_frame_def main_print_descr_def
        assign_df_corr_def show_df_corr_def assign_target_corr_def rd_def on_ok_def emit_def
        init_def)
qed

text \<open>
  C5. No statement of a notebook handles an exception. Whatever statement fails first
  (at position \<open>i\<close> of the run, in the kernel \<open>k\<close> that the statements before it left),
  the run of the notebook ends there with that very exception: no later statement
  runs, no other result is produced, and the kernel is \<open>k\<close>, with everything bound so
  far and nothing restored. The failures of the steps are these. A missing CSV file
  ends an exercise notebook at once with FileNotFoundError, in the initial kernel. A
  selection \<^verbatim>\<open>df[labels]\<close>, \<^verbatim>\<open>df_corr[outcome]\<close> or \<^verbatim>\<open>df[outcome]\<close> with a label that
  is not a column raises KeyError, and so does a drop of a label that is not a column
  of \<open>X\<close>. In the notebooks: a life-expectancy file with no \<open>status\<close> column ends the run
  at the recode, with the table as read and nothing else bound; a table with no
  \<open>benzene\<close> (air quality) or \<open>target\<close> (diabetes) column ends the run at the selection
  of the outcome's correlations, with the table and the correlation matrix bound; and
  when a run reaches a drop whose labels are not all columns of \<open>X\<close>, it ends there
  with the KeyError of the missing labels, in the kernel it had reached.
\<close>

theorem failure_stops_notebook:
  "(\<forall>nb i k e. (nb = main_notebook l w \<or> nb = life_notebook l w \<or> nb = air_notebook l w)
        \<and> i < length (concat nb) \<and> exec (take i (concat nb)) init = (k, None)
        \<and> (concat nb ! i) k = Inl e
      \<longrightarrow> run nb = (k, Some e))
   \<and> (files w ''life_expectancy.csv'' = None
      \<longrightarrow> run (life_notebook l w) = (init, Some (FileNotFoundError ''life_expectancy.csv'')))
   \<and> (files w ''air_quality.csv'' = None
      \<longrightarrow> run (air_notebook l w) = (init, Some (FileNotFoundError ''air_quality.csv'')))
   \<and> (\<forall>name sel k d s. var_df k = Some d \<and> sel k = Some s \<and> \<not> set (index s) \<subseteq> set (columns d)
      \<longrightarrow> assign_X_selected name sel k
            = Inl (KeyError (filter (\<lambda>n. n \<notin> set (columns d)) (index s))))
   \<and> (\<forall>outcome t k m. var_df_corr k = Some m \<and> outcome \<notin> fst ` set m
      \<longrightarrow> assign_y_corr outcome t k = Inl (KeyError [outcome])
        \<and> (outcome = ''target'' \<longrightarrow> assign_target_corr t k = Inl (KeyError [outcome])))
   \<and> (\<forall>outcome k d. var_df k = Some d \<and> outcome \<notin> set (columns d)
      \<longrightarrow> assign_y outcome k = Inl (KeyError [outcome]))
   \<and> (\<forall>labels k x. var_X k = Some x \<and> \<not> set labels \<subseteq> set (columns x)
      \<longrightarrow> X_drop labels k = Inl (KeyError (filter (\<lambda>n. n \<notin> set (columns x)) labels)))
   \<and> (\<forall>t. files w ''life_expectancy.csv'' = Some t \<and> ''status'' \<notin> set (columns t)
      \<longrightarrow> run (life_notebook l w)
            = (init\<lparr>var_df := Some t,
                 events := [Call ''read_csv'', Read ''life_expectancy.csv'']\<rparr>,
               Some (KeyError [''status''])))
   \<and> (\<forall>t. files w ''air_quality.csv'' = Some t \<and> ''benzene'' \<notin> set (columns t)
      \<longrightarrow> run (air_notebook l w)
            = (init\<lparr>var_df := Some (fillna 0 t),
                 var_df_corr := Some (round_matrix (round2 l) (corr (fillna 0 t))),
                 events := [Call ''read_csv'', Read ''air_quality.csv'', Call ''fillna'',
                   Output (ShownInfo (fillna 0 t)), Call ''corr'',
                   Output (ShownMatrix (round_matrix (round2 l) (corr (fillna 0 t))))]\<rparr>,
               Some (KeyError [''benzene''])))
   \<and> (''target'' \<notin> set (columns (fst (load_diabetes l)))
      \<longrightarrow> run (main_notebook l w)
            = (init\<lparr>var_db := Some (load_diabetes l), var_df := Some (fst (load_diabetes l)),
                 var_df_corr := Some (round_matrix (round2 l) (corr (fst (load_diabetes l)))),
                 events := [Call ''load_diabetes'', Read ''diabetes'',
                   Output (Text (snd (load_diabetes l))), Call ''corr'',
                   Output (ShownMatrix (round_matrix (round2 l) (corr (fst (load_diabetes l)))))]\<rparr>,
               Some (KeyError [''target''])))
   \<and> (\<forall>nb c j labels k x.
        ((nb = main_notebook l w \<and> c = 6 \<and> j = 2 \<and> labels = [''target''])
         \<or> (nb = main_notebook l w \<and> c = 12 \<and> j = 3 \<and> labels = [''target'', ''s4'', ''s6''])
         \<or> (nb = life_notebook l w \<and> c = 5 \<and> j = 2 \<and> labels = [''life_expectancy''])
         \<or> (nb = air_notebook l w \<and> c = 6 \<and> j = 2 \<and> labels = [''benzene'']))
        \<and> exec (concat (take c nb) @ take j (nb ! c)) init = (k, None)
        \<and> var_X k = Some x \<and> \<not> set labels \<subseteq> set (columns x)
      \<longrightarrow> nb ! c ! j = X_drop labels
        \<and> run nb = (k, Some (KeyError (filter (\<lambda>n. n \<notin> set (columns x)) labels))))"
proof -
  have A: "(\<forall>nb i k e. (nb = main_notebook l w \<or> nb = life_notebook l w \<or> nb = air_notebook l w)
        \<and> i < length (concat nb) \<and> exec (take i (concat nb)) init = (k, None)
        \<and> (concat nb ! i) k = Inl e
      \<longrightarrow> run nb = (k, Some e))"
    unfolding run_def by (intro allI impI, elim conjE) (rule exec_fails_at)
  have B: "(files w ''life_expectancy.csv'' = None
      \<longrightarrow> run (life_notebook l w) = (init, Some (FileNotFoundError ''life_expectancy.csv'')))"
    by (simp add: run_def life_notebook_def read_csv_def)
  have C: "(files w ''air_quality.csv'' = None
      \<longrightarrow> run (air_notebook l w) = (init, Some (FileNotFoundError ''air_quality.csv'')))"
    by (simp add: run_def air_notebook_def read_csv_def)
  have D: "(\<forall>name sel k d s. var_df k = Some d \<and> sel k = Some s \<and> \<not> set (index s) \<subseteq> set (columns d)
      \<longrightarrow> assign_X_selected name sel k
            = Inl (KeyError (filter (\<lambda>n. n \<notin> set (columns d)) (index s))))"
    by (intro allI impI, elim conjE) (rule selection_fails)
  have E: "(\<forall>outcome t k m. var_df_corr k = Some m \<and> outcome \<notin> fst ` set m
      \<longrightarrow> assign_y_corr outcome t k = Inl (KeyError [outcome])
        \<and> (outcome = ''target'' \<longrightarrow> assign_target_corr t k = Inl (KeyError [outcome])))"
    by (intro allI impI conjI; elim conjE) (rule row_selection_fails; assumption)+
  have F: "(\<forall>outcome k d. var_df k = Some d \<and> outcome \<notin> set (columns d)
      \<longrightarrow> assign_y outcome k = Inl (KeyError [outcome]))"
    by (intro allI impI, elim conjE) (rule column_selection_fails)
  have G: "(\<forall>labels k x. var_X k = Some x \<and> \<not> set labels \<subseteq> set (columns x)
      \<longrightarrow> X_drop labels k = Inl (KeyError (filter (\<lambda>n. n \<notin> set (columns x)) labels)))"
    by (intro allI impI, elim conjE) (rule drop_fails)
  have H: "(\<forall>t. files w ''life_expectancy.csv'' = Some t \<and> ''status'' \<notin> set (columns t)
      \<longrightarrow> run (life_notebook l w)
            = (init\<lparr>var_df := Some t,
                 events := [Call ''read_csv'', Read ''life_expectancy.csv'']\<rparr>,
               Some (KeyError [''status''])))"
    by (intro allI impI, elim conjE) (rule life_without_status)
  have I: "(\<forall>t. files w ''air_quality.csv'' = Some t \<and> ''benzene'' \<notin> set (columns t)
      \<longrightarrow> run (air_notebook l w)
            = (init\<lparr>var_df := Some (fillna 0 t),
                 var_df_corr := Some (round_matrix (round2 l) (corr (fillna 0 t))),
                 events := [Call ''read_csv'', Read ''air_quality.csv'', Call ''fillna'',
                   Output (ShownInfo (fillna 0 t)), Call ''corr'',
                   Output (ShownMatrix (round_matrix (round2 l) (corr (fillna 0 t))))]\<rparr>,
               Some (KeyError [''benzene''])))"
    by (intro allI impI, elim conjE) (rule air_without_outcome)
  have J: "(''target'' \<notin> set (columns (fst (load_diabetes l)))
      \<longrightarrow> run (main_notebook l w)
            = (init\<lparr>var_db := Some (load_diabetes l), var_df := Some (fst (load_diabetes l)),
                 var_df_corr := Some (round_matrix (round2 l) (corr (fst (load_diabetes l)))),
                 events := [Call ''load_diabetes'', Read ''diabetes'',
                   Output (Text (snd (load_diabetes l))), Call ''corr'',
                   Output (ShownMatrix (round_matrix (round2 l) (corr (fst (load_diabetes l)))))]\<rparr>,
               Some (KeyError [''target''])))"
    by (intro impI) (rule main_without_outcome)
  have K: "(\<forall>nb c j labels k x.
        ((nb = main_notebook l w \<and> c = 6 \<and> j = 2 \<and> labels = [''target''])
         \<or> (nb = main_notebook l w \<and> c = 12 \<and> j = 3 \<and> labels = [''target'', ''s4'', ''s6''])
         \<or> (nb = life_notebook l w \<and> c = 5 \<and> j = 2 \<and> labels = [''life_expectancy''])
         \<or> (nb = air_notebook l w \<and> c = 6 \<and> j = 2 \<and> labels = [''benzene'']))
        \<and> exec (concat (take c nb) @ take j (nb ! c)) init = (k, None)
        \<and> var_X k = Some x \<and> \<not> set labels \<subseteq> set (columns x)
      \<longrightarrow> nb ! c ! j = X_drop labels
        \<and> run nb = (k, Some (KeyError (filter (\<lambda>n. n \<notin> set (columns x)) labels))))"
    by (intro allI impI conjI; elim conjE) (rule drop_stops_run; assumption)+
  show ?thesis
    apply (rule conjI, rule A)
    apply (rule conjI, rule B)
    apply (rule conjI, rule C)
    apply (rule conjI, rule D)
    apply (rule conjI, rule E)
    apply (rule conjI, rule F)
    apply (rule conjI, rule G)
    apply (rule conjI, rule H)
    apply (rule conjI, rule I)
    apply (rule conjI, rule J)
    apply (rule K)
    done
qed

lemma flat_air_reaches_drop:
  "exec (concat (take 6 (air_notebook sample_lib flat_world))
      @ take 2 (air_notebook sample_lib flat_world ! 6)) init
   = (init\<lparr>var_df := Some [(''co'', [Num 1, Num 2, Num 3]), (''benzene'', [Num 0, Num 0, Num 0])],
        var_df_corr := Some [(''co'', [(''co'', Num 1), (''benzene'', NaN)]),
                             (''benzene'', [(''co'', NaN), (''benzene'', NaN)])],
        var_y_corr := Some [], var_X := Some [],
        events := [Call ''read_csv'', Read ''air_quality.csv'', Call ''fillna'',
          Output (ShownInfo [(''co'', [Num 1, Num 2, Num 3]), (''benzene'', [Num 0, Num 0, Num 0])]),
          Call ''corr'',
          Output (ShownMatrix [(''co'', [(''co'', Num 1), (''benzene'', NaN)]),
                               (''benzene'', [(''co'', NaN), (''benzene'', NaN)])]),
          Output (ShownSeries []), Call ''pairplot'', Output (Pairplot []), Call ''fillna'']\<rparr>,
      None)"
  by (simp add: air_notebook_def init_def stmt_defs cell_defs pandas_defs
        sample_defs flat_air_def flat_world_def Let_def)

theorem failure_stops_notebook_witness:
  "run (life_notebook sample_lib (sample_world\<lparr>files := Map.empty\<rparr>))
     = (init, Some (FileNotFoundError ''life_expectancy.csv''))
   \<and> run (air_notebook sample_lib (sample_world\<lparr>files := Map.empty\<rparr>))
     = (init, Some (FileNotFoundError ''air_quality.csv''))
   \<and> run (life_notebook sample_lib
            (sample_world\<lparr>files := [''life_expectancy.csv'' \<mapsto> no_status]\<rparr>))
     = (init\<lparr>var_df := Some no_status,
          events := [Call ''read_csv'', Read ''life_expectancy.csv'']\<rparr>,
        Some (KeyError [''status'']))
   \<and> snd (run (air_notebook sample_lib
            (sample_world\<lparr>files := [''air_quality.csv'' \<mapsto> [(''co'', [Num 1, Num 2])]]\<rparr>)))
     = Some (KeyError [''benzene''])
   \<and> var_X (fst (run (air_notebook sample_lib flat_world))) = Some []
   \<and> snd (run (air_notebook sample_lib flat_world)) = Some (KeyError [''benzene''])
   \<and> X_drop [''target'', ''s4'', ''s6''] (init\<lparr>var_X := Some [(''target'', []), (''s6'', [])]\<rparr>)
     = Inl (KeyError [''s4''])"
proof -
  let ?e = "sample_world\<lparr>files := Map.empty\<rparr>"
  let ?s = "sample_world\<lparr>files := [''life_expectancy.csv'' \<mapsto> no_status]\<rparr>"
  let ?c = "sample_world\<lparr>files := [''air_quality.csv'' \<mapsto> [(''co'', [Num 1, Num 2])]]\<rparr>"
  have n: "files ?e ''life_expectancy.csv'' = None" "files ?e ''air_quality.csv'' = None"
    by simp_all
  note a = failure_stops_notebook[of sample_lib ?e, THEN conjunct2, THEN conjunct1, rule_format,
      OF n(1)]
    failure_stops_notebook[of sample_lib ?e, THEN conjunct2, THEN conjunct2, THEN conjunct1,
        rule_format, OF n(2)]
  have "files ?s ''life_expectancy.csv'' = Some no_status \<and> ''status'' \<notin> set (columns no_status)"
    by (simp add: no_status_def columns_def)
  note b = failure_stops_notebook[of sample_lib ?s, THEN conjunct2, THEN conjunct2,
      THEN conjunct2, THEN conjunct2, THEN conjunct2, THEN conjunct2, THEN conjunct2,
      THEN conjunct1, rule_format, OF this]
  have "files ?c ''air_quality.csv'' = Some [(''co'', [Num 1, Num 2])]
      \<and> ''benzene'' \<notin> set (columns [(''co'', [Num 1, Num 2])])"
    by (simp add: columns_def)
  note c0 = failure_stops_notebook[of sample_lib ?c, THEN conjunct2, THEN conjunct2,
      THEN conjunct2, THEN conjunct2, THEN conjunct2, THEN conjunct2, THEN conjunct2,
      THEN conjunct2, THEN conjunct1, rule_format, OF this]
  have c: "snd (run (air_notebook sample_lib ?c)) = Some (KeyError [''benzene''])"
    by (subst c0) (rule snd_conv)
  let ?k = "fst (exec (concat (take 6 (air_notebook sample_lib flat_world))
      @ take 2 (air_notebook sample_lib flat_world ! 6)) init)"
  have x: "var_X ?k = Some []"
    by (simp add: flat_air_reaches_drop)
  have r: "exec (concat (take 6 (air_notebook sample_lib flat_world))
      @ take 2 (air_notebook sample_lib flat_world ! 6)) init = (?k, None)"
    by (simp add: flat_air_reaches_drop)
  have m: "\<not> set [''benzene''] \<subseteq> set (columns [])"
    "filter (\<lambda>n. n \<notin> set (columns [])) [''benzene''] = [''benzene'']"
    by (simp_all add: columns_def)
  have p: "(air_notebook sample_lib flat_world = main_notebook sample_lib flat_world
           \<and> (6::nat) = 6 \<and> (2::nat) = 2 \<and> [''benzene''] = [''target''])
      \<or> (air_notebook sample_lib flat_world = main_notebook sample_lib flat_world
           \<and> (6::nat) = 12 \<and> (2::nat) = 3 \<and> [''benzene''] = [''target'', ''s4'', ''s6''])
      \<or> (air_notebook sample_lib flat_world = life_notebook sample_lib flat_world
           \<and> (6::nat) = 5 \<and> (2::nat) = 2 \<and> [''benzene''] = [''life_expectancy''])
      \<or> (air_notebook sample_lib flat_world = air_notebook sample_lib flat_world
           \<and> (6::nat) = 6 \<and> (2::nat) = 2 \<and> [''benzene''] = [''benzene''])"
    by simp
  note d0 = failure_stops_notebook[of sample_lib flat_world, THEN conjunct2, THEN conjunct2,
      THEN conjunct2, THEN conjunct2, THEN conjunct2, THEN conjunct2, THEN conjunct2,
      THEN conjunct2, THEN conjunct2, THEN conjunct2, rule_format,
      of "air_notebook sample_lib flat_world" 6 2 "[''benzene'']" ?k "[]",
      OF conjI[OF p conjI[OF r conjI[OF x m(1)]]], THEN conjunct2]
  have d: "var_X (fst (run (air_notebook sample_lib flat_world))) = Some []"
    "snd (run (air_notebook sample_lib flat_world)) = Some (KeyError [''benzene''])"
    by (simp_all only: d0 fst_conv snd_conv x m(2))
  have "var_X (init\<lparr>var_X := Some [(''target'', []), (''s6'', [])]\<rparr>) = Some [(''target'', []), (''s6'', [])]
     \<and> \<not> set [''target'', ''s4'', ''s6''] \<subseteq> set (columns [(''target'', []), (''s6'', [])])"
    by (simp add: columns_def)
  note f0 = failure_stops_notebook[of sample_lib sample_world, THEN conjunct2, THEN conjunct2,
      THEN conjunct2, THEN conjunct2, THEN conjunct2, THEN conjunct2, THEN conjunct1,
      rule_format, OF this]
  have f: "X_drop [''target'', ''s4'', ''s6''] (init\<lparr>var_X := Some [(''target'', []), (''s6'', [])]\<rparr>)
     = Inl (KeyError [''s4''])"
    by (subst f0) (simp add: columns_def)
  show ?thesis
    apply (rule conjI, rule a(1))
    apply (rule conjI, rule a(2))
    apply (rule conjI, rule b)
    apply (rule conjI, rule c)
    apply (rule conjI, rule d(1))
    apply (rule conjI, rule d(2))
    apply (rule f)
    done
qed

section \<open>The outcome column in the selection\<close>














lemma main_before_drop:
  assumes "exec (before_drop (main_notebook l w) 6) init = (k, None)"
  shows "\<exists>s x. var_df k = Some (fst (load_diabetes l))
      \<and> getitem (round_matrix (round2 l) (corr (fst (load_diabetes l)))) ''target'' = Inr s
      \<and> var_target_corr k = Some (above_threshold 0.3 s)
      \<and> getitems (fst (load_diabetes l)) (index (above_threshold 0.3 s)) = Inr x
      \<and> var_X k = Some (fillna 0 x)"
  using assms
  by (auto simp: before_drop_def main_notebook_def setup_cell_def init_def main_load_def main_frame_def
        main_print_descr_def assign_df_corr_def show_df_corr_def assign_target_corr_def
        show_target_corr_def pairplot_selected_def assign_X_selected_def X_fillna_def
        rd_def on_ok_def emit_def
      split: option.splits sum.splits)

lemma air_before_drop:
  assumes "exec (before_drop (air_notebook l w) 6) init = (k, None)"
  shows "\<exists>t s x. files w ''air_quality.csv'' = Some t \<and> var_df k = Some (fillna 0 t)
      \<and> getitem (round_matrix (round2 l) (corr (fillna 0 t))) ''benzene'' = Inr s
      \<and> var_y_corr k = Some (above_threshold 0.5 s)
      \<and> getitems (fillna 0 t) (index (above_threshold 0.5 s)) = Inr x
      \<and> var_X k = Some (fillna 0 x)"
  using assms
  by (auto simp: before_drop_def air_notebook_def setup_cell_def init_def read_csv_def
        df_fillna_def df_info_def assign_df_corr_def show_df_corr_def assign_y_corr_def
        show_y_corr_def pairplot_selected_def assign_X_selected_def X_fillna_def
        rd_def on_ok_def emit_def
      split: option.splits sum.splits)

lemma life_before_drop:
  assumes "exec (before_drop (life_notebook l w) 5) init = (k, None)"
  shows "\<exists>t st d s x. files w ''life_expectancy.csv'' = Some t
      \<and> getitem t ''status'' = Inr st
      \<and> reset_index (fillna 0 (setitem t ''status'' (map recode_status st))) = Inr d
      \<and> var_df k = Some d
      \<and> getitem (round_matrix (round2 l) (corr d)) ''life_expectancy'' = Inr s
      \<and> var_y_corr k = Some (above_threshold 0.3 s)
      \<and> getitems d (index (above_threshold 0.3 s)) = Inr x
      \<and> var_X k = Some (fillna 0 x)"
  using assms
  by (auto simp: before_drop_def life_notebook_def setup_cell_def init_def read_csv_def
        life_recode_def df_reset_index_def
        df_fillna_def df_info_def assign_df_corr_def show_df_corr_def assign_y_corr_def
        show_y_corr_def pairplot_selected_def assign_X_selected_def X_fillna_def
        rd_def on_ok_def emit_def
      split: option.splits sum.splits)



lemma before_drop_cases:
  assumes "(nb = main_notebook l w \<and> c = 6 \<and> outcome = ''target'')
      \<or> (nb = life_notebook l w \<and> c = 5 \<and> outcome = ''life_expectancy'')
      \<or> (nb = air_notebook l w \<and> c = 6 \<and> outcome = ''benzene'')"
    and "exec (before_drop nb c) init = (k, None)"
    and "var_df k = Some d"
  shows "\<exists>s x t. getitem (round_matrix (round2 l) (corr d)) outcome = Inr s
      \<and> (var_target_corr k = Some (above_threshold t s) \<or> var_y_corr k = Some (above_threshold t s))
      \<and> getitems d (index (above_threshold t s)) = Inr x
      \<and> var_X k = Some (fillna 0 x) \<and> t < 1"
proof -
  from assms(1) consider
    (main) "nb = main_notebook l w" "c = 6" "outcome = ''target''"
    | (life) "nb = life_notebook l w" "c = 5" "outcome = ''life_expectancy''"
    | (air) "nb = air_notebook l w" "c = 6" "outcome = ''benzene''"
    by blast
  then show ?thesis
  proof cases
    case main
    from main_before_drop[OF assms(2)[unfolded main]] obtain s x where
      f: "var_df k = Some (fst (load_diabetes l))"
        "getitem (round_matrix (round2 l) (corr (fst (load_diabetes l)))) ''target'' = Inr s"
        "var_target_corr k = Some (above_threshold 0.3 s)"
        "getitems (fst (load_diabetes l)) (index (above_threshold 0.3 s)) = Inr x"
        "var_X k = Some (fillna 0 x)"
      by (elim exE conjE)
    from f(1) assms(3) have d: "fst (load_diabetes l) = d" by simp
    show ?thesis
      apply (rule exI[of _ s], rule exI[of _ x], rule exI[of _ "0.3"])
      using f d main by simp
  next
    case life
    from life_before_drop[OF assms(2)[unfolded life]] obtain d' s x where
      f: "var_df k = Some d'"
        "getitem (round_matrix (round2 l) (corr d')) ''life_expectancy'' = Inr s"
        "var_y_corr k = Some (above_threshold 0.3 s)"
        "getitems d' (index (above_threshold 0.3 s)) = Inr x"
        "var_X k = Some (fillna 0 x)"
      by (elim exE conjE)
    from f(1) assms(3) have d: "d' = d" by simp
    show ?thesis
      apply (rule exI[of _ s], rule exI[of _ x], rule exI[of _ "0.3"])
      using f d life by simp
  next
    case air
    from air_before_drop[OF assms(2)[unfolded air]] obtain t' s x where
      f: "var_df k = Some (fillna 0 t')"
        "getitem (round_matrix (round2 l) (corr (fillna 0 t'))) ''benzene'' = Inr s"
        "var_y_corr k = Some (above_threshold 0.5 s)"
        "getitems (fillna 0 t') (index (above_threshold 0.5 s)) = Inr x"
        "var_X k = Some (fillna 0 x)"
      by (elim exE conjE)
    from f(1) assms(3) have d: "fillna 0 t' = d" by simp
    show ?thesis
      apply (rule exI[of _ s], rule exI[of _ x], rule exI[of _ "0.5"])
      using f d air by simp
  qed
qed


lemma sample_air_before_drop:
  "snd (exec (before_drop (air_notebook sample_lib sample_world) 6) init) = None"
  "var_df (fst (exec (before_drop (air_notebook sample_lib sample_world) 6) init))
     = Some [(''date'', [Str ''Mon'', Str ''Tue'', Str ''Wed'']), (''temp'', [Num 0, Num 0, Num 0]),
             (''co'', [Num 2, Num 1, Num 0]), (''benzene'', [Num 0, Num 1, Num 2])]"
  by (simp_all add: before_drop_def air_notebook_def init_def stmt_defs cell_defs pandas_defs
        sample_defs Let_def)




section \<open>Missing values\<close>

lemma fill_cell_not_NaN: "fill_cell v c \<noteq> NaN" "NaN \<noteq> fill_cell v c"
  by (cases c; simp add: fill_cell_def)+

lemma no_missing_fillna: "no_missing (fillna v d)"
  by (induction d) (auto simp: no_missing_def fillna_def fill_cell_not_NaN)

lemma no_missing_reset_index: "reset_index d = Inr d' \<Longrightarrow> no_missing d \<Longrightarrow> no_missing d'"
  by (auto simp: reset_index_def no_missing_def Let_def split: if_splits)

lemma no_missing_getitem: "no_missing d \<Longrightarrow> getitem d n = Inr c \<Longrightarrow> NaN \<notin> set c"
  by (auto simp: no_missing_def getitem_Inr list_all_iff dest!: map_of_SomeD)

lemma air_load:
  "files w ''air_quality.csv'' = Some t \<Longrightarrow>
     exec (air_notebook l w ! 0) init
       = (init\<lparr>var_df := Some (fillna 0 t),
            events := [Call ''read_csv'', Read ''air_quality.csv'', Call ''fillna'']\<rparr>, None)"
  by (simp add: air_notebook_def read_csv_def df_fillna_def rd_def emit_def init_def)

lemma life_load_complete:
  assumes "exec (life_notebook l w ! 0) init = (k, None)"
  shows "\<exists>t st d. files w ''life_expectancy.csv'' = Some t \<and> getitem t ''status'' = Inr st
     \<and> reset_index (fillna 0 (setitem t ''status'' (map recode_status st))) = Inr d
     \<and> var_df k = Some d"
  using assms
  by (auto simp: life_notebook_def read_csv_def life_recode_def df_fillna_def df_reset_index_def
        rd_def on_ok_def emit_def
      split: option.splits sum.splits)

lemma life_loaded_columns:
  assumes "getitem t ''status'' = Inr st"
    and "reset_index (fillna 0 (setitem t ''status'' (map recode_status st))) = Inr d"
  shows "getitem d ''status'' = Inr (map recode_status st)"
    and "n \<noteq> ''status'' \<Longrightarrow> map_of t n = Some c \<Longrightarrow> map_of d n = Some (map (fill_cell 0) c)"
    and "no_missing d"
proof -
  from assms(1) have mem: "''status'' \<in> set (columns t)"
    by (auto simp: getitem_Inr dest: map_of_Some_columns)
  let ?d1 = "setitem t ''status'' (map recode_status st)"
  have cols: "columns (fillna 0 ?d1) = columns t"
    using mem by (simp add: columns_fillna columns_setitem)
  from assms(2) obtain name where d: "d = (name, map (\<lambda>i. Num (real i)) [0 ..< nrows (fillna 0 ?d1)]) # fillna 0 ?d1"
      "name \<notin> set (columns t)"
    unfolding cols[symmetric] by (auto simp: reset_index_def Let_def split: if_splits)
  from d mem have ns: "name \<noteq> ''status''" by auto
  show "getitem d ''status'' = Inr (map recode_status st)"
    using d(1) ns mem by (simp add: getitem_Inr map_of_fillna map_of_setitem fill_recode)
  show "map_of d n = Some (map (fill_cell 0) c)" if "n \<noteq> ''status''" "map_of t n = Some c"
  proof -
    from that(2) have "n \<in> set (columns t)" by (rule map_of_Some_columns)
    with d(2) have "n \<noteq> name" by auto
    with d(1) that mem show ?thesis by (simp add: map_of_fillna map_of_setitem)
  qed
  show "no_missing d"
    by (rule no_missing_reset_index[OF assms(2) no_missing_fillna])
qed

lemma life_load_total:
  assumes "files w ''life_expectancy.csv'' = Some t" and "getitem t ''status'' = Inr st"
    and "\<not> (''index'' \<in> set (columns t) \<and> ''level_0'' \<in> set (columns t))"
  shows "\<exists>k d. exec (life_notebook l w ! 0) init = (k, None) \<and> var_df k = Some d
     \<and> reset_index (fillna 0 (setitem t ''status'' (map recode_status st))) = Inr d"
proof -
  from assms(2) have mem: "''status'' \<in> set (columns t)"
    by (auto simp: getitem_Inr dest: map_of_Some_columns)
  let ?d1 = "setitem t ''status'' (map recode_status st)"
  have cols: "columns (fillna 0 ?d1) = columns t"
    using mem by (simp add: columns_fillna columns_setitem)
  from assms(3) have "\<exists>d. reset_index (fillna 0 ?d1) = Inr d"
    by (cases "''index'' \<in> set (columns t)") (simp_all add: reset_index_def cols Let_def)
  then obtain d where d: "reset_index (fillna 0 ?d1) = Inr d" ..
  with assms(1,2) show ?thesis
    by (simp add: life_notebook_def read_csv_def life_recode_def df_fillna_def df_reset_index_def
        rd_def on_ok_def emit_def)
qed

lemma X_filled:
  assumes "(nb = main_notebook l w \<and> c = 6) \<or> (nb = life_notebook l w \<and> c = 5)
      \<or> (nb = air_notebook l w \<and> c = 6)"
    and "exec (before_drop nb c) init = (k, None)" and "var_df k = Some d"
  shows "nb ! c ! 1 = X_fillna"
    and "\<exists>s x. (var_target_corr k = Some s \<or> var_y_corr k = Some s)
          \<and> getitems d (index s) = Inr x \<and> var_X k = Some (fillna 0 x)
          \<and> no_missing (fillna 0 x)"
proof -
  from assms(1) show "nb ! c ! 1 = X_fillna"
    by (auto simp: main_notebook_def life_notebook_def air_notebook_def setup_cell_def)
  from assms(1) obtain outcome where
    "(nb = main_notebook l w \<and> c = 6 \<and> outcome = ''target'')
      \<or> (nb = life_notebook l w \<and> c = 5 \<and> outcome = ''life_expectancy'')
      \<or> (nb = air_notebook l w \<and> c = 6 \<and> outcome = ''benzene'')"
    by blast
  from before_drop_cases[OF this assms(2,3)] obtain s x t where
    f: "var_target_corr k = Some (above_threshold t s) \<or> var_y_corr k = Some (above_threshold t s)"
      "getitems d (index (above_threshold t s)) = Inr x" "var_X k = Some (fillna 0 x)"
    by (elim exE conjE)
  show "\<exists>s x. (var_target_corr k = Some s \<or> var_y_corr k = Some s)
          \<and> getitems d (index s) = Inr x \<and> var_X k = Some (fillna 0 x)
          \<and> no_missing (fillna 0 x)"
    apply (rule exI[of _ "above_threshold t s"], rule exI[of _ x])
    using f no_missing_fillna[of 0 x] by simp
qed

lemma main_y_as_loaded:
  assumes "exec (concat (take 6 (main_notebook l w)) @ take 4 (main_notebook l w ! 6)) init = (k, None)"
  shows "var_df k = Some (fst (load_diabetes l))"
    and "getitem (fst (load_diabetes l)) ''target'' = Inr yv \<Longrightarrow> var_y k = Some yv"
    and "\<exists>yv. getitem (fst (load_diabetes l)) ''target'' = Inr yv"
  using assms
  by (auto simp: main_notebook_def setup_cell_def init_def main_load_def main_frame_def
        main_print_descr_def assign_df_corr_def show_df_corr_def assign_target_corr_def
        show_target_corr_def pairplot_selected_def assign_X_selected_def X_fillna_def
        X_drop_def assign_y_def rd_def on_ok_def emit_def
      split: option.splits sum.splits)

lemma exercise_y_filled:
  assumes "(nb = life_notebook l w \<and> c = 5 \<and> outcome = ''life_expectancy'')
      \<or> (nb = air_notebook l w \<and> c = 6 \<and> outcome = ''benzene'')"
    and "exec (concat (take c nb) @ take 4 (nb ! c)) init = (k, None)"
  shows "\<exists>d yv. var_df k = Some d \<and> no_missing d \<and> getitem d outcome = Inr yv
     \<and> var_y k = Some yv \<and> NaN \<notin> set yv"
proof -
  from assms(1) have p: "take 4 (nb ! c) = take 2 (nb ! c) @ [nb ! c ! 2, nb ! c ! 3]"
    by (auto simp: life_notebook_def air_notebook_def setup_cell_def)
  from assms(2) obtain k1 where k1: "exec (before_drop nb c) init = (k1, None)"
      "exec [nb ! c ! 2, nb ! c ! 3] k1 = (k, None)"
    unfolding p before_drop_def append_assoc[symmetric]
    by (blast dest: exec_append_complete)
  from assms(1) consider (life) "nb = life_notebook l w" "c = 5" | (air) "nb = air_notebook l w" "c = 6"
    by blast
  then obtain d where d: "var_df k1 = Some d" "no_missing d"
  proof cases
    case life
    from life_before_drop[OF k1(1)[unfolded life]] obtain t st d where
      "getitem t ''status'' = Inr st"
      "reset_index (fillna 0 (setitem t ''status'' (map recode_status st))) = Inr d"
      "var_df k1 = Some d"
      by blast
    with life_loaded_columns(3) that show ?thesis by blast
  next
    case air
    from air_before_drop[OF k1(1)[unfolded air]] obtain t where "var_df k1 = Some (fillna 0 t)"
      by blast
    with no_missing_fillna that show ?thesis by blast
  qed
  from assms(1) obtain labels where s: "nb ! c ! 2 = X_drop labels" "nb ! c ! 3 = assign_y outcome"
    by (auto simp: life_notebook_def air_notebook_def setup_cell_def)
  from k1(2) d(1) obtain yv where "var_df k = Some d" "var_y k = Some yv" "getitem d outcome = Inr yv"
    unfolding s
    by (auto simp: X_drop_def assign_y_def rd_def on_ok_def split: option.splits sum.splits)
  with d(2) no_missing_getitem show ?thesis by blast
qed

lemma fill_cells:
  "main_notebook l w ! 6 ! 1 = X_fillna" "main_notebook l w ! 12 ! 2 = X_fillna"
  "life_notebook l w ! 5 ! 1 = X_fillna" "air_notebook l w ! 6 ! 1 = X_fillna"
  "life_notebook l w ! 0 ! 2 = df_fillna" "air_notebook l w ! 0 ! 1 = df_fillna"
  by (simp_all add: main_notebook_def life_notebook_def air_notebook_def setup_cell_def)

text \<open>
  C2, as amended. \<^verbatim>\<open>fillna(0)\<close> turns every missing cell into 0 and keeps every other
  cell, whatever the column, the row and the number of missing cells, so a filled
  table has no missing cell; the fill statements of the notebooks apply it, with the
  constant 0, to whatever table \<open>X\<close> or \<open>df\<close> holds. The air-quality notebook fills the
  whole table as it is read. The life-expectancy notebook fills the table after the
  recode of the status column, which has already turned a missing status into 0;
  every other column of the loaded table is the column of the file, filled. In the
  three notebooks \<open>X\<close>, before the drop, is the selected columns of \<open>df\<close>, filled (and
  filled again in the refit of the main notebook), and in the exercises the outcome
  \<open>y\<close> is a column of the filled table. In the main notebook the table \<open>df\<close> is never
  filled: when \<open>y\<close> is bound, \<open>df\<close> is the table as loaded and \<open>y\<close> its \<open>target\<close> column
  as loaded.
\<close>

theorem missing_values_filled:
  "fill_cell 0 NaN = Num 0
   \<and> (\<forall>a. fill_cell 0 (Num a) = Num a)
   \<and> (\<forall>s. fill_cell 0 (Str s) = Str s)
   \<and> (\<forall>d n. map_of (fillna 0 d) n = map_option (map (fill_cell 0)) (map_of d n))
   \<and> (\<forall>d. no_missing (fillna 0 d))
   \<and> main_notebook l w ! 6 ! 1 = X_fillna
   \<and> main_notebook l w ! 12 ! 2 = X_fillna
   \<and> life_notebook l w ! 5 ! 1 = X_fillna
   \<and> air_notebook l w ! 6 ! 1 = X_fillna
   \<and> life_notebook l w ! 0 ! 2 = df_fillna
   \<and> air_notebook l w ! 0 ! 1 = df_fillna
   \<and> (\<forall>k x. var_X k = Some x
      \<longrightarrow> X_fillna k = Inr (emit [Call ''fillna''] (k\<lparr>var_X := Some (fillna 0 x)\<rparr>)))
   \<and> (\<forall>k d. var_df k = Some d
      \<longrightarrow> df_fillna k = Inr (emit [Call ''fillna''] (k\<lparr>var_df := Some (fillna 0 d)\<rparr>)))
   \<and> (\<forall>t. files w ''air_quality.csv'' = Some t
      \<longrightarrow> exec (air_notebook l w ! 0) init
            = (init\<lparr>var_df := Some (fillna 0 t),
                 events := [Call ''read_csv'', Read ''air_quality.csv'', Call ''fillna'']\<rparr>, None))
   \<and> (\<forall>k. exec (life_notebook l w ! 0) init = (k, None)
      \<longrightarrow> (\<exists>t st d. files w ''life_expectancy.csv'' = Some t \<and> getitem t ''status'' = Inr st
            \<and> var_df k = Some d \<and> no_missing d
            \<and> getitem d ''status'' = Inr (map recode_status st)
            \<and> (\<forall>n c. n \<noteq> ''status'' \<and> map_of t n = Some c
                  \<longrightarrow> map_of d n = Some (map (fill_cell 0) c))))
   \<and> (\<forall>nb c k d. ((nb = main_notebook l w \<and> c = 6) \<or> (nb = life_notebook l w \<and> c = 5)
                 \<or> (nb = air_notebook l w \<and> c = 6))
        \<and> exec (before_drop nb c) init = (k, None) \<and> var_df k = Some d
      \<longrightarrow> (\<exists>s x. (var_target_corr k = Some s \<or> var_y_corr k = Some s)
            \<and> getitems d (index s) = Inr x \<and> var_X k = Some (fillna 0 x)
            \<and> no_missing (fillna 0 x)))
   \<and> (\<forall>nb c outcome k.
        ((nb = life_notebook l w \<and> c = 5 \<and> outcome = ''life_expectancy'')
         \<or> (nb = air_notebook l w \<and> c = 6 \<and> outcome = ''benzene''))
        \<and> exec (concat (take c nb) @ take 4 (nb ! c)) init = (k, None)
      \<longrightarrow> (\<exists>d yv. var_df k = Some d \<and> no_missing d \<and> getitem d outcome = Inr yv
            \<and> var_y k = Some yv \<and> NaN \<notin> set yv))
   \<and> (\<forall>k. exec (concat (take 6 (main_notebook l w)) @ take 4 (main_notebook l w ! 6)) init
           = (k, None)
      \<longrightarrow> var_df k = Some (fst (load_diabetes l))
        \<and> (\<exists>yv. getitem (fst (load_diabetes l)) ''target'' = Inr yv \<and> var_y k = Some yv))"
proof -
  have A: "fill_cell 0 NaN = Num 0"
    by (simp add: fill_cell_def)
  have B: "(\<forall>a. fill_cell 0 (Num a) = Num a)"
    by (simp add: fill_cell_def)
  have C: "(\<forall>s. fill_cell 0 (Str s) = Str s)"
    by (simp add: fill_cell_def)
  have D: "(\<forall>d n. map_of (fillna 0 d) n = map_option (map (fill_cell 0)) (map_of d n))"
    by (simp add: map_of_fillna)
  have E: "(\<forall>d. no_missing (fillna 0 d))"
    by (simp add: no_missing_fillna)
  have P1: "main_notebook l w ! 6 ! 1 = X_fillna"
    by (rule fill_cells)
  have P2: "main_notebook l w ! 12 ! 2 = X_fillna"
    by (rule fill_cells)
  have P3: "life_notebook l w ! 5 ! 1 = X_fillna"
    by (rule fill_cells)
  have P4: "air_notebook l w ! 6 ! 1 = X_fillna"
    by (rule fill_cells)
  have P5: "life_notebook l w ! 0 ! 2 = df_fillna"
    by (rule fill_cells)
  have P6: "air_notebook l w ! 0 ! 1 = df_fillna"
    by (rule fill_cells)
  have L1: "(\<forall>k x. var_X k = Some x
      \<longrightarrow> X_fillna k = Inr (emit [Call ''fillna''] (k\<lparr>var_X := Some (fillna 0 x)\<rparr>)))"
    by (simp add: X_fillna_def rd_def)
  have L2: "(\<forall>k d. var_df k = Some d
      \<longrightarrow> df_fillna k = Inr (emit [Call ''fillna''] (k\<lparr>var_df := Some (fillna 0 d)\<rparr>)))"
    by (simp add: df_fillna_def rd_def)
  have F: "(\<forall>t. files w ''air_quality.csv'' = Some t
      \<longrightarrow> exec (air_notebook l w ! 0) init
            = (init\<lparr>var_df := Some (fillna 0 t),
                 events := [Call ''read_csv'', Read ''air_quality.csv'', Call ''fillna'']\<rparr>, None))"
    by (intro allI impI) (rule air_load)
  have G: "(\<forall>k. exec (life_notebook l w ! 0) init = (k, None)
      \<longrightarrow> (\<exists>t st d. files w ''life_expectancy.csv'' = Some t \<and> getitem t ''status'' = Inr st
            \<and> var_df k = Some d \<and> no_missing d
            \<and> getitem d ''status'' = Inr (map recode_status st)
            \<and> (\<forall>n c. n \<noteq> ''status'' \<and> map_of t n = Some c
                  \<longrightarrow> map_of d n = Some (map (fill_cell 0) c))))"
    proof (intro allI impI)
    fix k
    assume "exec (life_notebook l w ! 0) init = (k, None)"
    from life_load_complete[OF this] obtain t st d where
      f: "files w ''life_expectancy.csv'' = Some t" "getitem t ''status'' = Inr st"
        "reset_index (fillna 0 (setitem t ''status'' (map recode_status st))) = Inr d"
        "var_df k = Some d"
      by (elim exE conjE)
    note c = life_loaded_columns[OF f(2,3)]
    have "\<forall>n c. n \<noteq> ''status'' \<and> map_of t n = Some c \<longrightarrow> map_of d n = Some (map (fill_cell 0) c)"
      using c(2) by blast
    with f(1,2,4) c(1,3)
    show "\<exists>t st d. files w ''life_expectancy.csv'' = Some t \<and> getitem t ''status'' = Inr st
            \<and> var_df k = Some d \<and> no_missing d
            \<and> getitem d ''status'' = Inr (map recode_status st)
            \<and> (\<forall>n c. n \<noteq> ''status'' \<and> map_of t n = Some c
                  \<longrightarrow> map_of d n = Some (map (fill_cell 0) c))"
      by blast
  qed
  have H: "(\<forall>nb c k d. ((nb = main_notebook l w \<and> c = 6) \<or> (nb = life_notebook l w \<and> c = 5)
                 \<or> (nb = air_notebook l w \<and> c = 6))
        \<and> exec (before_drop nb c) init = (k, None) \<and> var_df k = Some d
      \<longrightarrow> (\<exists>s x. (var_target_corr k = Some s \<or> var_y_corr k = Some s)
            \<and> getitems d (index s) = Inr x \<and> var_X k = Some (fillna 0 x)
            \<and> no_missing (fillna 0 x)))"
    by (intro allI impI; elim conjE) (rule X_filled(2); assumption)
  have I: "(\<forall>nb c outcome k.
        ((nb = life_notebook l w \<and> c = 5 \<and> outcome = ''life_expectancy'')
         \<or> (nb = air_notebook l w \<and> c = 6 \<and> outcome = ''benzene''))
        \<and> exec (concat (take c nb) @ take 4 (nb ! c)) init = (k, None)
      \<longrightarrow> (\<exists>d yv. var_df k = Some d \<and> no_missing d \<and> getitem d outcome = Inr yv
            \<and> var_y k = Some yv \<and> NaN \<notin> set yv))"
    by (intro allI impI; elim conjE) (rule exercise_y_filled; assumption)
  have J: "(\<forall>k. exec (concat (take 6 (main_notebook l w)) @ take 4 (main_notebook l w ! 6)) init
           = (k, None)
      \<longrightarrow> var_df k = Some (fst (load_diabetes l))
        \<and> (\<exists>yv. getitem (fst (load_diabetes l)) ''target'' = Inr yv \<and> var_y k = Some yv))"
    proof (intro allI impI)
    fix k
    assume a: "exec (concat (take 6 (main_notebook l w)) @ take 4 (main_notebook l w ! 6)) init
           = (k, None)"
    from main_y_as_loaded(3)[OF a] obtain yv where
      yv: "getitem (fst (load_diabetes l)) ''target'' = Inr yv" ..
    from main_y_as_loaded(1)[OF a] main_y_as_loaded(2)[OF a yv] yv
    show "var_df k = Some (fst (load_diabetes l))
        \<and> (\<exists>yv. getitem (fst (load_diabetes l)) ''target'' = Inr yv \<and> var_y k = Some yv)"
      by blast
  qed
  show ?thesis
    apply (rule conjI, rule A)
    apply (rule conjI, rule B)
    apply (rule conjI, rule C)
    apply (rule conjI, rule D)
    apply (rule conjI, rule E)
    apply (rule conjI, rule P1)
    apply (rule conjI, rule P2)
    apply (rule conjI, rule P3)
    apply (rule conjI, rule P4)
    apply (rule conjI, rule P5)
    apply (rule conjI, rule P6)
    apply (rule conjI, rule L1)
    apply (rule conjI, rule L2)
    apply (rule conjI, rule F)
    apply (rule conjI, rule G)
    apply (rule conjI, rule H)
    apply (rule conjI, rule I)
    apply (rule J)
    done
qed

lemma sample_y_reached:
  "exec (concat (take 6 (main_notebook sample_lib sample_world))
      @ take 4 (main_notebook sample_lib sample_world ! 6)) init
   = (fst (exec (concat (take 6 (main_notebook sample_lib sample_world))
      @ take 4 (main_notebook sample_lib sample_world ! 6)) init), None)"
  "exec (concat (take 6 (air_notebook sample_lib sample_world))
      @ take 4 (air_notebook sample_lib sample_world ! 6)) init
   = (fst (exec (concat (take 6 (air_notebook sample_lib sample_world))
      @ take 4 (air_notebook sample_lib sample_world ! 6)) init), None)"
  by (simp_all add: prod_eq_iff main_notebook_def air_notebook_def init_def stmt_defs cell_defs
        pandas_defs sample_defs Let_def)

lemma sample_life_load:
  "exec (life_notebook sample_lib sample_world ! 0) init
   = (fst (exec (life_notebook sample_lib sample_world ! 0) init), None)"
  by (simp add: prod_eq_iff life_notebook_def init_def stmt_defs pandas_defs sample_defs Let_def)

theorem missing_values_filled_witness:
  "files sample_world ''air_quality.csv'' = Some sample_air
   \<and> exec (air_notebook sample_lib sample_world ! 0) init
       = (init\<lparr>var_df := Some (fillna 0 sample_air),
            events := [Call ''read_csv'', Read ''air_quality.csv'', Call ''fillna'']\<rparr>, None)
   \<and> fillna 0 sample_air
       = [(''date'', [Str ''Mon'', Str ''Tue'', Str ''Wed'']), (''temp'', [Num 0, Num 0, Num 0]),
          (''co'', [Num 2, Num 1, Num 0]), (''benzene'', [Num 0, Num 1, Num 2])]
   \<and> snd (exec (life_notebook sample_lib sample_world ! 0) init) = None
   \<and> (\<exists>d. var_df (fst (exec (life_notebook sample_lib sample_world ! 0) init)) = Some d
          \<and> no_missing d)
   \<and> snd (exec (before_drop (air_notebook sample_lib sample_world) 6) init) = None
   \<and> (\<exists>x. var_X (fst (exec (before_drop (air_notebook sample_lib sample_world) 6) init))
            = Some (fillna 0 x))
   \<and> snd (exec (concat (take 6 (air_notebook sample_lib sample_world))
              @ take 4 (air_notebook sample_lib sample_world ! 6)) init) = None
   \<and> (\<exists>yv. var_y (fst (exec (concat (take 6 (air_notebook sample_lib sample_world))
              @ take 4 (air_notebook sample_lib sample_world ! 6)) init)) = Some yv
          \<and> NaN \<notin> set yv)
   \<and> snd (exec (concat (take 6 (main_notebook sample_lib sample_world))
              @ take 4 (main_notebook sample_lib sample_world ! 6)) init) = None
   \<and> var_y (fst (exec (concat (take 6 (main_notebook sample_lib sample_world))
              @ take 4 (main_notebook sample_lib sample_world ! 6)) init))
       = Some [Num 1, Num 2, Num 3]
   \<and> X_fillna (init\<lparr>var_X := Some [(''bmi'', [Num 1, NaN])]\<rparr>)
       = Inr (emit [Call ''fillna''] (init\<lparr>var_X := Some [(''bmi'', [Num 1, Num 0])]\<rparr>))"
proof -
  let ?a = "exec (before_drop (air_notebook sample_lib sample_world) 6) init"
  let ?m = "exec (concat (take 6 (main_notebook sample_lib sample_world))
              @ take 4 (main_notebook sample_lib sample_world ! 6)) init"
  let ?y = "exec (concat (take 6 (air_notebook sample_lib sample_world))
              @ take 4 (air_notebook sample_lib sample_world ! 6)) init"
  let ?l = "exec (life_notebook sample_lib sample_world ! 0) init"
  note t = missing_values_filled[where l = sample_lib and w = sample_world]
  have f: "files sample_world ''air_quality.csv'' = Some sample_air"
    by (simp add: sample_world_def)
  note a = t[THEN conjunct2, THEN conjunct2, THEN conjunct2, THEN conjunct2, THEN conjunct2,
      THEN conjunct2, THEN conjunct2, THEN conjunct2, THEN conjunct2,
      THEN conjunct2, THEN conjunct2, THEN conjunct2, THEN conjunct2,
      THEN conjunct1, rule_format, OF f]
  have tb: "fillna 0 sample_air
       = [(''date'', [Str ''Mon'', Str ''Tue'', Str ''Wed'']), (''temp'', [Num 0, Num 0, Num 0]),
          (''co'', [Num 2, Num 1, Num 0]), (''benzene'', [Num 0, Num 1, Num 2])]"
    by (simp add: sample_air_def fillna_def fill_cell_def)
  have ls: "snd ?l = None"
    by (subst sample_life_load) (rule snd_conv)
  from t[THEN conjunct2, THEN conjunct2, THEN conjunct2, THEN conjunct2, THEN conjunct2,
      THEN conjunct2, THEN conjunct2, THEN conjunct2, THEN conjunct2,
      THEN conjunct2, THEN conjunct2, THEN conjunct2, THEN conjunct2,
      THEN conjunct2, THEN conjunct1, rule_format, OF sample_life_load]
  have ld: "\<exists>d. var_df (fst ?l) = Some d \<and> no_missing d"
    by blast
  have p: "?a = (fst ?a, None)"
    using sample_air_before_drop(1) by (simp add: prod_eq_iff)
  have n: "(air_notebook sample_lib sample_world = main_notebook sample_lib sample_world \<and> (6::nat) = 6)
      \<or> (air_notebook sample_lib sample_world = life_notebook sample_lib sample_world \<and> (6::nat) = 5)
      \<or> (air_notebook sample_lib sample_world = air_notebook sample_lib sample_world \<and> (6::nat) = 6)"
    by simp
  from t[THEN conjunct2, THEN conjunct2, THEN conjunct2, THEN conjunct2, THEN conjunct2,
      THEN conjunct2, THEN conjunct2, THEN conjunct2, THEN conjunct2,
      THEN conjunct2, THEN conjunct2, THEN conjunct2, THEN conjunct2,
      THEN conjunct2, THEN conjunct2, THEN conjunct1, rule_format, OF conjI[OF n conjI[OF p sample_air_before_drop(2)]]]
  have x: "\<exists>x. var_X (fst ?a) = Some (fillna 0 x)"
    by blast
  have o: "(air_notebook sample_lib sample_world = life_notebook sample_lib sample_world
        \<and> (6::nat) = 5 \<and> ''benzene'' = ''life_expectancy'')
      \<or> (air_notebook sample_lib sample_world = air_notebook sample_lib sample_world
        \<and> (6::nat) = 6 \<and> ''benzene'' = ''benzene'')"
    by simp
  from t[THEN conjunct2, THEN conjunct2, THEN conjunct2, THEN conjunct2, THEN conjunct2,
      THEN conjunct2, THEN conjunct2, THEN conjunct2, THEN conjunct2,
      THEN conjunct2, THEN conjunct2, THEN conjunct2, THEN conjunct2,
      THEN conjunct2, THEN conjunct2, THEN conjunct2, THEN conjunct1, rule_format, OF conjI[OF o sample_y_reached(2)]]
  have y: "\<exists>yv. var_y (fst ?y) = Some yv \<and> NaN \<notin> set yv"
    by blast
  have ys: "snd ?y = None"
    by (subst sample_y_reached(2)) (rule snd_conv)
  have ms: "snd ?m = None"
    by (subst sample_y_reached(1)) (rule snd_conv)
  from t[THEN conjunct2, THEN conjunct2, THEN conjunct2, THEN conjunct2, THEN conjunct2,
      THEN conjunct2, THEN conjunct2, THEN conjunct2, THEN conjunct2,
      THEN conjunct2, THEN conjunct2, THEN conjunct2, THEN conjunct2,
      THEN conjunct2, THEN conjunct2, THEN conjunct2, THEN conjunct2, rule_format, OF sample_y_reached(1)]
  have "\<exists>yv. getitem (fst (load_diabetes sample_lib)) ''target'' = Inr yv \<and> var_y (fst ?m) = Some yv"
    by (rule conjunct2)
  then have my: "var_y (fst ?m) = Some [Num 1, Num 2, Num 3]"
    by (auto simp: sample_lib_def sample_diabetes_def getitem_def)
  have "var_X (init\<lparr>var_X := Some [(''bmi'', [Num 1, NaN])]\<rparr>) = Some [(''bmi'', [Num 1, NaN])]"
    by simp
  from t[THEN conjunct2, THEN conjunct2, THEN conjunct2, THEN conjunct2, THEN conjunct2,
      THEN conjunct2, THEN conjunct2, THEN conjunct2, THEN conjunct2,
      THEN conjunct2, THEN conjunct2, THEN conjunct1, rule_format, OF this]
  have xf: "X_fillna (init\<lparr>var_X := Some [(''bmi'', [Num 1, NaN])]\<rparr>)
       = Inr (emit [Call ''fillna''] (init\<lparr>var_X := Some [(''bmi'', [Num 1, Num 0])]\<rparr>))"
    by (simp add: fillna_def fill_cell_def)
  show ?thesis
    apply (rule conjI, rule f)
    apply (rule conjI, rule a)
    apply (rule conjI, rule tb)
    apply (rule conjI, rule ls)
    apply (rule conjI, rule ld)
    apply (rule conjI, rule sample_air_before_drop(1))
    apply (rule conjI, rule x)
    apply (rule conjI, rule ys)
    apply (rule conjI, rule y)
    apply (rule conjI, rule ms)
    apply (rule conjI, rule my)
    apply (rule xf)
    done
qed

text \<open>
  C2, as stated, fails in two places. In the main notebook only the selected features
  are filled: on a diabetes table with a missing target value, the outcome \<open>y\<close> handed
  to the split and to the fit still holds the missing value, and so does \<open>df\<close>. In the
  life-expectancy notebook the missing status is replaced by the conditional of the
  recode, before any fill: after the recode the status column is complete while the
  \<open>bmi\<close> column still has its missing cell.
\<close>

theorem missing_target_kept_counterexample:
  "(case exec (concat (take 6 (main_notebook gappy_lib sample_world))
           @ take 4 (main_notebook gappy_lib sample_world ! 6)) init of (k, e) \<Rightarrow>
      e = None
      \<and> var_df k = Some [(''bmi'', [Num 1, NaN, Num 2, Num 3]),
                         (''target'', [Num 1, Num 2, NaN, Num 3])]
      \<and> var_X k = Some [(''bmi'', [Num 1, Num 0, Num 2, Num 3])]
      \<and> var_y k = Some [Num 1, Num 2, NaN, Num 3])
   \<and> (case run (main_notebook gappy_lib sample_world) of (k, e) \<Rightarrow>
      var_y_train k = Some [NaN, Num 3, Num 1]
      \<and> e = Some (Raised ''Input contains NaN or a string''))
   \<and> (case exec (take 2 (life_notebook sample_lib sample_world ! 0)) init of (k, e) \<Rightarrow>
      e = None
      \<and> var_df k = Some [(''country'', [Str ''Chile'', Str ''Norway'', Str ''Peru'']),
                         (''status'', [Num 0, Num 1, Num 0]),
                         (''life_expectancy'', [Num 1, Num 2, Num 3]),
                         (''bmi'', [Num 2, NaN, Num 4])])"
  by (simp add: run_def main_notebook_def life_notebook_def init_def stmt_defs cell_defs
        pandas_defs sample_defs gappy_lib_def gappy_diabetes_def Let_def)

section \<open>The format of the input files\<close>

text \<open>
  C6, as amended. Neither exercise notebook validates what a CSV file holds. The
  air-quality notebook takes any table: its loading cell completes on every file, and
  each column of the loaded table is the column of the file with its numbers and
  strings as read and 0 in its missing cells. The life-expectancy notebook takes any
  table with a \<open>status\<close> column (that does not hold both an \<open>index\<close> and a \<open>level_0\<close>
  column): it converts the \<open>status\<close> column, whatever it holds, to the numbers 0 and 1,
  and every other column of the loaded table is the column of the file, filled.
\<close>

theorem csv_consumed_as_loaded:
  "(\<forall>t. files w ''air_quality.csv'' = Some t
      \<longrightarrow> exec (air_notebook l w ! 0) init
            = (init\<lparr>var_df := Some (fillna 0 t),
                 events := [Call ''read_csv'', Read ''air_quality.csv'', Call ''fillna'']\<rparr>, None))
   \<and> (\<forall>d n. map_of (fillna 0 d) n = map_option (map (fill_cell 0)) (map_of d n))
   \<and> (\<forall>a. fill_cell 0 (Num a) = Num a)
   \<and> (\<forall>s. fill_cell 0 (Str s) = Str s)
   \<and> (\<forall>t st. files w ''life_expectancy.csv'' = Some t \<and> getitem t ''status'' = Inr st
        \<and> \<not> (''index'' \<in> set (columns t) \<and> ''level_0'' \<in> set (columns t))
      \<longrightarrow> (\<exists>k d. exec (life_notebook l w ! 0) init = (k, None) \<and> var_df k = Some d
            \<and> getitem d ''status'' = Inr (map recode_status st)
            \<and> (\<forall>n c. n \<noteq> ''status'' \<and> map_of t n = Some c
                  \<longrightarrow> map_of d n = Some (map (fill_cell 0) c))))
   \<and> (\<forall>c. is_numeric [recode_status c])"
proof -
  have A: "(\<forall>t. files w ''air_quality.csv'' = Some t
      \<longrightarrow> exec (air_notebook l w ! 0) init
            = (init\<lparr>var_df := Some (fillna 0 t),
                 events := [Call ''read_csv'', Read ''air_quality.csv'', Call ''fillna'']\<rparr>, None))"
    by (intro allI impI) (rule air_load)
  have B: "(\<forall>d n. map_of (fillna 0 d) n = map_option (map (fill_cell 0)) (map_of d n))"
    by (simp add: map_of_fillna)
  have C: "(\<forall>a. fill_cell 0 (Num a) = Num a)"
    by (simp add: fill_cell_def)
  have D: "(\<forall>s. fill_cell 0 (Str s) = Str s)"
    by (simp add: fill_cell_def)
  have E: "(\<forall>t st. files w ''life_expectancy.csv'' = Some t \<and> getitem t ''status'' = Inr st
        \<and> \<not> (''index'' \<in> set (columns t) \<and> ''level_0'' \<in> set (columns t))
      \<longrightarrow> (\<exists>k d. exec (life_notebook l w ! 0) init = (k, None) \<and> var_df k = Some d
            \<and> getitem d ''status'' = Inr (map recode_status st)
            \<and> (\<forall>n c. n \<noteq> ''status'' \<and> map_of t n = Some c
                  \<longrightarrow> map_of d n = Some (map (fill_cell 0) c))))"
    proof (intro allI impI, elim conjE)
    fix t st
    assume a: "files w ''life_expectancy.csv'' = Some t" "getitem t ''status'' = Inr st"
      "\<not> (''index'' \<in> set (columns t) \<and> ''level_0'' \<in> set (columns t))"
    from life_load_total[OF a, where l = l] obtain k d where
      f: "exec (life_notebook l w ! 0) init = (k, None)" "var_df k = Some d"
        "reset_index (fillna 0 (setitem t ''status'' (map recode_status st))) = Inr d"
      by (elim exE conjE)
    note c = life_loaded_columns[OF a(2) f(3)]
    have "\<forall>n c. n \<noteq> ''status'' \<and> map_of t n = Some c \<longrightarrow> map_of d n = Some (map (fill_cell 0) c)"
      using c(2) by blast
    with f(1,2) c(1)
    show "\<exists>k d. exec (life_notebook l w ! 0) init = (k, None) \<and> var_df k = Some d
            \<and> getitem d ''status'' = Inr (map recode_status st)
            \<and> (\<forall>n c. n \<noteq> ''status'' \<and> map_of t n = Some c
                  \<longrightarrow> map_of d n = Some (map (fill_cell 0) c))"
      by blast
  qed
  have F: "(\<forall>c. is_numeric [recode_status c])"
    by (simp add: is_numeric_def recode_status_def)
  show ?thesis
    apply (rule conjI, rule A)
    apply (rule conjI, rule B)
    apply (rule conjI, rule C)
    apply (rule conjI, rule D)
    apply (rule conjI, rule E)
    apply (rule F)
    done
qed

theorem csv_consumed_as_loaded_witness:
  "files sample_world ''life_expectancy.csv'' = Some sample_life
   \<and> getitem sample_life ''status'' = Inr [Str ''Developing'', Str ''Developed'', NaN]
   \<and> ''index'' \<notin> set (columns sample_life)
   \<and> (\<exists>k d. exec (life_notebook sample_lib sample_world ! 0) init = (k, None)
          \<and> var_df k = Some d
          \<and> getitem d ''status'' = Inr [Num 0, Num 1, Num 0]
          \<and> map_of d ''country'' = Some [Str ''Chile'', Str ''Norway'', Str ''Peru'']
          \<and> map_of d ''bmi'' = Some [Num 2, Num 0, Num 4])
   \<and> files sample_world ''air_quality.csv'' = Some sample_air
   \<and> exec (air_notebook sample_lib sample_world ! 0) init
       = (init\<lparr>var_df := Some (fillna 0 sample_air),
            events := [Call ''read_csv'', Read ''air_quality.csv'', Call ''fillna'']\<rparr>, None)"
proof -
  have f: "files sample_world ''life_expectancy.csv'' = Some sample_life"
    "files sample_world ''air_quality.csv'' = Some sample_air"
    by (simp_all add: sample_world_def)
  have s: "getitem sample_life ''status'' = Inr [Str ''Developing'', Str ''Developed'', NaN]"
    by (simp add: sample_life_def getitem_def)
  have i: "''index'' \<notin> set (columns sample_life)"
    by (simp add: sample_life_def columns_def)
  then have n: "\<not> (''index'' \<in> set (columns sample_life) \<and> ''level_0'' \<in> set (columns sample_life))"
    by simp
  have m: "map_of sample_life ''country'' = Some [Str ''Chile'', Str ''Norway'', Str ''Peru'']"
    "map_of sample_life ''bmi'' = Some [Num 2, NaN, Num 4]"
    by (simp_all add: sample_life_def)
  from csv_consumed_as_loaded[where l = sample_lib and w = sample_world, THEN conjunct2,
      THEN conjunct2, THEN conjunct2, THEN conjunct2, THEN conjunct1, rule_format,
      OF conjI[OF f(1) conjI[OF s n]]]
  obtain k d where k: "exec (life_notebook sample_lib sample_world ! 0) init = (k, None)"
      "var_df k = Some d"
      "getitem d ''status'' = Inr (map recode_status [Str ''Developing'', Str ''Developed'', NaN])"
      "\<forall>n c. n \<noteq> ''status'' \<and> map_of sample_life n = Some c
          \<longrightarrow> map_of d n = Some (map (fill_cell 0) c)"
    by (elim exE conjE)
  from k(4) m have "map_of d ''country'' = Some (map (fill_cell 0) [Str ''Chile'', Str ''Norway'', Str ''Peru''])"
    "map_of d ''bmi'' = Some (map (fill_cell 0) [Num 2, NaN, Num 4])"
    by simp_all
  with k(1,2,3)
  have e: "\<exists>k d. exec (life_notebook sample_lib sample_world ! 0) init = (k, None)
          \<and> var_df k = Some d
          \<and> getitem d ''status'' = Inr [Num 0, Num 1, Num 0]
          \<and> map_of d ''country'' = Some [Str ''Chile'', Str ''Norway'', Str ''Peru'']
          \<and> map_of d ''bmi'' = Some [Num 2, Num 0, Num 4]"
    by (auto simp: recode_status_def fill_cell_def)
  note a = csv_consumed_as_loaded[where l = sample_lib and w = sample_world, THEN conjunct1, rule_format, OF f(2)]
  show ?thesis
    apply (rule conjI, rule f(1))
    apply (rule conjI, rule s)
    apply (rule conjI, rule i)
    apply (rule conjI, rule e)
    apply (rule conjI, rule f(2))
    apply (rule a)
    done
qed

text \<open>
  C6, as stated, fails on the status column of the life-expectancy file: it is loaded
  as a column of strings, which is not numeric, and the notebook converts it.
\<close>

theorem status_converted_counterexample:
  "getitem sample_life ''status'' = Inr [Str ''Developing'', Str ''Developed'', NaN]
   \<and> \<not> is_numeric [Str ''Developing'', Str ''Developed'', NaN]
   \<and> (case exec (life_notebook sample_lib sample_world ! 0) init of (k, e) \<Rightarrow>
      e = None
      \<and> var_df k = Some [(''index'', [Num 0, Num 1, Num 2]),
                         (''country'', [Str ''Chile'', Str ''Norway'', Str ''Peru'']),
                         (''status'', [Num 0, Num 1, Num 0]),
                         (''life_expectancy'', [Num 1, Num 2, Num 3]),
                         (''bmi'', [Num 2, Num 0, Num 4])])"
  by (simp add: life_notebook_def init_def stmt_defs pandas_defs sample_defs Let_def upt_rec)

end
